theory Spec2Isabelle
  imports Complex_Main
begin

section \<open>Data model of the reaction kernel\<close>

text \<open>
  The kernel (\<^verbatim>\<open>crosssections.cc\<close>, \<^verbatim>\<open>distributions.cc\<close>) computes with C++
  \<^verbatim>\<open>double\<close> and \<^verbatim>\<open>float\<close>. They are embedded as \<^typ>\<open>real\<close>: rounding is
  abstracted, comparisons and branch structure are kept. Where the source divides by a
  quantity that can be zero and the IEEE result (NaN, infinity) decides which branch is
  taken afterwards, the model writes the case out instead of using the total division of HOL.
\<close>

type_synonym double = real

text \<open>
  A particle type is a read-only record of the particle registry. \<open>pdgcode\<close> is the signed
  value of \<^verbatim>\<open>PdgCode::code()\<close>, \<open>spin\<close> is \<open>2J\<close> (a small unsigned number),
  \<open>iso_multiplet\<close> identifies the isospin multiplet the type points to. The classification
  predicates are fields, as the registry answers them.
\<close>

record ParticleType =
  pdgcode :: int
  name :: string
  mass :: double
  width_at_pole :: double
  min_mass_kinematic :: double
  min_mass_spectral :: double
  spin :: nat
  charge :: int
  baryon_number :: int
  iso_multiplet :: nat
  is_stable :: bool
  is_nucleon :: bool
  is_Delta :: bool
  is_Nstar :: bool
  is_Nstar1535 :: bool
  is_Deltastar :: bool
  is_hyperon :: bool
  is_kaon :: bool
  is_pion :: bool
  is_baryon :: bool
  is_meson :: bool
  is_nucleus :: bool
  is_deuteron :: bool
  is_dprime :: bool

text \<open>\<^verbatim>\<open>ParticleType::operator==\<close>: equality is by identifier.\<close>

definition same_type :: "ParticleType \<Rightarrow> ParticleType \<Rightarrow> bool" where
  "same_type a b = (pdgcode a = pdgcode b)"

text \<open>
  Modelled from the spec: \<^verbatim>\<open>pdgcode.h\<close> is not among the sources. An antiparticle carries
  the PDG code of its particle with the sign flipped (spec, section 8: "PDG signs flipped"),
  so the antiparticle sign is the sign of the code.
\<close>

definition antiparticle_sign :: "ParticleType \<Rightarrow> int" where
  "antiparticle_sign t = (if pdgcode t < 0 then - 1 else 1)"

definition is_antiparticle_of :: "ParticleType \<Rightarrow> ParticleType \<Rightarrow> bool" where
  "is_antiparticle_of a b = (pdgcode a = - pdgcode b)"

definition get_antiparticle_pdgcode :: "ParticleType \<Rightarrow> int" where
  "get_antiparticle_pdgcode t = - pdgcode t"

record ParticleData =
  type :: ParticleType
  effective_mass :: double

datatype ProcessType = Elastic | TwoToOne | TwoToTwo | StringSoft | StringHard

record CollisionBranch =
  particle_types :: "ParticleType list"
  weight :: double
  get_type :: ProcessType

datatype IncludedReactions =
  IR_Elastic | NN_to_NR | NN_to_DR | KN_to_KN | KN_to_KDelta | Strangeness_exchange

text \<open>\<^verbatim>\<open>ReactionsBitSet\<close> is a \<^verbatim>\<open>std::bitset\<close> over the reactions: the set of the bits that are on.\<close>

type_synonym ReactionsBitSet = "IncludedReactions set"

datatype NNbarTreatment = NoAnnihilation | Resonances | Strings

datatype StringSoftType = SingleDiffAX | SingleDiffXB | DoubleDiff | NonDiff | NoSoftType

text \<open>
  A \<^verbatim>\<open>std::runtime_error\<close> carries the text streamed into it; the pieces are kept apart so
  that the numbers in a message can be read back. A failed \<^verbatim>\<open>assert\<close> ends the call.
\<close>

datatype msg_item = Str string | UInt nat | Dbl double

datatype error = RuntimeError "msg_item list" | AssertionFailed string

definition bindE :: "error + 'a \<Rightarrow> ('a \<Rightarrow> error + 'b) \<Rightarrow> error + 'b" where
  "bindE m f = (case m of Inl e \<Rightarrow> Inl e | Inr x \<Rightarrow> f x)"

definition cassert :: "bool \<Rightarrow> string \<Rightarrow> error + unit" where
  "cassert c what = (if c then Inr () else Inl (AssertionFailed what))"

text \<open>A \<^verbatim>\<open>for\<close> loop over a container whose body may end the call with an error.\<close>

fun for_each :: "'a list \<Rightarrow> ('a \<Rightarrow> 's \<Rightarrow> error + 's) \<Rightarrow> 's \<Rightarrow> error + 's" where
  "for_each [] body s = Inr s"
| "for_each (x # xs) body s = bindE (body x s) (for_each xs body)"

subsection \<open>Constants\<close>

text \<open>
  Modelled from the spec: \<^verbatim>\<open>constants.h\<close> and \<^verbatim>\<open>pdgcode_constants.h\<close> are not among the
  sources. \<open>really_small\<close> is the spec's \<open>\<epsilon>_small\<close>; the PDG codes are the standard
  numbers of the named species, written in hexadecimal digits as \<^verbatim>\<open>PdgCode::code()\<close>
  returns them. Only their being pairwise different enters the proofs.
\<close>

definition really_small :: double where "really_small = 1 / 1000000"
definition hbarc :: double where "hbarc = 0.197327053"
definition fm2_mb :: double where "fm2_mb = 0.1"
definition nucleon_mass :: double where "nucleon_mass = 0.938"

definition pdg_p :: int where "pdg_p = 0x2212"
definition pdg_n :: int where "pdg_n = 0x2112"
definition pdg_pi_p :: int where "pdg_pi_p = 0x211"
definition pdg_pi_z :: int where "pdg_pi_z = 0x111"
definition pdg_pi_m :: int where "pdg_pi_m = - 0x211"
definition pdg_K_p :: int where "pdg_K_p = 0x321"
definition pdg_K_z :: int where "pdg_K_z = 0x311"
definition pdg_Kbar_z :: int where "pdg_Kbar_z = - 0x311"
definition pdg_K_m :: int where "pdg_K_m = - 0x321"
definition pdg_Lambda :: int where "pdg_Lambda = 0x3122"
definition pdg_Sigma_p :: int where "pdg_Sigma_p = 0x3222"
definition pdg_Sigma_z :: int where "pdg_Sigma_z = 0x3212"
definition pdg_Sigma_m :: int where "pdg_Sigma_m = 0x3112"
definition pdg_Delta_pp :: int where "pdg_Delta_pp = 0x2224"
definition pdg_Delta_p :: int where "pdg_Delta_p = 0x2214"
definition pdg_Delta_z :: int where "pdg_Delta_z = 0x2114"
definition pdg_Delta_m :: int where "pdg_Delta_m = 0x1114"
definition pdg_rho_z :: int where "pdg_rho_z = 0x113"
definition pdg_h1 :: int where "pdg_h1 = 0x10223"
definition pdg_decimal_d :: int where "pdg_decimal_d = 1000010020"
definition pdg_decimal_antid :: int where "pdg_decimal_antid = - 1000010020"

subsection \<open>Kinematics\<close>

text \<open>
  Modelled from the spec: \<^verbatim>\<open>kinematics.h\<close> is not among the sources. Section 4.A gives
  \<open>pCM_sqr(sqrts, m1, m2) = ((s - (m1+m2)\<^sup>2)(s - (m1-m2)\<^sup>2)) / (4s)\<close> with \<open>s = sqrts\<^sup>2\<close>;
  \<open>pCM_sqr_from_s\<close> is the same quantity as a function of \<open>s\<close>.
\<close>

definition pCM_sqr_from_s :: "double \<Rightarrow> double \<Rightarrow> double \<Rightarrow> double" where
  "pCM_sqr_from_s s m1 m2 = ((s - (m1 + m2)\<^sup>2) * (s - (m1 - m2)\<^sup>2)) / (4 * s)"

definition pCM_sqr :: "double \<Rightarrow> double \<Rightarrow> double \<Rightarrow> double" where
  "pCM_sqr sqrts m1 m2 = pCM_sqr_from_s (sqrts * sqrts) m1 m2"

text \<open>\<^verbatim>\<open>pow_int(x, 2)\<close> and \<^verbatim>\<open>std::pow\<close> on a positive base.\<close>

definition pow_int :: "double \<Rightarrow> nat \<Rightarrow> double" where
  "pow_int x n = x ^ n"

definition std_pow :: "double \<Rightarrow> double \<Rightarrow> double" where
  "std_pow x y = x powr y"

subsection \<open>Detailed balance for stable particles\<close>

definition detailed_balance_factor_stable ::
  "double \<Rightarrow> ParticleType \<Rightarrow> ParticleType \<Rightarrow> ParticleType \<Rightarrow> ParticleType \<Rightarrow> double" where
  "detailed_balance_factor_stable s a b c d =
     (let spin_factor = real ((spin c + 1) * (spin d + 1));
          spin_factor = spin_factor / real ((spin a + 1) * (spin b + 1));
          symmetry_factor = real (1 + of_bool (same_type a b));
          symmetry_factor = symmetry_factor / real (1 + of_bool (same_type c d));
          momentum_factor = pCM_sqr_from_s s (mass c) (mass d) /
                            pCM_sqr_from_s s (mass a) (mass b)
      in spin_factor * symmetry_factor * momentum_factor)"

text \<open>The spec's notation: \<open>g(x) = 2 J\<^sub>x + 1\<close> and \<open>\<delta>(a,b)\<close>.\<close>

definition g_spin :: "ParticleType \<Rightarrow> real" where
  "g_spin x = real (spin x) + 1"

definition delta_type :: "ParticleType \<Rightarrow> ParticleType \<Rightarrow> real" where
  "delta_type a b = (if pdgcode a = pdgcode b then 1 else 0)"

subsection \<open>Breit-Wigner profile (\<^verbatim>\<open>distributions.cc\<close>)\<close>

definition breit_wigner :: "real \<Rightarrow> real \<Rightarrow> real \<Rightarrow> real" where
  "breit_wigner srts resonance_mass resonance_width =
     (let s = srts * srts;
          A = s * resonance_width * resonance_width;
          B = s - resonance_mass * resonance_mass
      in 2 * s * resonance_width / (pi * (B * B + A)))"

text \<open>The profile as the spec writes it, a function of the squared invariant mass \<open>s\<close>.\<close>

definition BW_profile :: "real \<Rightarrow> real \<Rightarrow> real \<Rightarrow> real" where
  "BW_profile s M \<Gamma> = (2 * s * \<Gamma>) / (pi * ((s - M\<^sup>2)\<^sup>2 + s * \<Gamma>\<^sup>2))"

subsection \<open>Matrix element for \<open>NN \<rightarrow> X\<close>\<close>

definition nn_to_resonance_matrix_element ::
  "double \<Rightarrow> ParticleType \<Rightarrow> ParticleType \<Rightarrow> int \<Rightarrow> double" where
  "nn_to_resonance_matrix_element sqrts type_a type_b twoI =
     (let m_a = mass type_a;
          m_b = mass type_b;
          msqr = 2 * (m_a * m_a + m_b * m_b);
          w_a = width_at_pole type_a;
          w_b = width_at_pole type_b;
          uplmt = m_a + m_b + 3 * (w_a + w_b) + 3
      in
      if sqrts > uplmt then 0
      else if ((is_Delta type_a \<and> is_nucleon type_b) \<or>
               (is_Delta type_b \<and> is_nucleon type_a)) \<and>
              antiparticle_sign type_a = antiparticle_sign type_b
      then 68 / std_pow (sqrts - 1.104) 1.951
      else if ((is_Nstar type_a \<and> is_nucleon type_b) \<or>
               (is_Nstar type_b \<and> is_nucleon type_a)) \<and>
              antiparticle_sign type_a = antiparticle_sign type_b
      then (if twoI = 2 then 7 / msqr
            else if twoI = 0 then
              (let parametrization = 14 / msqr
               in if is_Nstar1535 type_a \<or> is_Nstar1535 type_b
                  then 6.5 * parametrization else parametrization)
            else 0)
      else if ((is_Deltastar type_a \<and> is_nucleon type_b) \<or>
               (is_Deltastar type_b \<and> is_nucleon type_a)) \<and>
              antiparticle_sign type_a = antiparticle_sign type_b
      then 15 / msqr
      else if (is_Delta type_a \<and> is_Delta type_b) \<and>
              antiparticle_sign type_a = antiparticle_sign type_b
      then (if twoI = 2 then 45 / msqr
            else if twoI = 0 then 120 / msqr
            else 0)
      else if ((is_Nstar type_a \<and> is_Delta type_b) \<or>
               (is_Nstar type_b \<and> is_Delta type_a)) \<and>
              antiparticle_sign type_a = antiparticle_sign type_b
      then 7 / msqr
      else if ((is_Deltastar type_a \<and> is_Delta type_b) \<or>
               (is_Deltastar type_b \<and> is_Delta type_a)) \<and>
              antiparticle_sign type_a = antiparticle_sign type_b
      then (if twoI = 2 then 15 / msqr
            else if twoI = 0 then 25 / msqr
            else 0)
      else if (is_deuteron type_a \<and> is_pion type_b) \<or>
              (is_deuteron type_b \<and> is_pion type_a)
      then 0.055 / (pow_int (sqrts - 2.145) 2 + pow_int 0.065 2) *
           (1 - exp (- (sqrts - 2) * 20))
      else 0)"

text \<open>
  The table of spec section 4.E.3, read row by row. A row is a final state, the value of
  \<open>2I\<close> it is for (\<open>None\<close>: any) and its value as a function of \<open>sqrt_s\<close> and \<open>msqr\<close>. The
  final state of a pair is the first class of the table's order it belongs to; the baryon
  rows ask for the same antiparticle sign on both particles.
\<close>

datatype final_state =
  N_Delta | N_Nstar_other | N_Nstar1535 | N_Deltastar | Delta_Delta | Nstar_Delta |
  Deltastar_Delta | d_pi | not_listed

definition one_each :: "(ParticleType \<Rightarrow> bool) \<Rightarrow> (ParticleType \<Rightarrow> bool) \<Rightarrow>
    ParticleType \<Rightarrow> ParticleType \<Rightarrow> bool" where
  "one_each p q a b = ((p a \<and> q b) \<or> (p b \<and> q a))"

definition final_state_of :: "ParticleType \<Rightarrow> ParticleType \<Rightarrow> final_state" where
  "final_state_of a b =
     (let same_sign = (antiparticle_sign a = antiparticle_sign b) in
      if one_each is_Delta is_nucleon a b \<and> same_sign then N_Delta
      else if one_each is_Nstar is_nucleon a b \<and> same_sign
        then (if is_Nstar1535 a \<or> is_Nstar1535 b then N_Nstar1535 else N_Nstar_other)
      else if one_each is_Deltastar is_nucleon a b \<and> same_sign then N_Deltastar
      else if is_Delta a \<and> is_Delta b \<and> same_sign then Delta_Delta
      else if one_each is_Nstar is_Delta a b \<and> same_sign then Nstar_Delta
      else if one_each is_Deltastar is_Delta a b \<and> same_sign then Deltastar_Delta
      else if one_each is_deuteron is_pion a b then d_pi
      else not_listed)"

type_synonym matrix_element_row = "final_state \<times> int option \<times> (double \<Rightarrow> double \<Rightarrow> double)"

definition d_pi_fit :: "double \<Rightarrow> double" where
  "d_pi_fit sqrts = 0.055 / ((sqrts - 2.145)\<^sup>2 + 0.065\<^sup>2) * (1 - exp (- 20 * (sqrts - 2)))"

definition spec_matrix_element_table :: "matrix_element_row list" where
  "spec_matrix_element_table =
     [(N_Delta, None, \<lambda>sqrts msqr. 68 / (sqrts - 1.104) powr 1.951),
      (N_Nstar_other, Some 2, \<lambda>sqrts msqr. 7 / msqr),
      (N_Nstar_other, Some 0, \<lambda>sqrts msqr. 14 / msqr),
      (N_Nstar1535, Some 0, \<lambda>sqrts msqr. 6.5 * 14 / msqr),
      (N_Deltastar, None, \<lambda>sqrts msqr. 15 / msqr),
      (Delta_Delta, Some 2, \<lambda>sqrts msqr. 45 / msqr),
      (Delta_Delta, Some 0, \<lambda>sqrts msqr. 120 / msqr),
      (Nstar_Delta, None, \<lambda>sqrts msqr. 7 / msqr),
      (Deltastar_Delta, Some 2, \<lambda>sqrts msqr. 15 / msqr),
      (Deltastar_Delta, Some 0, \<lambda>sqrts msqr. 25 / msqr),
      (d_pi, None, \<lambda>sqrts msqr. d_pi_fit sqrts)]"

text \<open>The table the code implements: the row \<open>N N*(1535)\<close> at \<open>2I = 2\<close> is there as well.\<close>

definition code_matrix_element_table :: "matrix_element_row list" where
  "code_matrix_element_table =
     (N_Nstar1535, Some 2, \<lambda>sqrts msqr. 7 / msqr) # spec_matrix_element_table"

definition row_matches :: "final_state \<Rightarrow> int \<Rightarrow> matrix_element_row \<Rightarrow> bool" where
  "row_matches fs twoI row =
     (fst row = fs \<and> (case fst (snd row) of None \<Rightarrow> True | Some i \<Rightarrow> i = twoI))"

text \<open>
  "Return \<open>0\<close> if \<open>sqrt_s > uplmt\<close>. Otherwise return (only listed branches are non-zero;
  others are \<open>0\<close>)" the value of the row for the final state and \<open>2I\<close>.
\<close>

definition matrix_element_by_table ::
  "matrix_element_row list \<Rightarrow> double \<Rightarrow> ParticleType \<Rightarrow> ParticleType \<Rightarrow> int \<Rightarrow> double" where
  "matrix_element_by_table table sqrts a b twoI =
     (let msqr = 2 * ((mass a)\<^sup>2 + (mass b)\<^sup>2);
          uplmt = mass a + mass b + 3 * (width_at_pole a + width_at_pole b) + 3
      in if sqrts > uplmt then 0
         else (case List.find (row_matches (final_state_of a b) twoI) table of
                 None \<Rightarrow> 0
               | Some row \<Rightarrow> snd (snd row) sqrts msqr))"

subsection \<open>External collaborators\<close>

text \<open>
  The parametrizations (\<^verbatim>\<open>parametrizations.h\<close>), the particle registry, the isospin
  multiplets with their mass integrals, the Clebsch-Gordan helpers, the kinematic
  functions that take a square root and the random number provider are not among the
  sources: the kernel reads them through the interface of spec sections 3 and 6. They are
  the fields of an environment passed to every routine. An integral of a multiplet is a
  function of the multiplet's identifier; \<open>uniform n\<close> is the \<open>n\<close>-th number drawn from
  \<^verbatim>\<open>Random::uniform(0., 1.)\<close>.
\<close>

record Parametrizations =
  pp_elastic :: "double \<Rightarrow> double"
  ppbar_elastic :: "double \<Rightarrow> double"
  np_elastic :: "double \<Rightarrow> double"
  piplusp_elastic :: "double \<Rightarrow> double"
  piminusp_elastic :: "double \<Rightarrow> double"
  kplusp_elastic_background :: "double \<Rightarrow> double"
  kminusp_elastic_background :: "double \<Rightarrow> double"
  k0p_elastic_background :: "double \<Rightarrow> double"
  kbar0p_elastic_background :: "double \<Rightarrow> double"
  kplusn_elastic_background :: "double \<Rightarrow> double"
  kminusn_elastic_background :: "double \<Rightarrow> double"
  k0n_elastic_background :: "double \<Rightarrow> double"
  kbar0n_elastic_background :: "double \<Rightarrow> double"
  kplusp_inelastic_background :: "double \<Rightarrow> double"
  kplusn_inelastic_background :: "double \<Rightarrow> double"
  kminusp_piminussigmaplus :: "double \<Rightarrow> double"
  kminusp_piplussigmaminus :: "double \<Rightarrow> double"
  kminusp_pi0sigma0 :: "double \<Rightarrow> double"
  kminusp_pi0lambda :: "double \<Rightarrow> double"
  kminusp_kbar0n :: "double \<Rightarrow> double"
  kminusn_piminussigma0 :: "double \<Rightarrow> double"
  kminusn_pi0sigmaminus :: "double \<Rightarrow> double"
  kminusn_piminuslambda :: "double \<Rightarrow> double"
  kplusn_k0p :: "double \<Rightarrow> double"
  pp_high_energy :: "double \<Rightarrow> double"
  ppbar_high_energy :: "double \<Rightarrow> double"
  np_high_energy :: "double \<Rightarrow> double"
  npbar_high_energy :: "double \<Rightarrow> double"
  piplusp_high_energy :: "double \<Rightarrow> double"
  piminusp_high_energy :: "double \<Rightarrow> double"
  NN_string_hard :: "double \<Rightarrow> double"
  Npi_string_hard :: "double \<Rightarrow> double"
  pipi_string_hard :: "double \<Rightarrow> double"
  ppbar_total :: "double \<Rightarrow> double"
  kplusn_ratios_get_ratio ::
    "ParticleType \<Rightarrow> ParticleType \<Rightarrow> ParticleType \<Rightarrow> ParticleType \<Rightarrow> double"

record Env = Parametrizations +
  find_type :: "int \<Rightarrow> ParticleType"
  try_find :: "int \<Rightarrow> ParticleType option"
  list_all_types :: "ParticleType list"
  list_nucleons :: "ParticleType list"
  list_anti_nucleons :: "ParticleType list"
  list_Deltas :: "ParticleType list"
  list_anti_Deltas :: "ParticleType list"
  list_baryon_resonances :: "ParticleType list"
  list_light_nuclei :: "ParticleType list"
  I_tot_range :: "ParticleType \<Rightarrow> ParticleType \<Rightarrow> int list"
  isospin_clebsch_gordan_sqr_2to2 ::
    "ParticleType \<Rightarrow> ParticleType \<Rightarrow> ParticleType \<Rightarrow> ParticleType \<Rightarrow> int \<Rightarrow> double"
  get_integral_NR :: "nat \<Rightarrow> double \<Rightarrow> double"
  get_integral_RR :: "nat \<Rightarrow> ParticleType \<Rightarrow> double \<Rightarrow> double"
  get_integral_RK :: "nat \<Rightarrow> double \<Rightarrow> double"
  get_integral_piR :: "nat \<Rightarrow> double \<Rightarrow> double"
  get_partial_in_width :: "ParticleType \<Rightarrow> double \<Rightarrow> ParticleData \<Rightarrow> ParticleData \<Rightarrow> double"
  spectral_function :: "ParticleType \<Rightarrow> double \<Rightarrow> double"
  pCM :: "double \<Rightarrow> double \<Rightarrow> double \<Rightarrow> double"
  pCM_from_s :: "double \<Rightarrow> double \<Rightarrow> double \<Rightarrow> double"
  uniform :: "nat \<Rightarrow> double"

text \<open>
  The string provider: the diffractive cross sections it is asked for and the soft
  subprocess recorded on it by \<^verbatim>\<open>set_subproc\<close>. The kernel receives a pointer to it, which
  may be null.
\<close>

record StringProcess =
  cross_sections_diffractive :: "int \<Rightarrow> int \<Rightarrow> double \<Rightarrow> double \<times> double \<times> double"
  subproc :: StringSoftType

definition set_subproc :: "StringSoftType \<Rightarrow> StringProcess \<Rightarrow> StringProcess" where
  "set_subproc iproc sp = sp\<lparr>subproc := iproc\<rparr>"

subsection \<open>The per-pair builder\<close>

text \<open>
  \<^verbatim>\<open>cross_sections\<close> holds the incoming pair (\<^verbatim>\<open>incoming_particles_[0]\<close> and \<^verbatim>\<open>[1]\<close>)
  and \<^verbatim>\<open>sqrt_s_\<close>.
\<close>

record cross_sections =
  incoming_particles :: "ParticleData \<times> ParticleData"
  sqrt_s :: double

definition type_a_of :: "cross_sections \<Rightarrow> ParticleType" where
  "type_a_of cs = type (fst (incoming_particles cs))"

definition type_b_of :: "cross_sections \<Rightarrow> ParticleType" where
  "type_b_of cs = type (snd (incoming_particles cs))"

definition cm_momentum :: "Env \<Rightarrow> cross_sections \<Rightarrow> double" where
  "cm_momentum E cs =
     (let m1 = effective_mass (fst (incoming_particles cs));
          m2 = effective_mass (snd (incoming_particles cs))
      in pCM E (sqrt_s cs) m1 m2)"

definition branch2 :: "ParticleType \<Rightarrow> ParticleType \<Rightarrow> double \<Rightarrow> ProcessType \<Rightarrow> CollisionBranch" where
  "branch2 type_a type_b w t = \<lparr>particle_types = [type_a, type_b], weight = w, get_type = t\<rparr>"

definition branch1 :: "ParticleType \<Rightarrow> double \<Rightarrow> ProcessType \<Rightarrow> CollisionBranch" where
  "branch1 type_a w t = \<lparr>particle_types = [type_a], weight = w, get_type = t\<rparr>"

definition branch0 :: "double \<Rightarrow> ProcessType \<Rightarrow> CollisionBranch" where
  "branch0 w t = \<lparr>particle_types = [], weight = w, get_type = t\<rparr>"

definition append_list :: "CollisionBranch list \<Rightarrow> CollisionBranch list \<Rightarrow> CollisionBranch list" where
  "append_list main_list in_list = main_list @ in_list"

definition sum_xs_of :: "CollisionBranch list \<Rightarrow> double" where
  "sum_xs_of list = foldl (\<lambda>xs_sum proc. xs_sum + weight proc) 0 list"

subsection \<open>Elastic cross sections\<close>

definition elastic_problem :: "cross_sections \<Rightarrow> double \<Rightarrow> double \<Rightarrow> error" where
  "elastic_problem cs sig_el s =
     RuntimeError
       [Str ''problem in CrossSections::elastic: a='', Str (name (type_a_of cs)),
        Str '' b='', Str (name (type_b_of cs)),
        Str '' j_a='', UInt (spin (type_a_of cs)),
        Str '' j_b='', UInt (spin (type_b_of cs)),
        Str '' sigma='', Dbl sig_el,
        Str '' s='', Dbl s]"

definition nn_el :: "Env \<Rightarrow> cross_sections \<Rightarrow> error + double" where
  "nn_el E cs =
     (let pdg_a = type_a_of cs;
          pdg_b = type_b_of cs;
          s = sqrt_s cs * sqrt_s cs;
          sig_el = (if pdgcode pdg_a = pdgcode pdg_b then pp_elastic E s
                    else if is_antiparticle_of pdg_a pdg_b then ppbar_elastic E s
                    else np_elastic E s)
      in if sig_el > 0 then Inr sig_el else Inl (elastic_problem cs sig_el s))"

text \<open>
  \<^verbatim>\<open>nucleon = pdg_a.is_nucleon() ? pdg_a : pdg_b\<close> and its partner (the pion of \<^verbatim>\<open>npi_el\<close>,
  the kaon of \<^verbatim>\<open>nk_el\<close>).
\<close>

definition nucleon_of :: "cross_sections \<Rightarrow> ParticleType" where
  "nucleon_of cs = (if is_nucleon (type_a_of cs) then type_a_of cs else type_b_of cs)"

definition partner_of :: "cross_sections \<Rightarrow> ParticleType" where
  "partner_of cs = (if is_nucleon (type_a_of cs) then type_b_of cs else type_a_of cs)"

text \<open>The nested \<^verbatim>\<open>switch\<close> of \<^verbatim>\<open>npi_el\<close>; its \<^verbatim>\<open>default\<close> throws.\<close>

definition npi_switch :: "Env \<Rightarrow> int \<Rightarrow> int \<Rightarrow> double \<Rightarrow> error + double" where
  "npi_switch E nucleon pion s =
     (let half = 0.5 * (piplusp_elastic E s + piminusp_elastic E s) in
      if nucleon = pdg_p then
        Inr (if pion = pdg_pi_p then piplusp_elastic E s
             else if pion = pdg_pi_m then piminusp_elastic E s
             else if pion = pdg_pi_z then half
             else 0)
      else if nucleon = pdg_n then
        Inr (if pion = pdg_pi_p then piminusp_elastic E s
             else if pion = pdg_pi_m then piplusp_elastic E s
             else if pion = pdg_pi_z then half
             else 0)
      else if nucleon = - pdg_p then
        Inr (if pion = pdg_pi_p then piminusp_elastic E s
             else if pion = pdg_pi_m then piplusp_elastic E s
             else if pion = pdg_pi_z then half
             else 0)
      else if nucleon = - pdg_n then
        Inr (if pion = pdg_pi_p then piplusp_elastic E s
             else if pion = pdg_pi_m then piminusp_elastic E s
             else if pion = pdg_pi_z then half
             else 0)
      else Inl (RuntimeError
             [Str ''only the elastic cross section for proton-pion is implemented'']))"

definition npi_el :: "Env \<Rightarrow> cross_sections \<Rightarrow> error + double" where
  "npi_el E cs =
     (let nucleon = nucleon_of cs;
          pion = partner_of cs
      in bindE (cassert (pdgcode pion \<noteq> pdgcode nucleon) ''pion != nucleon'') (\<lambda>_.
         let s = sqrt_s cs * sqrt_s cs in
         bindE (npi_switch E (pdgcode nucleon) (pdgcode pion) s) (\<lambda>sig_el.
           if sig_el > 0 then Inr sig_el else Inl (elastic_problem cs sig_el s))))"

definition nk_switch :: "Env \<Rightarrow> int \<Rightarrow> int \<Rightarrow> double \<Rightarrow> error + double" where
  "nk_switch E nucleon kaon s =
     (if nucleon = pdg_p then
        Inr (if kaon = pdg_K_p then kplusp_elastic_background E s
             else if kaon = pdg_K_m then kminusp_elastic_background E s
             else if kaon = pdg_K_z then k0p_elastic_background E s
             else if kaon = pdg_Kbar_z then kbar0p_elastic_background E s
             else 0)
      else if nucleon = pdg_n then
        Inr (if kaon = pdg_K_p then kplusn_elastic_background E s
             else if kaon = pdg_K_m then kminusn_elastic_background E s
             else if kaon = pdg_K_z then k0n_elastic_background E s
             else if kaon = pdg_Kbar_z then kbar0n_elastic_background E s
             else 0)
      else if nucleon = - pdg_p then
        Inr (if kaon = pdg_K_p then kminusp_elastic_background E s
             else if kaon = pdg_K_m then kplusp_elastic_background E s
             else if kaon = pdg_K_z then kbar0p_elastic_background E s
             else if kaon = pdg_Kbar_z then k0p_elastic_background E s
             else 0)
      else if nucleon = - pdg_n then
        Inr (if kaon = pdg_K_p then kminusn_elastic_background E s
             else if kaon = pdg_K_m then kplusn_elastic_background E s
             else if kaon = pdg_K_z then kbar0n_elastic_background E s
             else if kaon = pdg_Kbar_z then k0n_elastic_background E s
             else 0)
      else Inl (RuntimeError
             [Str ''elastic cross section for antinucleon-kaon not implemented'']))"

definition nk_el :: "Env \<Rightarrow> cross_sections \<Rightarrow> error + double" where
  "nk_el E cs =
     (let nucleon = nucleon_of cs;
          kaon = partner_of cs
      in bindE (cassert (pdgcode kaon \<noteq> pdgcode nucleon) ''kaon != nucleon'') (\<lambda>_.
         let s = sqrt_s cs * sqrt_s cs in
         bindE (nk_switch E (pdgcode nucleon) (pdgcode kaon) s) (\<lambda>sig_el.
           if sig_el > 0 then Inr sig_el else Inl (elastic_problem cs sig_el s))))"

text \<open>
  What the claims say of the elastic routines: the parametrization selected for a
  nucleon-nucleon pair, and the quantities a fatal error has to carry.
\<close>

definition nn_selected :: "Env \<Rightarrow> cross_sections \<Rightarrow> double" where
  "nn_selected E cs =
     (let s = (sqrt_s cs)\<^sup>2 in
      if pdgcode (type_a_of cs) = pdgcode (type_b_of cs) then pp_elastic E s
      else if is_antiparticle_of (type_a_of cs) (type_b_of cs) then ppbar_elastic E s
      else np_elastic E s)"

definition carries :: "error \<Rightarrow> msg_item list \<Rightarrow> bool" where
  "carries e items =
     (case e of RuntimeError msg \<Rightarrow> list_all (\<lambda>i. i \<in> set msg) items
              | AssertionFailed _ \<Rightarrow> False)"

definition problem_items :: "cross_sections \<Rightarrow> double \<Rightarrow> msg_item list" where
  "problem_items cs sig_el =
     [Str (name (type_a_of cs)), Str (name (type_b_of cs)),
      UInt (spin (type_a_of cs)), UInt (spin (type_b_of cs)),
      Dbl sig_el, Dbl ((sqrt_s cs)\<^sup>2)]"

definition elastic_parametrization :: "Env \<Rightarrow> cross_sections \<Rightarrow> error + double" where
  "elastic_parametrization E cs =
     (let pdg_a = type_a_of cs;
          pdg_b = type_b_of cs
      in if (is_nucleon pdg_a \<and> is_pion pdg_b) \<or> (is_nucleon pdg_b \<and> is_pion pdg_a)
           then npi_el E cs
         else if (is_nucleon pdg_a \<and> is_kaon pdg_b) \<or> (is_nucleon pdg_b \<and> is_kaon pdg_a)
           then nk_el E cs
         else if is_nucleon pdg_a \<and> is_nucleon pdg_b \<and>
                 antiparticle_sign pdg_a = antiparticle_sign pdg_b
           then nn_el E cs
         else Inr 0)"

definition elastic :: "Env \<Rightarrow> cross_sections \<Rightarrow> double \<Rightarrow> error + CollisionBranch" where
  "elastic E cs elast_par =
     bindE (if elast_par \<ge> 0 then Inr elast_par else elastic_parametrization E cs)
       (\<lambda>elastic_xs. Inr (branch2 (type_a_of cs) (type_b_of cs) elastic_xs Elastic))"

subsection \<open>Detailed balance with unstable particles\<close>

text \<open>
  The two helpers assert their preconditions and then return the ratio. The ratio itself
  is \<open>RK_ratio\<close> and \<open>RR_ratio\<close>.
\<close>

definition RK_ratio ::
  "Env \<Rightarrow> double \<Rightarrow> double \<Rightarrow> ParticleType \<Rightarrow> ParticleType \<Rightarrow> ParticleType \<Rightarrow> ParticleType \<Rightarrow> double" where
  "RK_ratio E sqrts pcm a b c d =
     (let spin_factor = real ((spin c + 1) * (spin d + 1));
          spin_factor = spin_factor / real ((spin a + 1) * (spin b + 1));
          symmetry_factor = real (1 + of_bool (same_type a b));
          symmetry_factor = symmetry_factor / real (1 + of_bool (same_type c d));
          momentum_factor = pCM_sqr sqrts (mass c) (mass d) /
                            (pcm * get_integral_RK E (iso_multiplet a) sqrts)
      in spin_factor * symmetry_factor * momentum_factor)"

definition detailed_balance_factor_RK ::
  "Env \<Rightarrow> double \<Rightarrow> double \<Rightarrow> ParticleType \<Rightarrow> ParticleType \<Rightarrow> ParticleType \<Rightarrow> ParticleType \<Rightarrow>
     error + double" where
  "detailed_balance_factor_RK E sqrts pcm a b c d =
     bindE (cassert (\<not> is_stable a) ''!a.is_stable()'') (\<lambda>_.
     bindE (cassert (is_kaon b) ''b.pdgcode().is_kaon()'') (\<lambda>_.
       Inr (RK_ratio E sqrts pcm a b c d)))"

definition RR_ratio ::
  "Env \<Rightarrow> double \<Rightarrow> double \<Rightarrow> ParticleType \<Rightarrow> ParticleType \<Rightarrow> ParticleType \<Rightarrow> ParticleType \<Rightarrow> double" where
  "RR_ratio E sqrts pcm a b c d =
     (let spin_factor = real ((spin c + 1) * (spin d + 1));
          spin_factor = spin_factor / real ((spin a + 1) * (spin b + 1));
          symmetry_factor = real (1 + of_bool (same_type a b));
          symmetry_factor = symmetry_factor / real (1 + of_bool (same_type c d));
          momentum_factor = pCM_sqr sqrts (mass c) (mass d) /
                            (pcm * get_integral_RR E (iso_multiplet a) b sqrts)
      in spin_factor * symmetry_factor * momentum_factor)"

definition detailed_balance_factor_RR ::
  "Env \<Rightarrow> double \<Rightarrow> double \<Rightarrow> ParticleType \<Rightarrow> ParticleType \<Rightarrow> ParticleType \<Rightarrow> ParticleType \<Rightarrow>
     error + double" where
  "detailed_balance_factor_RR E sqrts pcm a b c d =
     bindE (cassert (\<not> is_stable a) ''!a.is_stable()'') (\<lambda>_.
     bindE (cassert (\<not> is_stable b) ''!b.is_stable()'') (\<lambda>_.
       Inr (RR_ratio E sqrts pcm a b c d)))"

subsection \<open>Adding a channel\<close>

text \<open>
  \<^verbatim>\<open>add_channel\<close> takes the cross section as a closure that is called only above the
  threshold; the closure may end the call (a failed assertion of a detailed-balance helper).
\<close>

definition add_channel ::
  "CollisionBranch list \<Rightarrow> (unit \<Rightarrow> error + double) \<Rightarrow> double \<Rightarrow> ParticleType \<Rightarrow> ParticleType \<Rightarrow>
     error + CollisionBranch list" where
  "add_channel process_list get_xsection sqrts type_a type_b =
     (let sqrt_s_min = min_mass_spectral type_a + min_mass_spectral type_b
      in if sqrts \<le> sqrt_s_min then Inr process_list
         else bindE (get_xsection ()) (\<lambda>xsection.
           if xsection > really_small
           then Inr (process_list @ [branch2 type_a type_b xsection TwoToTwo])
           else Inr process_list))"

text \<open>
  A run of \<^verbatim>\<open>add_channel\<close> calls on the same list, in the order of the source: each entry is
  the closure and the two product types of one call.
\<close>

type_synonym channel = "(unit \<Rightarrow> error + double) \<times> ParticleType \<times> ParticleType"

definition add_channels ::
  "CollisionBranch list \<Rightarrow> double \<Rightarrow> channel list \<Rightarrow> error + CollisionBranch list" where
  "add_channels process_list sqrts channels =
     for_each channels
       (\<lambda>ch pl. add_channel pl (fst ch) sqrts (fst (snd ch)) (snd (snd ch))) process_list"

definition thunk :: "double \<Rightarrow> unit \<Rightarrow> error + double" where
  "thunk v = (\<lambda>_. Inr v)"

subsection \<open>\<open>NN\<bar>\<close> closure\<close>

definition NNbar_annihilation :: "Env \<Rightarrow> cross_sections \<Rightarrow> double \<Rightarrow> CollisionBranch" where
  "NNbar_annihilation E cs current_xs =
     (let s = sqrt_s cs * sqrt_s cs;
          nnbar_xsec = max 0 (ppbar_total E s - current_xs)
      in branch2 (find_type E pdg_h1) (find_type E pdg_rho_z) nnbar_xsec TwoToTwo)"

definition NNbar_creation :: "Env \<Rightarrow> cross_sections \<Rightarrow> error + CollisionBranch list" where
  "NNbar_creation E cs =
     (let s = sqrt_s cs * sqrt_s cs;
          pcm = cm_momentum E cs;
          type_N = find_type E pdg_p;
          type_Nbar = find_type E (- pdg_p)
      in if sqrt_s cs - 2 * mass type_N < 0 then Inr []
         else bindE (detailed_balance_factor_RR E (sqrt_s cs) pcm (type_a_of cs) (type_b_of cs)
                       type_N type_Nbar) (\<lambda>R.
           let xsection = R * max 0 (ppbar_total E s - ppbar_elastic E s)
           in Inr [branch2 type_N type_Nbar xsection TwoToTwo,
                   branch2 (find_type E pdg_n) (find_type E (- pdg_n)) xsection TwoToTwo]))"

subsection \<open>Light nuclei\<close>

text \<open>
  \<^verbatim>\<open>produced_nucleus == &type_nucleus\<close> compares registry entries, which are one per PDG
  code. \<^verbatim>\<open>std::signbit\<close> of a baryon number is whether it is negative.
\<close>

definition dn_xx :: "Env \<Rightarrow> cross_sections \<Rightarrow> ReactionsBitSet \<Rightarrow> error + CollisionBranch list" where
  "dn_xx E cs included_2to2 =
     (let type_a = type_a_of cs;
          type_b = type_b_of cs;
          type_N = (if is_nucleon type_a then type_a else type_b);
          type_nucleus = (if is_nucleus type_a then type_a else type_b);
          nuclei = list_light_nuclei E;
          s = sqrt_s cs * sqrt_s cs;
          sqrts = sqrt_s cs
      in for_each nuclei (\<lambda>produced_nucleus process_list.
           if same_type produced_nucleus type_nucleus \<or>
              charge produced_nucleus \<noteq> charge type_nucleus \<or>
              baryon_number produced_nucleus \<noteq> baryon_number type_nucleus
           then Inr process_list
           else
             bindE (if (baryon_number type_N < 0) = (baryon_number type_nucleus < 0)
                    then (let tmp = sqrts - min_mass_kinematic type_N -
                                    min_mass_kinematic type_nucleus
                          in bindE (cassert (tmp \<ge> 0) ''tmp >= 0.0'') (\<lambda>_.
                               Inr (79.0474 / std_pow tmp 0.7897 + 654.596 * tmp)))
                    else Inr 681.4) (\<lambda>matrix_element.
             let spin_factor = real ((spin produced_nucleus + 1) * (spin type_N + 1));
                 xsection = matrix_element * spin_factor / (s * cm_momentum E cs)
             in bindE (if is_stable produced_nucleus
                       then bindE (cassert (\<not> is_stable type_nucleus) ''!type_nucleus.stable()'')
                              (\<lambda>_. Inr (xsection *
                                  pCM_from_s E s (mass type_N) (mass produced_nucleus)))
                       else bindE (cassert (is_stable type_nucleus) ''type_nucleus.stable()'')
                              (\<lambda>_. Inr (xsection *
                                  get_integral_NR E (iso_multiplet produced_nucleus) sqrts)))
                  (\<lambda>xsection.
                    Inr (process_list @ [branch2 type_N produced_nucleus xsection TwoToTwo]))))
           [])"

text \<open>The first loop nest of \<^verbatim>\<open>dpi_xx\<close>, \<open>\<pi> d \<rightarrow> N N\<close>; nothing in it can end the call.\<close>

definition dpi_to_NN :: "Env \<Rightarrow> cross_sections \<Rightarrow> CollisionBranch list" where
  "dpi_to_NN E cs =
     (let type_a = type_a_of cs;
          type_b = type_b_of cs;
          sqrts = sqrt_s cs;
          baryon_number = baryon_number type_a + baryon_number type_b;
          nuc = (if baryon_number > 0 then list_nucleons E else list_anti_nucleons E);
          s = sqrt_s cs * sqrt_s cs
      in concat (map (\<lambda>nuc_a. concat (map (\<lambda>nuc_b.
           if charge type_a + charge type_b \<noteq> charge nuc_a + charge nuc_b then []
           else concat (map (\<lambda>twoI.
             let isospin_factor = isospin_clebsch_gordan_sqr_2to2 E type_a type_b nuc_a nuc_b twoI
             in if \<bar>isospin_factor\<bar> < really_small then []
                else
                  let matrix_element = nn_to_resonance_matrix_element sqrts type_a type_b twoI
                  in if matrix_element \<le> 0 then []
                     else
                       let spin_factor = real ((spin nuc_a + 1) * (spin nuc_b + 1));
                           sym_fac_in = (if iso_multiplet type_a = iso_multiplet type_b
                                         then 2 else 1);
                           sym_fac_out = (if iso_multiplet nuc_a = iso_multiplet nuc_b
                                          then 2 else 1);
                           p_cm_final = pCM_from_s E s (mass nuc_a) (mass nuc_b);
                           xsection = isospin_factor * spin_factor * sym_fac_in / sym_fac_out *
                                      p_cm_final * matrix_element / (s * cm_momentum E cs)
                       in if xsection > really_small
                          then [branch2 nuc_a nuc_b xsection TwoToTwo] else [])
             (I_tot_range E nuc_a nuc_b))) nuc)) nuc))"

text \<open>
  The second loop of \<^verbatim>\<open>dpi_xx\<close>, \<open>\<pi> d \<rightarrow> \<pi> d'\<close> and the reverse, appending to the list so
  far.
\<close>

definition dpi_to_pi_nucleus ::
  "Env \<Rightarrow> cross_sections \<Rightarrow> CollisionBranch list \<Rightarrow> error + CollisionBranch list" where
  "dpi_to_pi_nucleus E cs process_list =
     (let sqrts = sqrt_s cs;
          type_a = type_a_of cs;
          type_b = type_b_of cs;
          type_pi = (if is_pion type_a then type_a else type_b);
          type_nucleus = (if is_nucleus type_a then type_a else type_b);
          nuclei = list_light_nuclei E;
          s = sqrt_s cs * sqrt_s cs
      in for_each nuclei (\<lambda>produced_nucleus process_list.
           if same_type produced_nucleus type_nucleus \<or>
              charge produced_nucleus \<noteq> charge type_nucleus \<or>
              baryon_number produced_nucleus \<noteq> baryon_number type_nucleus
           then Inr process_list
           else
             let tmp = sqrts - min_mass_kinematic type_a - min_mass_kinematic type_b;
                 matrix_element =
                   295.5 + 2.862 / (0.00283735 + pow_int (sqrts - 2.181) 2) +
                   0.0672 / pow_int tmp 2 - 6.61753 / tmp;
                 spin_factor = real ((spin produced_nucleus + 1) * (spin type_pi + 1));
                 xsection = matrix_element * spin_factor / (s * cm_momentum E cs)
             in bindE (if is_stable produced_nucleus
                       then bindE (cassert (\<not> is_stable type_nucleus)
                                     ''!type_nucleus.stable()'')
                              (\<lambda>_. Inr (xsection *
                                  pCM_from_s E s (mass type_pi) (mass produced_nucleus)))
                       else bindE (cassert (is_stable type_nucleus)
                                     ''type_nucleus.stable()'')
                              (\<lambda>_. Inr (xsection *
                                  get_integral_piR E (iso_multiplet produced_nucleus) sqrts)))
                  (\<lambda>xsection.
                    Inr (process_list @
                         [branch2 type_pi produced_nucleus xsection TwoToTwo])))
           process_list)"

definition dpi_xx :: "Env \<Rightarrow> cross_sections \<Rightarrow> ReactionsBitSet \<Rightarrow> error + CollisionBranch list" where
  "dpi_xx E cs included_2to2 =
     (let type_a = type_a_of cs;
          type_b = type_b_of cs;
          process_list =
            (if (is_deuteron type_a \<and> is_pion type_b) \<or> (is_deuteron type_b \<and> is_pion type_a)
             then dpi_to_NN E cs else [])
      in if ((is_deuteron type_a \<or> is_dprime type_a) \<and> is_pion type_b) \<or>
            ((is_deuteron type_b \<or> is_dprime type_b) \<and> is_pion type_a)
         then dpi_to_pi_nucleus E cs process_list
         else Inr process_list)"

subsection \<open>String excitation\<close>

definition high_energy :: "Env \<Rightarrow> cross_sections \<Rightarrow> double" where
  "high_energy E cs =
     (let pdg_a = type_a_of cs;
          pdg_b = type_b_of cs;
          s = sqrt_s cs * sqrt_s cs
      in if is_baryon pdg_a \<and> is_baryon pdg_b then
           (if pdgcode pdg_a = pdgcode pdg_b then pp_high_energy E s
            else if is_antiparticle_of pdg_a pdg_b then ppbar_high_energy E s
            else if antiparticle_sign pdg_a * antiparticle_sign pdg_b = 1 then np_high_energy E s
            else npbar_high_energy E s)
         else if (pdgcode pdg_a = pdg_pi_p \<and> pdgcode pdg_b = pdg_p) \<or>
                 (pdgcode pdg_b = pdg_pi_p \<and> pdgcode pdg_a = pdg_p) \<or>
                 (pdgcode pdg_a = pdg_pi_m \<and> pdgcode pdg_b = pdg_n) \<or>
                 (pdgcode pdg_b = pdg_pi_m \<and> pdgcode pdg_a = pdg_n)
           then piplusp_high_energy E s
         else if (pdgcode pdg_a = pdg_pi_m \<and> pdgcode pdg_b = pdg_p) \<or>
                 (pdgcode pdg_b = pdg_pi_m \<and> pdgcode pdg_a = pdg_p) \<or>
                 (pdgcode pdg_a = pdg_pi_p \<and> pdgcode pdg_b = pdg_n) \<or>
                 (pdgcode pdg_b = pdg_pi_p \<and> pdgcode pdg_a = pdg_n)
           then piminusp_high_energy E s
         else 0)"

definition string_hard_cross_section :: "Env \<Rightarrow> cross_sections \<Rightarrow> double" where
  "string_hard_cross_section E cs =
     (let data_a = type_a_of cs;
          data_b = type_b_of cs
      in if is_baryon data_a \<and> is_baryon data_b then NN_string_hard E (sqrt_s cs * sqrt_s cs)
         else if is_baryon data_a \<or> is_baryon data_b then Npi_string_hard E (sqrt_s cs * sqrt_s cs)
         else pipi_string_hard E (sqrt_s cs * sqrt_s cs))"

text \<open>
  The PDG id handed to the string provider: the (anti-)proton for (anti-)baryons, the
  \<open>\<pi>\<^sup>+\<close> otherwise. De-excitation keeps the baryon number.
\<close>

definition pdgid_for_strings :: "ParticleType \<Rightarrow> int" where
  "pdgid_for_strings t =
     (if baryon_number t = 1 then 2212
      else if baryon_number t = - 1 then - 2212
      else 211)"

text \<open>
  The budget arithmetic of \<^verbatim>\<open>string_excitation\<close>. The scale factor \<open>a\<close> is a quotient by
  \<open>single_diffr\<close>: when that is zero the double \<open>a\<close> is NaN or infinite, and so are the
  rescaled cross sections; \<open>None\<close> stands for that outcome. The result is the rescaled
  \<open>AX\<close>, \<open>XB\<close>, the new \<open>DD\<close> and \<open>nondiffractive_all\<close>.
\<close>

definition rescale_diffractive ::
  "double \<Rightarrow> double \<times> double \<times> double \<Rightarrow> (double \<times> double \<times> double \<times> double) option" where
  "rescale_diffractive sig_string_all xs =
     (let single_diffr_AX = fst xs;
          single_diffr_XB = fst (snd xs);
          double_diffr = snd (snd xs);
          single_diffr = single_diffr_AX + single_diffr_XB;
          diffractive = single_diffr + double_diffr;
          nondiffractive_all = max 0 (sig_string_all - diffractive);
          diffractive = sig_string_all - nondiffractive_all;
          double_diffr = max 0 (diffractive - single_diffr)
      in if single_diffr = 0 then None
         else (let a = (diffractive - double_diffr) / single_diffr
               in Some (single_diffr_AX * a, single_diffr_XB * a, double_diffr,
                        nondiffractive_all)))"

text \<open>
  \<^verbatim>\<open>nondiffractive_all * std::exp(-hard_xsec / nondiffractive_all)\<close>: with
  \<open>nondiffractive_all = 0\<close> the quotient is \<open>-\<infinity>\<close> for a positive \<open>hard_xsec\<close> and the product
  is \<open>0\<close>; otherwise the product is NaN (\<open>None\<close>).
\<close>

definition nondiffractive_soft_of :: "double \<Rightarrow> double \<Rightarrow> double option" where
  "nondiffractive_soft_of nondiffractive_all hard_xsec =
     (if nondiffractive_all = 0 then (if hard_xsec > 0 then Some 0 else None)
      else Some (nondiffractive_all * exp (- hard_xsec / nondiffractive_all)))"

text \<open>
  The soft subprocess selection: \<open>sums\<close> are the cumulative sums
  \<^verbatim>\<open>string_sub_cross_sections_sum[0..4]\<close> and the loop takes the first \<open>i < 4\<close> with
  \<open>sums[i] \<le> r < sums[i+1]\<close>.
\<close>

definition select_soft :: "double \<Rightarrow> double \<Rightarrow> double \<Rightarrow> double \<Rightarrow> double \<Rightarrow> StringSoftType" where
  "select_soft AX XB DD soft r_xsec =
     (let sum0 = 0;
          sum1 = sum0 + AX;
          sum2 = sum1 + XB;
          sum3 = sum2 + DD;
          sum4 = sum3 + soft
      in if r_xsec \<ge> sum0 \<and> r_xsec < sum1 then SingleDiffAX
         else if r_xsec \<ge> sum1 \<and> r_xsec < sum2 then SingleDiffXB
         else if r_xsec \<ge> sum2 \<and> r_xsec < sum3 then DoubleDiff
         else if r_xsec \<ge> sum3 \<and> r_xsec < sum4 then NonDiff
         else NoSoftType)"

text \<open>
  \<^verbatim>\<open>string_excitation\<close> reads the provider, draws one random number at position \<open>rng\<close> and
  records the subprocess on the provider: it returns the channels, the provider and the
  next position. A NaN among the cross sections fails the assertion; a NaN soft part
  leaves the selection without a subprocess.
\<close>

definition string_excitation ::
  "Env \<Rightarrow> cross_sections \<Rightarrow> StringProcess option \<Rightarrow> nat \<Rightarrow>
     error + (CollisionBranch list \<times> StringProcess option \<times> nat)" where
  "string_excitation E cs string_process rng =
     bindE (elastic_parametrization E cs) (\<lambda>el.
     let sig_string_all = max 0 (high_energy E cs - el);
         pdgid0 = pdgid_for_strings (type_a_of cs);
         pdgid1 = pdgid_for_strings (type_b_of cs)
     in if sig_string_all > 0 then
          (case string_process of
             None \<Rightarrow> Inl (RuntimeError [Str ''string_process should be initialized.''])
           | Some sp \<Rightarrow>
             (case rescale_diffractive sig_string_all
                     (cross_sections_diffractive sp pdgid0 pdgid1 (sqrt_s cs)) of
                None \<Rightarrow> Inl (AssertionFailed ''sum of string cross sections'')
              | Some (single_diffr_AX, single_diffr_XB, double_diffr, nondiffractive_all) \<Rightarrow>
                bindE (cassert (\<bar>single_diffr_AX + single_diffr_XB + double_diffr +
                                 nondiffractive_all - sig_string_all\<bar> < 1 / 1000000)
                         ''sum of string cross sections'') (\<lambda>_.
                let hard_xsec = string_hard_cross_section E cs
                in (case nondiffractive_soft_of nondiffractive_all hard_xsec of
                      None \<Rightarrow> Inl (RuntimeError [Str ''soft string subprocess is not specified.''])
                    | Some nondiffractive_soft \<Rightarrow>
                      (let nondiffractive_hard = nondiffractive_all - nondiffractive_soft;
                           sig_string_soft = sig_string_all - nondiffractive_hard;
                           sum4 = 0 + single_diffr_AX + single_diffr_XB + double_diffr +
                                  nondiffractive_soft;
                           r_xsec = sum4 * uniform E rng;
                           iproc = select_soft single_diffr_AX single_diffr_XB double_diffr
                                     nondiffractive_soft r_xsec
                       in if iproc = NoSoftType
                          then Inl (RuntimeError
                                      [Str ''soft string subprocess is not specified.''])
                          else Inr ((if sig_string_soft > 0
                                     then [branch0 sig_string_soft StringSoft] else []) @
                                    (if nondiffractive_hard > 0
                                     then [branch0 nondiffractive_hard StringHard] else []),
                                    Some (set_subproc iproc sp), Suc rng))))))
        else Inr ([], string_process, rng))"

text \<open>
  What the claim says the builder emits for a string budget \<open>S\<close> and a hard part
  \<open>nondiff_hard\<close>: a \<open>StringSoft\<close> branch of weight \<open>S - nondiff_hard\<close> and a \<open>StringHard\<close>
  branch of weight \<open>nondiff_hard\<close>, each only when its weight is positive.
\<close>

definition soft_and_hard_branches :: "double \<Rightarrow> double \<Rightarrow> CollisionBranch list" where
  "soft_and_hard_branches S nondiff_hard =
     (if S - nondiff_hard > 0 then [branch0 (S - nondiff_hard) StringSoft] else []) @
     (if nondiff_hard > 0 then [branch0 nondiff_hard StringHard] else [])"

text \<open>
  \<^verbatim>\<open>decide_string\<close>: the window of the mixed regime is that of nucleon-nucleon or of
  pion-nucleon pairs; other pairs have none. Inside the window one random number is drawn.
\<close>

definition decide_string :: "Env \<Rightarrow> cross_sections \<Rightarrow> bool \<Rightarrow> bool \<Rightarrow> nat \<Rightarrow> bool \<times> nat" where
  "decide_string E cs strings_switch both_are_nucleons rng =
     (let t1 = type_a_of cs;
          t2 = type_b_of cs;
          window = (if both_are_nucleons then Some (4.5, 0.5)
                    else if (is_pion t1 \<and> is_nucleon t2) \<or> (is_nucleon t1 \<and> is_pion t2)
                      then Some (2.7, 0.4)
                    else None)
      in case window of
           None \<Rightarrow> (False, rng)
         | Some (mix_scatter_type_energy, mix_scatter_type_window_width) \<Rightarrow>
             if strings_switch then
               (if sqrt_s cs > mix_scatter_type_energy + mix_scatter_type_window_width
                then (True, rng)
                else if sqrt_s cs > mix_scatter_type_energy - mix_scatter_type_window_width
                then (let probability_pythia =
                            (sqrt_s cs - mix_scatter_type_energy +
                             mix_scatter_type_window_width) /
                            mix_scatter_type_window_width / 2
                      in (probability_pythia > uniform E rng, Suc rng))
                else (False, rng))
             else (False, rng))"

subsection \<open>Resonance formation\<close>

definition formation :: "Env \<Rightarrow> cross_sections \<Rightarrow> ParticleType \<Rightarrow> double \<Rightarrow> double" where
  "formation E cs type_resonance cm_momentum_sqr =
     (let type_particle_a = type_a_of cs;
          type_particle_b = type_b_of cs
      in if charge type_resonance \<noteq> charge type_particle_a + charge type_particle_b then 0
         else if baryon_number type_resonance \<noteq>
                 baryon_number type_particle_a + baryon_number type_particle_b then 0
         else
           (let partial_width = get_partial_in_width E type_resonance (sqrt_s cs)
                                  (fst (incoming_particles cs)) (snd (incoming_particles cs))
            in if partial_width \<le> 0 then 0
               else
                 (let spinfactor = real (spin type_resonance + 1) /
                        real ((spin type_particle_a + 1) * (spin type_particle_b + 1));
                      sym_factor = (if pdgcode type_particle_a = pdgcode type_particle_b
                                    then 2 else 1)
                  in spinfactor * sym_factor * 2 * pi * pi / cm_momentum_sqr *
                     spectral_function E type_resonance (sqrt_s cs) * partial_width * hbarc *
                     hbarc / fm2_mb)))"

definition two_to_one :: "Env \<Rightarrow> cross_sections \<Rightarrow> CollisionBranch list" where
  "two_to_one E cs =
     (let type_particle_a = type_a_of cs;
          type_particle_b = type_b_of cs;
          m1 = effective_mass (fst (incoming_particles cs));
          m2 = effective_mass (snd (incoming_particles cs));
          p_cm_sqr = pCM_sqr (sqrt_s cs) m1 m2
      in concat (map (\<lambda>type_resonance.
           if is_stable type_resonance then []
           else if (\<not> is_stable type_particle_a \<and>
                    pdgcode type_resonance = pdgcode type_particle_a) \<or>
                   (\<not> is_stable type_particle_b \<and>
                    pdgcode type_resonance = pdgcode type_particle_b) then []
           else (let resonance_xsection = formation E cs type_resonance p_cm_sqr
                 in if resonance_xsection > really_small
                    then [branch1 type_resonance resonance_xsection TwoToOne] else []))
         (list_all_types E)))"

subsection \<open>Production of resonances\<close>

definition find_nn_xsection_from_type ::
  "Env \<Rightarrow> cross_sections \<Rightarrow> ParticleType list \<Rightarrow> ParticleType list \<Rightarrow>
     (ParticleType \<Rightarrow> ParticleType \<Rightarrow> double) \<Rightarrow> CollisionBranch list" where
  "find_nn_xsection_from_type E cs list_res_1 list_res_2 integrator =
     (let type_particle_a = type_a_of cs;
          type_particle_b = type_b_of cs;
          s = sqrt_s cs * sqrt_s cs
      in concat (map (\<lambda>type_res_1. concat (map (\<lambda>type_res_2.
           if charge type_res_1 + charge type_res_2 \<noteq>
              charge type_particle_a + charge type_particle_b then []
           else concat (map (\<lambda>twoI.
             let isospin_factor = isospin_clebsch_gordan_sqr_2to2 E type_particle_a
                                    type_particle_b type_res_1 type_res_2 twoI
             in if \<bar>isospin_factor\<bar> < really_small then []
                else
                  let lower_limit = min_mass_kinematic type_res_1;
                      upper_limit = sqrt_s cs - mass type_res_2
                  in if upper_limit - lower_limit < 1 / 1000 then []
                     else
                       let matrix_element = nn_to_resonance_matrix_element (sqrt_s cs)
                                              type_res_1 type_res_2 twoI
                       in if matrix_element \<le> 0 then []
                          else
                            let resonance_integral = integrator type_res_1 type_res_2;
                                spin_factor = real ((spin type_res_1 + 1) * (spin type_res_2 + 1));
                                xsection = isospin_factor * spin_factor * matrix_element *
                                           resonance_integral / (s * cm_momentum E cs)
                            in if xsection > really_small
                               then [branch2 type_res_1 type_res_2 xsection TwoToTwo] else [])
             (I_tot_range E type_particle_a type_particle_b))) list_res_2)) list_res_1))"

text \<open>
  \<^verbatim>\<open>bar_bar_to_nuc_nuc\<close>: \<open>p_cm_final\<close> is a square root; of a negative number it is NaN, every
  cross section computed from it is NaN and no branch passes the comparison with
  \<open>really_small\<close>.
\<close>

definition bar_bar_to_nuc_nuc :: "Env \<Rightarrow> cross_sections \<Rightarrow> bool \<Rightarrow> CollisionBranch list" where
  "bar_bar_to_nuc_nuc E cs is_anti_particles =
     (let type_a = type_a_of cs;
          type_b = type_b_of cs;
          s = sqrt_s cs * sqrt_s cs
      in if s - 4 * nucleon_mass * nucleon_mass < 0 then []
         else
          (let p_cm_final = sqrt (s - 4 * nucleon_mass * nucleon_mass) / 2;
               nuc_or_anti_nuc = (if is_anti_particles then list_anti_nucleons E
                                  else list_nucleons E)
           in concat (map (\<lambda>nuc_a. concat (map (\<lambda>nuc_b.
                if charge type_a + charge type_b \<noteq> charge nuc_a + charge nuc_b then []
                else concat (map (\<lambda>twoI.
                  let isospin_factor = isospin_clebsch_gordan_sqr_2to2 E type_a type_b
                                         nuc_a nuc_b twoI
                  in if \<bar>isospin_factor\<bar> < really_small then []
                     else
                       let matrix_element = nn_to_resonance_matrix_element (sqrt_s cs)
                                              type_a type_b twoI
                       in if matrix_element \<le> 0 then []
                          else
                            let spin_factor = real ((spin nuc_a + 1) * (spin nuc_b + 1));
                                sym_fac_in = (if iso_multiplet type_a = iso_multiplet type_b
                                              then 2 else 1);
                                sym_fac_out = (if iso_multiplet nuc_a = iso_multiplet nuc_b
                                               then 2 else 1);
                                xsection = isospin_factor * spin_factor * sym_fac_in /
                                           sym_fac_out * p_cm_final * matrix_element /
                                           (s * cm_momentum E cs)
                            in if xsection > really_small
                               then [branch2 nuc_a nuc_b xsection TwoToTwo] else [])
                  (I_tot_range E nuc_a nuc_b))) nuc_or_anti_nuc)) nuc_or_anti_nuc)))"

definition nn_xx :: "Env \<Rightarrow> cross_sections \<Rightarrow> ReactionsBitSet \<Rightarrow> CollisionBranch list" where
  "nn_xx E cs included_2to2 =
     (let sqrts = sqrt_s cs;
          both_antinucleons = (antiparticle_sign (type_a_of cs) = - 1 \<and>
                               antiparticle_sign (type_b_of cs) = - 1);
          nuc_or_anti_nuc = (if both_antinucleons then list_anti_nucleons E
                             else list_nucleons E);
          delta_or_anti_delta = (if both_antinucleons then list_anti_Deltas E
                                 else list_Deltas E);
          process_list =
            (if NN_to_NR \<in> included_2to2
             then find_nn_xsection_from_type E cs (list_baryon_resonances E) nuc_or_anti_nuc
                    (\<lambda>type_res_1 type_res_2.
                       get_integral_NR E (iso_multiplet type_res_1) sqrts)
             else []);
          process_list = process_list @
            (if NN_to_DR \<in> included_2to2
             then find_nn_xsection_from_type E cs (list_baryon_resonances E) delta_or_anti_delta
                    (\<lambda>type_res_1 type_res_2.
                       get_integral_RR E (iso_multiplet type_res_1) type_res_2 sqrts)
             else [])
      in case (try_find E pdg_decimal_d, try_find E pdg_decimal_antid, try_find E pdg_pi_m,
               try_find E pdg_pi_z, try_find E pdg_pi_p) of
           (Some deutron, Some antideutron, Some pim, Some pi0, Some pip) \<Rightarrow>
             process_list @
             find_nn_xsection_from_type E cs
               (if both_antinucleons then [antideutron] else [deutron]) [pim, pi0, pip]
               (\<lambda>type_res_1 type_res_2. pCM E sqrts (mass type_res_1) (mass type_res_2))
         | _ \<Rightarrow> process_list)"

definition bb_xx_except_nn :: "Env \<Rightarrow> cross_sections \<Rightarrow> ReactionsBitSet \<Rightarrow> CollisionBranch list" where
  "bb_xx_except_nn E cs included_2to2 =
     (let type_a = type_a_of cs;
          type_b = type_b_of cs;
          same_sign = (antiparticle_sign type_a = antiparticle_sign type_b);
          any_nucleus = (is_nucleus type_a \<or> is_nucleus type_b)
      in if \<not> same_sign \<and> \<not> any_nucleus then []
         else
           (let anti_particles = (antiparticle_sign type_a = - 1)
            in if is_nucleon type_a \<or> is_nucleon type_b then
                 (if NN_to_NR \<in> included_2to2 then bar_bar_to_nuc_nuc E cs anti_particles
                  else [])
               else if is_Delta type_a \<or> is_Delta type_b then
                 (if NN_to_DR \<in> included_2to2 then bar_bar_to_nuc_nuc E cs anti_particles
                  else [])
               else []))"

subsection \<open>Nucleon-kaon, Delta-kaon and hyperon-pion channels\<close>

text \<open>
  Each of \<^verbatim>\<open>nk_xx\<close>, \<^verbatim>\<open>deltak_xx\<close> and \<^verbatim>\<open>ypi_xx\<close> is a \<^verbatim>\<open>switch\<close> on the PDG codes whose
  cases call \<^verbatim>\<open>add_channel\<close> on one list. The cases are written as the list of those calls
  (\<open>nk_channels\<close>, \<open>deltak_channels\<close>, \<open>ypi_channels\<close>), which \<open>add_channels\<close> then runs in
  order.
\<close>

definition nk_channels :: "Env \<Rightarrow> cross_sections \<Rightarrow> ReactionsBitSet \<Rightarrow> channel list" where
  "nk_channels E cs included_2to2 =
     (let a = type_a_of cs;
          b = type_b_of cs;
          type_nucleon = (if is_nucleon a then a else b);
          type_kaon = (if is_nucleon a then b else a);
          pdg_nucleon = pdgcode type_nucleon;
          pdg_kaon = pdgcode type_kaon;
          s = sqrt_s cs * sqrt_s cs;
          sigma_kplusp = kplusp_inelastic_background E s;
          sigma_kplusn = kplusn_inelastic_background E s;
          incl_KN_to_KN = (KN_to_KN \<in> included_2to2);
          incl_KN_to_KDelta = (KN_to_KDelta \<in> included_2to2);
          incl_Strangeness_exchange = (Strangeness_exchange \<in> included_2to2)
      in
      if pdg_kaon = pdg_K_m then
           (if pdg_nucleon = pdg_p then
              (if incl_Strangeness_exchange then
                [(thunk (kminusp_piminussigmaplus E (sqrt_s cs)), (find_type E pdg_pi_m), (find_type E pdg_Sigma_p)),
                 (thunk (kminusp_piplussigmaminus E (sqrt_s cs)), (find_type E pdg_pi_p), (find_type E pdg_Sigma_m)),
                 (thunk (kminusp_pi0sigma0 E (sqrt_s cs)), (find_type E pdg_pi_z), (find_type E pdg_Sigma_z)),
                 (thunk (kminusp_pi0lambda E (sqrt_s cs)), (find_type E pdg_pi_z), (find_type E pdg_Lambda))]
              else [])
              @ (if incl_KN_to_KN then
                [(thunk (kminusp_kbar0n E s), (find_type E pdg_Kbar_z), (find_type E pdg_n))]
              else [])
            else if pdg_nucleon = pdg_n then
              (if incl_Strangeness_exchange then
                [(thunk (kminusn_piminussigma0 E (sqrt_s cs)), (find_type E pdg_pi_m), (find_type E pdg_Sigma_z)),
                 (thunk (kminusn_pi0sigmaminus E (sqrt_s cs)), (find_type E pdg_pi_z), (find_type E pdg_Sigma_m)),
                 (thunk (kminusn_piminuslambda E (sqrt_s cs)), (find_type E pdg_pi_m), (find_type E pdg_Lambda))]
              else [])
            else if pdg_nucleon = - pdg_p then
              (if incl_KN_to_KDelta then
                [(thunk (sigma_kplusp * kplusn_ratios_get_ratio E type_nucleon type_kaon (find_type E pdg_Kbar_z) (find_type E (- pdg_Delta_pp))), (find_type E pdg_Kbar_z), (find_type E (- pdg_Delta_pp))),
                 (thunk (sigma_kplusp * kplusn_ratios_get_ratio E type_nucleon type_kaon (find_type E pdg_K_m) (find_type E (- pdg_Delta_p))), (find_type E pdg_K_m), (find_type E (- pdg_Delta_p)))]
              else [])
            else if pdg_nucleon = - pdg_n then
              (if incl_KN_to_KDelta then
                [(thunk (sigma_kplusn * kplusn_ratios_get_ratio E type_nucleon type_kaon (find_type E pdg_Kbar_z) (find_type E (- pdg_Delta_p))), (find_type E pdg_Kbar_z), (find_type E (- pdg_Delta_p))),
                 (thunk (sigma_kplusn * kplusn_ratios_get_ratio E type_nucleon type_kaon (find_type E pdg_K_m) (find_type E (- pdg_Delta_z))), (find_type E pdg_K_m), (find_type E (- pdg_Delta_z)))]
              else [])
              @ (if incl_KN_to_KN then
                [(thunk (kplusn_k0p E s), (find_type E pdg_Kbar_z), (find_type E (- pdg_p)))]
              else [])
            else [])
      else if pdg_kaon = pdg_K_p then
           (if pdg_nucleon = pdg_p then
              (if incl_KN_to_KDelta then
                [(thunk (sigma_kplusp * kplusn_ratios_get_ratio E type_nucleon type_kaon (find_type E pdg_K_z) (find_type E pdg_Delta_pp)), (find_type E pdg_K_z), (find_type E pdg_Delta_pp)),
                 (thunk (sigma_kplusp * kplusn_ratios_get_ratio E type_nucleon type_kaon (find_type E pdg_K_p) (find_type E pdg_Delta_p)), (find_type E pdg_K_p), (find_type E pdg_Delta_p))]
              else [])
            else if pdg_nucleon = pdg_n then
              (if incl_KN_to_KDelta then
                [(thunk (sigma_kplusn * kplusn_ratios_get_ratio E type_nucleon type_kaon (find_type E pdg_K_z) (find_type E pdg_Delta_p)), (find_type E pdg_K_z), (find_type E pdg_Delta_p)),
                 (thunk (sigma_kplusn * kplusn_ratios_get_ratio E type_nucleon type_kaon (find_type E pdg_K_p) (find_type E pdg_Delta_z)), (find_type E pdg_K_p), (find_type E pdg_Delta_z))]
              else [])
              @ (if incl_KN_to_KN then
                [(thunk (kplusn_k0p E s), (find_type E pdg_K_z), (find_type E pdg_p))]
              else [])
            else if pdg_nucleon = - pdg_p then
              (if incl_Strangeness_exchange then
                [(thunk (kminusp_piminussigmaplus E (sqrt_s cs)), (find_type E pdg_pi_p), (find_type E (- pdg_Sigma_p))),
                 (thunk (kminusp_piplussigmaminus E (sqrt_s cs)), (find_type E pdg_pi_m), (find_type E (- pdg_Sigma_m))),
                 (thunk (kminusp_pi0sigma0 E (sqrt_s cs)), (find_type E pdg_pi_z), (find_type E (- pdg_Sigma_z))),
                 (thunk (kminusp_pi0lambda E (sqrt_s cs)), (find_type E pdg_pi_z), (find_type E (- pdg_Lambda)))]
              else [])
              @ (if incl_KN_to_KN then
                [(thunk (kminusp_kbar0n E s), (find_type E pdg_K_z), (find_type E (- pdg_n)))]
              else [])
            else if pdg_nucleon = - pdg_n then
              (if incl_Strangeness_exchange then
                [(thunk (kminusn_piminussigma0 E (sqrt_s cs)), (find_type E pdg_pi_p), (find_type E (- pdg_Sigma_z))),
                 (thunk (kminusn_pi0sigmaminus E (sqrt_s cs)), (find_type E pdg_pi_z), (find_type E (- pdg_Sigma_m))),
                 (thunk (kminusn_piminuslambda E (sqrt_s cs)), (find_type E pdg_pi_p), (find_type E (- pdg_Lambda)))]
              else [])
            else [])
      else if pdg_kaon = pdg_K_z then
           (if pdg_nucleon = pdg_p then
              (if incl_KN_to_KDelta then
                [(thunk (sigma_kplusp * kplusn_ratios_get_ratio E type_nucleon type_kaon (find_type E pdg_K_z) (find_type E pdg_Delta_p)), (find_type E pdg_K_z), (find_type E pdg_Delta_p)),
                 (thunk (sigma_kplusp * kplusn_ratios_get_ratio E type_nucleon type_kaon (find_type E pdg_K_p) (find_type E pdg_Delta_z)), (find_type E pdg_K_p), (find_type E pdg_Delta_z))]
              else [])
              @ (if incl_KN_to_KN then
                [(thunk (kplusn_k0p E s * kplusn_ratios_get_ratio E type_nucleon type_kaon (find_type E pdg_K_p) (find_type E pdg_n)), (find_type E pdg_K_p), (find_type E pdg_n))]
              else [])
            else if pdg_nucleon = pdg_n then
              (if incl_KN_to_KDelta then
                [(thunk (sigma_kplusn * kplusn_ratios_get_ratio E type_nucleon type_kaon (find_type E pdg_K_z) (find_type E pdg_Delta_z)), (find_type E pdg_K_z), (find_type E pdg_Delta_z)),
                 (thunk (sigma_kplusn * kplusn_ratios_get_ratio E type_nucleon type_kaon (find_type E pdg_K_p) (find_type E pdg_Delta_m)), (find_type E pdg_K_p), (find_type E pdg_Delta_m))]
              else [])
            else if pdg_nucleon = - pdg_n then
              (if incl_KN_to_KN then
                [(thunk (kminusp_kbar0n E s), (find_type E pdg_K_p), (find_type E (- pdg_p)))]
              else [])
            else [])
      else if pdg_kaon = pdg_Kbar_z then
           (if pdg_nucleon = pdg_n then
              (if incl_KN_to_KN then
                [(thunk (kminusp_kbar0n E s), (find_type E pdg_K_m), (find_type E pdg_p))]
              else [])
            else if pdg_nucleon = - pdg_p then
              (if incl_KN_to_KDelta then
                [(thunk (sigma_kplusp * kplusn_ratios_get_ratio E type_nucleon type_kaon (find_type E pdg_Kbar_z) (find_type E (- pdg_Delta_p))), (find_type E pdg_Kbar_z), (find_type E (- pdg_Delta_p))),
                 (thunk (sigma_kplusp * kplusn_ratios_get_ratio E type_nucleon type_kaon (find_type E pdg_K_m) (find_type E (- pdg_Delta_z))), (find_type E pdg_K_m), (find_type E (- pdg_Delta_z)))]
              else [])
              @ (if incl_KN_to_KN then
                [(thunk (kplusn_k0p E s * kplusn_ratios_get_ratio E type_nucleon type_kaon (find_type E pdg_K_m) (find_type E (- pdg_n))), (find_type E pdg_K_m), (find_type E (- pdg_n)))]
              else [])
            else if pdg_nucleon = - pdg_n then
              (if incl_KN_to_KDelta then
                [(thunk (sigma_kplusn * kplusn_ratios_get_ratio E type_nucleon type_kaon (find_type E pdg_Kbar_z) (find_type E (- pdg_Delta_z))), (find_type E pdg_Kbar_z), (find_type E (- pdg_Delta_z))),
                 (thunk (sigma_kplusn * kplusn_ratios_get_ratio E type_nucleon type_kaon (find_type E pdg_K_m) (find_type E (- pdg_Delta_m))), (find_type E pdg_K_m), (find_type E (- pdg_Delta_m)))]
              else [])
            else [])
      else [])"

definition nk_xx :: "Env \<Rightarrow> cross_sections \<Rightarrow> ReactionsBitSet \<Rightarrow> error + CollisionBranch list" where
  "nk_xx E cs included_2to2 = add_channels [] (sqrt_s cs) (nk_channels E cs included_2to2)"

definition deltak_channels :: "Env \<Rightarrow> cross_sections \<Rightarrow> channel list" where
  "deltak_channels E cs =
     (let a = type_a_of cs;
          b = type_b_of cs;
          type_delta = (if is_Delta a then a else b);
          type_kaon = (if is_Delta a then b else a);
          pdg_delta = pdgcode type_delta;
          pdg_kaon = pdgcode type_kaon;
          s = sqrt_s cs * sqrt_s cs;
          pcm = cm_momentum E cs
      in
           if (pdg_delta, pdg_kaon) = (pdg_Delta_pp, pdg_K_z) \<or>
              (pdg_delta, pdg_kaon) = (pdg_Delta_p, pdg_K_p) then
             [(\<lambda>_. bindE (detailed_balance_factor_RK E (sqrt_s cs) pcm type_delta type_kaon (find_type E pdg_p) (find_type E pdg_K_p))
                   (\<lambda>R. Inr (R * kplusn_ratios_get_ratio E (find_type E pdg_p) (find_type E pdg_K_p) type_kaon type_delta *
                             kplusp_inelastic_background E s)),
               (find_type E pdg_p), (find_type E pdg_K_p))]
           else if (pdg_delta, pdg_kaon) = (- pdg_Delta_pp, pdg_Kbar_z) \<or>
              (pdg_delta, pdg_kaon) = (- pdg_Delta_p, pdg_K_m) then
             [(\<lambda>_. bindE (detailed_balance_factor_RK E (sqrt_s cs) pcm type_delta type_kaon (find_type E (- pdg_p)) (find_type E pdg_K_m))
                   (\<lambda>R. Inr (R * kplusn_ratios_get_ratio E (find_type E (- pdg_p)) (find_type E pdg_K_m) type_kaon type_delta *
                             kplusp_inelastic_background E s)),
               (find_type E (- pdg_p)), (find_type E pdg_K_m))]
           else if (pdg_delta, pdg_kaon) = (pdg_Delta_p, pdg_K_z) \<or>
              (pdg_delta, pdg_kaon) = (pdg_Delta_z, pdg_K_p) then
             [(\<lambda>_. bindE (detailed_balance_factor_RK E (sqrt_s cs) pcm type_delta type_kaon (find_type E pdg_n) (find_type E pdg_K_p))
                   (\<lambda>R. Inr (R * kplusn_ratios_get_ratio E (find_type E pdg_n) (find_type E pdg_K_p) type_kaon type_delta *
                             kplusn_inelastic_background E s)),
               (find_type E pdg_n), (find_type E pdg_K_p)),
              (\<lambda>_. bindE (detailed_balance_factor_RK E (sqrt_s cs) pcm type_delta type_kaon (find_type E pdg_p) (find_type E pdg_K_z))
                   (\<lambda>R. Inr (R * kplusn_ratios_get_ratio E (find_type E pdg_p) (find_type E pdg_K_z) type_kaon type_delta *
                             kplusp_inelastic_background E s)),
               (find_type E pdg_p), (find_type E pdg_K_z))]
           else if (pdg_delta, pdg_kaon) = (- pdg_Delta_p, pdg_Kbar_z) \<or>
              (pdg_delta, pdg_kaon) = (- pdg_Delta_z, pdg_K_m) then
             [(\<lambda>_. bindE (detailed_balance_factor_RK E (sqrt_s cs) pcm type_delta type_kaon (find_type E (- pdg_n)) (find_type E pdg_K_m))
                   (\<lambda>R. Inr (R * kplusn_ratios_get_ratio E (find_type E (- pdg_n)) (find_type E pdg_K_m) type_kaon type_delta *
                             kplusn_inelastic_background E s)),
               (find_type E (- pdg_n)), (find_type E pdg_K_m)),
              (\<lambda>_. bindE (detailed_balance_factor_RK E (sqrt_s cs) pcm type_delta type_kaon (find_type E (- pdg_p)) (find_type E pdg_Kbar_z))
                   (\<lambda>R. Inr (R * kplusn_ratios_get_ratio E (find_type E (- pdg_p)) (find_type E pdg_Kbar_z) type_kaon type_delta *
                             kplusp_inelastic_background E s)),
               (find_type E (- pdg_p)), (find_type E pdg_Kbar_z))]
           else if (pdg_delta, pdg_kaon) = (pdg_Delta_z, pdg_K_z) \<or>
              (pdg_delta, pdg_kaon) = (pdg_Delta_m, pdg_K_p) then
             [(\<lambda>_. bindE (detailed_balance_factor_RK E (sqrt_s cs) pcm type_delta type_kaon (find_type E pdg_n) (find_type E pdg_K_z))
                   (\<lambda>R. Inr (R * kplusn_ratios_get_ratio E (find_type E pdg_n) (find_type E pdg_K_z) type_kaon type_delta *
                             kplusn_inelastic_background E s)),
               (find_type E pdg_n), (find_type E pdg_K_z))]
           else if (pdg_delta, pdg_kaon) = (- pdg_Delta_z, pdg_Kbar_z) \<or>
              (pdg_delta, pdg_kaon) = (- pdg_Delta_m, pdg_K_m) then
             [(\<lambda>_. bindE (detailed_balance_factor_RK E (sqrt_s cs) pcm type_delta type_kaon (find_type E (- pdg_n)) (find_type E pdg_Kbar_z))
                   (\<lambda>R. Inr (R * kplusn_ratios_get_ratio E (find_type E (- pdg_n)) (find_type E pdg_Kbar_z) type_kaon type_delta *
                             kplusn_inelastic_background E s)),
               (find_type E (- pdg_n)), (find_type E pdg_Kbar_z))]
           else [])"

definition deltak_xx :: "Env \<Rightarrow> cross_sections \<Rightarrow> ReactionsBitSet \<Rightarrow> error + CollisionBranch list" where
  "deltak_xx E cs included_2to2 =
     (if KN_to_KDelta \<notin> included_2to2 then Inr []
      else add_channels [] (sqrt_s cs) (deltak_channels E cs))"

definition ypi_channels :: "Env \<Rightarrow> cross_sections \<Rightarrow> channel list" where
  "ypi_channels E cs =
     (let a = type_a_of cs;
          b = type_b_of cs;
          type_hyperon = (if is_hyperon a then a else b);
          type_pion = (if is_hyperon a then b else a);
          pdg_hyperon = pdgcode type_hyperon;
          pdg_pion = pdgcode type_pion;
          s = sqrt_s cs * sqrt_s cs
      in
           if (pdg_hyperon, pdg_pion) = (pdg_Sigma_z, pdg_pi_m) then
             [(thunk (detailed_balance_factor_stable s type_hyperon type_pion (find_type E pdg_n) (find_type E pdg_K_m) *
                      kminusn_piminussigma0 E (sqrt_s cs)), (find_type E pdg_n), (find_type E pdg_K_m))]
           else if (pdg_hyperon, pdg_pion) = (- pdg_Sigma_z, pdg_pi_p) then
             [(thunk (detailed_balance_factor_stable s type_hyperon type_pion (find_type E (- pdg_n)) (find_type E pdg_K_p) *
                      kminusn_piminussigma0 E (sqrt_s cs)), (find_type E (- pdg_n)), (find_type E pdg_K_p))]
           else if (pdg_hyperon, pdg_pion) = (pdg_Sigma_m, pdg_pi_z) then
             [(thunk (detailed_balance_factor_stable s type_hyperon type_pion (find_type E pdg_n) (find_type E pdg_K_m) *
                      kminusn_pi0sigmaminus E (sqrt_s cs)), (find_type E pdg_n), (find_type E pdg_K_m))]
           else if (pdg_hyperon, pdg_pion) = (- pdg_Sigma_m, pdg_pi_z) then
             [(thunk (detailed_balance_factor_stable s type_hyperon type_pion (find_type E (- pdg_n)) (find_type E pdg_K_p) *
                      kminusn_pi0sigmaminus E (sqrt_s cs)), (find_type E (- pdg_n)), (find_type E pdg_K_p))]
           else if (pdg_hyperon, pdg_pion) = (pdg_Lambda, pdg_pi_m) then
             [(thunk (detailed_balance_factor_stable s type_hyperon type_pion (find_type E pdg_n) (find_type E pdg_K_m) *
                      kminusn_piminuslambda E (sqrt_s cs)), (find_type E pdg_n), (find_type E pdg_K_m))]
           else if (pdg_hyperon, pdg_pion) = (- pdg_Lambda, pdg_pi_p) then
             [(thunk (detailed_balance_factor_stable s type_hyperon type_pion (find_type E (- pdg_n)) (find_type E pdg_K_p) *
                      kminusn_piminuslambda E (sqrt_s cs)), (find_type E (- pdg_n)), (find_type E pdg_K_p))]
           else if (pdg_hyperon, pdg_pion) = (pdg_Sigma_z, pdg_pi_z) then
             [(thunk (detailed_balance_factor_stable s type_hyperon type_pion (find_type E pdg_p) (find_type E pdg_K_m) *
                      kminusp_pi0sigma0 E (sqrt_s cs)), (find_type E pdg_p), (find_type E pdg_K_m))]
           else if (pdg_hyperon, pdg_pion) = (- pdg_Sigma_z, pdg_pi_z) then
             [(thunk (detailed_balance_factor_stable s type_hyperon type_pion (find_type E (- pdg_p)) (find_type E pdg_K_p) *
                      kminusp_pi0sigma0 E (sqrt_s cs)), (find_type E (- pdg_p)), (find_type E pdg_K_p))]
           else if (pdg_hyperon, pdg_pion) = (pdg_Sigma_m, pdg_pi_p) then
             [(thunk (detailed_balance_factor_stable s type_hyperon type_pion (find_type E pdg_p) (find_type E pdg_K_m) *
                      kminusp_piplussigmaminus E (sqrt_s cs)), (find_type E pdg_p), (find_type E pdg_K_m))]
           else if (pdg_hyperon, pdg_pion) = (- pdg_Sigma_m, pdg_pi_m) then
             [(thunk (detailed_balance_factor_stable s type_hyperon type_pion (find_type E (- pdg_p)) (find_type E pdg_K_p) *
                      kminusp_piplussigmaminus E (sqrt_s cs)), (find_type E (- pdg_p)), (find_type E pdg_K_p))]
           else if (pdg_hyperon, pdg_pion) = (pdg_Lambda, pdg_pi_z) then
             [(thunk (detailed_balance_factor_stable s type_hyperon type_pion (find_type E pdg_p) (find_type E pdg_K_m) *
                      kminusp_pi0lambda E (sqrt_s cs)), (find_type E pdg_p), (find_type E pdg_K_m))]
           else if (pdg_hyperon, pdg_pion) = (- pdg_Lambda, pdg_pi_z) then
             [(thunk (detailed_balance_factor_stable s type_hyperon type_pion (find_type E (- pdg_p)) (find_type E pdg_K_p) *
                      kminusp_pi0lambda E (sqrt_s cs)), (find_type E (- pdg_p)), (find_type E pdg_K_p))]
           else if (pdg_hyperon, pdg_pion) = (pdg_Sigma_p, pdg_pi_m) then
             [(thunk (detailed_balance_factor_stable s type_hyperon type_pion (find_type E pdg_p) (find_type E pdg_K_m) *
                      kminusp_piminussigmaplus E (sqrt_s cs)), (find_type E pdg_p), (find_type E pdg_K_m))]
           else if (pdg_hyperon, pdg_pion) = (- pdg_Sigma_p, pdg_pi_p) then
             [(thunk (detailed_balance_factor_stable s type_hyperon type_pion (find_type E (- pdg_p)) (find_type E pdg_K_p) *
                      kminusp_piminussigmaplus E (sqrt_s cs)), (find_type E (- pdg_p)), (find_type E pdg_K_p))]
           else [])"

definition ypi_xx :: "Env \<Rightarrow> cross_sections \<Rightarrow> ReactionsBitSet \<Rightarrow> error + CollisionBranch list" where
  "ypi_xx E cs included_2to2 =
     (if Strangeness_exchange \<notin> included_2to2 then Inr []
      else add_channels [] (sqrt_s cs) (ypi_channels E cs))"

subsection \<open>The dispatcher\<close>

definition two_to_two :: "Env \<Rightarrow> cross_sections \<Rightarrow> ReactionsBitSet \<Rightarrow> error + CollisionBranch list" where
  "two_to_two E cs included_2to2 =
     (let type_a = type_a_of cs;
          type_b = type_b_of cs
      in if is_baryon type_a \<and> is_baryon type_b then
           (if is_nucleon type_a \<and> is_nucleon type_b \<and>
               antiparticle_sign type_a = antiparticle_sign type_b
            then Inr (nn_xx E cs included_2to2)
            else Inr (bb_xx_except_nn E cs included_2to2))
         else if (is_baryon type_a \<and> is_meson type_b) \<or> (is_meson type_a \<and> is_baryon type_b) then
           (if (is_nucleon type_a \<and> is_kaon type_b) \<or> (is_nucleon type_b \<and> is_kaon type_a)
              then nk_xx E cs included_2to2
            else if (is_hyperon type_a \<and> is_pion type_b) \<or> (is_hyperon type_b \<and> is_pion type_a)
              then ypi_xx E cs included_2to2
            else if (is_Delta type_a \<and> is_kaon type_b) \<or> (is_Delta type_b \<and> is_kaon type_a)
              then deltak_xx E cs included_2to2
            else Inr [])
         else if is_nucleus type_a \<or> is_nucleus type_b then
           (if (is_nucleon type_a \<and> is_nucleus type_b) \<or> (is_nucleon type_b \<and> is_nucleus type_a)
              then dn_xx E cs included_2to2
            else if ((is_deuteron type_a \<or> is_dprime type_a) \<and> is_pion type_b) \<or>
                    ((is_deuteron type_b \<or> is_dprime type_b) \<and> is_pion type_a)
              then dpi_xx E cs included_2to2
            else Inr [])
         else Inr [])"

text \<open>
  \<^verbatim>\<open>generate_collision_list\<close> returns the branch list; the model returns with it the string
  provider as the call leaves it and the position of the next random number. The two arms
  of its \<^verbatim>\<open>if (is_pythia)\<close> and the body of its \<^verbatim>\<open>if (nnbar_treatment == Resonances)\<close> are
  written as definitions of their own; each takes the list built so far.
\<close>

type_synonym kernel_state = "StringProcess option \<times> nat"

definition string_arm ::
  "Env \<Rightarrow> cross_sections \<Rightarrow> StringProcess option \<Rightarrow> nat \<Rightarrow> CollisionBranch list \<Rightarrow>
     error + (CollisionBranch list \<times> kernel_state)" where
  "string_arm E cs string_process rng process_list =
     bindE (string_excitation E cs string_process rng) (\<lambda>r.
       Inr (append_list process_list (fst r), snd r))"

definition resonance_arm ::
  "Env \<Rightarrow> cross_sections \<Rightarrow> bool \<Rightarrow> ReactionsBitSet \<Rightarrow> StringProcess option \<Rightarrow> nat \<Rightarrow>
     CollisionBranch list \<Rightarrow> error + (CollisionBranch list \<times> kernel_state)" where
  "resonance_arm E cs two_to_one_switch included_2to2 string_process rng process_list =
     (let process_list =
            (if two_to_one_switch then append_list process_list (two_to_one E cs)
             else process_list)
      in if included_2to2 \<noteq> {} then
           bindE (two_to_two E cs included_2to2) (\<lambda>l.
             Inr (append_list process_list l, string_process, rng))
         else Inr (process_list, string_process, rng))"

definition nnbar_closure ::
  "Env \<Rightarrow> cross_sections \<Rightarrow> CollisionBranch list \<times> kernel_state \<Rightarrow>
     error + (CollisionBranch list \<times> kernel_state)" where
  "nnbar_closure E cs r =
     (let t1 = type_a_of cs;
          t2 = type_b_of cs;
          process_list = fst r;
          state = snd r;
          process_list =
            (if is_nucleon t1 \<and> pdgcode t2 = get_antiparticle_pdgcode t1
             then process_list @ [NNbar_annihilation E cs (sum_xs_of process_list)]
             else process_list)
      in if (pdgcode t1 = pdg_rho_z \<and> pdgcode t2 = pdg_h1) \<or>
            (pdgcode t1 = pdg_h1 \<and> pdgcode t2 = pdg_rho_z)
         then bindE (NNbar_creation E cs) (\<lambda>l. Inr (append_list process_list l, state))
         else Inr (process_list, state))"

definition reject_by_nucleon_elastic_cutoff :: "cross_sections \<Rightarrow> double \<Rightarrow> bool" where
  "reject_by_nucleon_elastic_cutoff cs low_snn_cut =
     ((is_nucleon (type_a_of cs) \<and> is_nucleon (type_b_of cs)) \<and>
      antiparticle_sign (type_a_of cs) = antiparticle_sign (type_b_of cs) \<and>
      sqrt_s cs < low_snn_cut)"

definition generate_collision_list ::
  "Env \<Rightarrow> cross_sections \<Rightarrow> double \<Rightarrow> bool \<Rightarrow> ReactionsBitSet \<Rightarrow> double \<Rightarrow> bool \<Rightarrow>
     NNbarTreatment \<Rightarrow> StringProcess option \<Rightarrow> nat \<Rightarrow>
     error + (CollisionBranch list \<times> kernel_state)" where
  "generate_collision_list E cs elastic_parameter two_to_one_switch included_2to2 low_snn_cut
       strings_switch nnbar_treatment string_process rng =
     (let t1 = type_a_of cs;
          t2 = type_b_of cs;
          both_are_nucleons = (is_nucleon t1 \<and> is_nucleon t2);
          decided = decide_string E cs strings_switch both_are_nucleons rng;
          is_pythia = fst decided;
          rng = snd decided;
          incl_elastic = (IR_Elastic \<in> included_2to2)
      in
      bindE (if incl_elastic \<and> \<not> reject_by_nucleon_elastic_cutoff cs low_snn_cut
             then bindE (elastic E cs elastic_parameter) (\<lambda>b. Inr [b])
             else Inr []) (\<lambda>process_list.
      bindE (if is_pythia then string_arm E cs string_process rng process_list
             else resonance_arm E cs two_to_one_switch included_2to2 string_process rng
                    process_list) (\<lambda>r.
      if nnbar_treatment = Resonances then nnbar_closure E cs r else Inr r)))"

text \<open>
  A branch that went through the comparison with \<open>really_small\<close> on a \<open>2 \<rightarrow> 2\<close> path.
\<close>

definition thresholded :: "CollisionBranch \<Rightarrow> bool" where
  "thresholded b \<longleftrightarrow> get_type b = TwoToTwo \<and> really_small < weight b"

subsection \<open>A small registry\<close>

text \<open>
  Particle types of a small registry, on which the definitions are run: the nucleons and
  their antiparticles, a pion, the \<open>N*(1535)\<close>, \<open>\<rho>\<^sup>0\<close>, \<open>h\<^sub>1(1170)\<close>, the deuteron and \<open>d'\<close>.
\<close>

definition plain_type :: "int \<Rightarrow> string \<Rightarrow> double \<Rightarrow> nat \<Rightarrow> int \<Rightarrow> int \<Rightarrow> ParticleType" where
  "plain_type code nm m j q B =
     \<lparr>pdgcode = code, name = nm, mass = m, width_at_pole = 0, min_mass_kinematic = m,
      min_mass_spectral = m, spin = j, charge = q, baryon_number = B, iso_multiplet = 0,
      is_stable = True, is_nucleon = False, is_Delta = False, is_Nstar = False,
      is_Nstar1535 = False, is_Deltastar = False, is_hyperon = False, is_kaon = False,
      is_pion = False, is_baryon = False, is_meson = False, is_nucleus = False,
      is_deuteron = False, is_dprime = False\<rparr>"

definition sample_p :: ParticleType where
  "sample_p = (plain_type pdg_p ''p'' 0.938 1 1 1)
     \<lparr>iso_multiplet := 1, is_nucleon := True, is_baryon := True\<rparr>"

definition sample_n :: ParticleType where
  "sample_n = (plain_type pdg_n ''n'' 0.938 1 0 1)
     \<lparr>iso_multiplet := 1, is_nucleon := True, is_baryon := True\<rparr>"

definition sample_pbar :: ParticleType where
  "sample_pbar = (plain_type (- pdg_p) ''pbar'' 0.938 1 (- 1) (- 1))
     \<lparr>iso_multiplet := 2, is_nucleon := True, is_baryon := True\<rparr>"

definition sample_nbar :: ParticleType where
  "sample_nbar = (plain_type (- pdg_n) ''nbar'' 0.938 1 0 (- 1))
     \<lparr>iso_multiplet := 2, is_nucleon := True, is_baryon := True\<rparr>"

definition sample_pi_p :: ParticleType where
  "sample_pi_p = (plain_type pdg_pi_p ''pi+'' 0.138 0 1 0)
     \<lparr>iso_multiplet := 3, is_pion := True, is_meson := True\<rparr>"

definition sample_Nstar1535_p :: ParticleType where
  "sample_Nstar1535_p = (plain_type 0x22212 ''N(1535)+'' 1.53 1 1 1)
     \<lparr>width_at_pole := 0.15, min_mass_kinematic := 1.076, min_mass_spectral := 1.076,
      iso_multiplet := 4, is_stable := False, is_Nstar := True, is_Nstar1535 := True,
      is_baryon := True\<rparr>"

definition sample_rho_z :: ParticleType where
  "sample_rho_z = (plain_type pdg_rho_z ''rho0'' 0.776 2 0 0)
     \<lparr>width_at_pole := 0.149, min_mass_kinematic := 0.276, min_mass_spectral := 0.276,
      iso_multiplet := 5, is_stable := False, is_meson := True\<rparr>"

definition sample_h1 :: ParticleType where
  "sample_h1 = (plain_type pdg_h1 ''h1(1170)'' 1.17 2 0 0)
     \<lparr>width_at_pole := 0.36, min_mass_kinematic := 0.414, min_mass_spectral := 0.414,
      iso_multiplet := 6, is_stable := False, is_meson := True\<rparr>"

definition sample_d :: ParticleType where
  "sample_d = (plain_type pdg_decimal_d ''d'' 1.8756 2 1 2)
     \<lparr>iso_multiplet := 7, is_nucleus := True, is_deuteron := True\<rparr>"

definition sample_dprime :: ParticleType where
  "sample_dprime = (plain_type 1000010021 ''d_prime'' 1.8856 2 1 2)
     \<lparr>width_at_pole := 0.1, min_mass_kinematic := 1.8766, min_mass_spectral := 1.8766,
      iso_multiplet := 8, is_stable := False, is_nucleus := True, is_dprime := True\<rparr>"

definition sample_find :: "int \<Rightarrow> ParticleType" where
  "sample_find code =
     (if code = pdg_p then sample_p
      else if code = pdg_n then sample_n
      else if code = - pdg_p then sample_pbar
      else if code = - pdg_n then sample_nbar
      else if code = pdg_pi_p then sample_pi_p
      else if code = pdg_rho_z then sample_rho_z
      else if code = pdg_h1 then sample_h1
      else if code = pdg_decimal_d then sample_d
      else plain_type code ''other'' 1 0 0 0)"

text \<open>
  An environment over that registry. The elastic parametrizations are \<open>s - 10\<close>, positive
  above \<open>sqrt_s = \<surd>10\<close> and not below; the other services are constants.
\<close>

definition sample_env :: Env where
  "sample_env =
     \<lparr>pp_elastic = (\<lambda>s. s - 10), ppbar_elastic = (\<lambda>s. s - 10), np_elastic = (\<lambda>s. s - 10),
      piplusp_elastic = (\<lambda>s. s - 10), piminusp_elastic = (\<lambda>s. s - 10),
      kplusp_elastic_background = (\<lambda>s. s - 10), kminusp_elastic_background = (\<lambda>s. s - 10),
      k0p_elastic_background = (\<lambda>s. s - 10), kbar0p_elastic_background = (\<lambda>s. s - 10),
      kplusn_elastic_background = (\<lambda>s. s - 10), kminusn_elastic_background = (\<lambda>s. s - 10),
      k0n_elastic_background = (\<lambda>s. s - 10), kbar0n_elastic_background = (\<lambda>s. s - 10),
      kplusp_inelastic_background = (\<lambda>s. 1), kplusn_inelastic_background = (\<lambda>s. 1),
      kminusp_piminussigmaplus = (\<lambda>s. 1), kminusp_piplussigmaminus = (\<lambda>s. 1),
      kminusp_pi0sigma0 = (\<lambda>s. 1), kminusp_pi0lambda = (\<lambda>s. 1), kminusp_kbar0n = (\<lambda>s. 1),
      kminusn_piminussigma0 = (\<lambda>s. 1), kminusn_pi0sigmaminus = (\<lambda>s. 1),
      kminusn_piminuslambda = (\<lambda>s. 1), kplusn_k0p = (\<lambda>s. 1),
      pp_high_energy = (\<lambda>s. 40), ppbar_high_energy = (\<lambda>s. 40), np_high_energy = (\<lambda>s. 40),
      npbar_high_energy = (\<lambda>s. 40), piplusp_high_energy = (\<lambda>s. 40),
      piminusp_high_energy = (\<lambda>s. 40),
      NN_string_hard = (\<lambda>s. 0), Npi_string_hard = (\<lambda>s. 0), pipi_string_hard = (\<lambda>s. 0),
      ppbar_total = (\<lambda>s. 100),
      kplusn_ratios_get_ratio = (\<lambda>a b c d. 1),
      find_type = sample_find,
      try_find = (\<lambda>code. None),
      list_all_types = [sample_p, sample_n, sample_pbar, sample_nbar, sample_pi_p,
        sample_Nstar1535_p, sample_rho_z, sample_h1, sample_d, sample_dprime],
      list_nucleons = [sample_p, sample_n],
      list_anti_nucleons = [sample_pbar, sample_nbar],
      list_Deltas = [],
      list_anti_Deltas = [],
      list_baryon_resonances = [sample_Nstar1535_p],
      list_light_nuclei = [sample_d, sample_dprime],
      I_tot_range = (\<lambda>a b. [2, 0]),
      isospin_clebsch_gordan_sqr_2to2 = (\<lambda>a b c d twoI. 1 / 2),
      get_integral_NR = (\<lambda>m sqrts. 1),
      get_integral_RR = (\<lambda>m t sqrts. 1),
      get_integral_RK = (\<lambda>m sqrts. 1),
      get_integral_piR = (\<lambda>m sqrts. 1),
      get_partial_in_width = (\<lambda>t sqrts a b. 1),
      spectral_function = (\<lambda>t sqrts. 1),
      pCM = (\<lambda>sqrts m1 m2. 1),
      pCM_from_s = (\<lambda>s m1 m2. 1),
      uniform = (\<lambda>n. 1 / 2)\<rparr>"

text \<open>
  Two string providers: one whose diffractive cross sections are \<open>(4, 6, 10)\<close> and one whose
  single-diffractive cross sections are both zero.
\<close>

definition sample_strings :: StringProcess where
  "sample_strings = \<lparr>cross_sections_diffractive = (\<lambda>a b e. (4, 6, 10)), subproc = NoSoftType\<rparr>"

definition sample_strings_no_single :: StringProcess where
  "sample_strings_no_single =
     \<lparr>cross_sections_diffractive = (\<lambda>a b e. (0, 0, 1)), subproc = NoSoftType\<rparr>"

text \<open>The same environment with a hard string cross section of \<open>1\<close> for baryon pairs.\<close>

definition sample_env_hard :: Env where
  "sample_env_hard = sample_env\<lparr>NN_string_hard := (\<lambda>s. 1)\<rparr>"

definition at_rest :: "ParticleType \<Rightarrow> ParticleData" where
  "at_rest t = \<lparr>type = t, effective_mass = mass t\<rparr>"

definition pair_at :: "ParticleType \<Rightarrow> ParticleType \<Rightarrow> double \<Rightarrow> cross_sections" where
  "pair_at a b e = \<lparr>incoming_particles = (at_rest a, at_rest b), sqrt_s = e\<rparr>"

text \<open>Two weights of the sample environment that later runs produce.\<close>

definition w_NNstar :: "int \<Rightarrow> real" where
  "w_NNstar twoI = 1 / 2 * real ((1 + 1) * (1 + 1)) *
     nn_to_resonance_matrix_element 4 sample_Nstar1535_p sample_p twoI * 1 / (4 * 4 * 1)"

definition w_formation :: real where
  "w_formation = formation sample_env (pair_at sample_pi_p sample_n 2) sample_Nstar1535_p
     (pCM_sqr 2 (mass sample_pi_p) (mass sample_n))"

text \<open>
  The weight of \<open>\<pi>\<^sup>+ d \<rightarrow> \<pi>\<^sup>+ d'\<close> in the sample environment at \<open>\<surd>s = 100000\<close>, as the second
  loop of \<^verbatim>\<open>dpi_xx\<close> computes it.
\<close>

definition w_dpi :: real where
  "w_dpi = (295.5 + 2.862 / (0.00283735 + pow_int (100000 - 2.181) 2) +
            0.0672 / pow_int (100000 - 0.138 - 1.8756) 2 -
            6.61753 / (100000 - 0.138 - 1.8756)) *
           real ((2 + 1) * (0 + 1)) / (100000 * 100000 * 1) * 1"

section \<open>Verified properties\<close>

subsection \<open>Detailed balance\<close>

text \<open>
  C7. \<open>detailed_balance_factor_stable(s, A, B, C, D)\<close> is the product of the spin factor
  \<open>g(C) g(D) / (g(A) g(B))\<close>, the symmetry factor \<open>(1 + \<delta>(A,B)) / (1 + \<delta>(C,D))\<close> and the
  momentum factor \<open>pCM_sqr(s, m\<^sub>C, m\<^sub>D) / pCM_sqr(s, m\<^sub>A, m\<^sub>B)\<close>, for all particle types
  and all \<open>s\<close>.
\<close>

theorem detailed_balance_factor_stable_product:
  "detailed_balance_factor_stable s A B C D =
     (g_spin C * g_spin D / (g_spin A * g_spin B)) *
     ((1 + delta_type A B) / (1 + delta_type C D)) *
     (pCM_sqr_from_s s (mass C) (mass D) / pCM_sqr_from_s s (mass A) (mass B))"
proof -
  have spin_part: "real ((spin C + 1) * (spin D + 1)) / real ((spin A + 1) * (spin B + 1))
      = g_spin C * g_spin D / (g_spin A * g_spin B)"
    unfolding g_spin_def by (simp only: of_nat_mult of_nat_add of_nat_1)
  have sym_part: "real (1 + of_bool (same_type X Y)) = 1 + delta_type X Y" for X Y
    by (simp add: same_type_def delta_type_def)
  show ?thesis
    unfolding detailed_balance_factor_stable_def Let_def spin_part sym_part ..
qed

subsection \<open>Breit-Wigner\<close>

text \<open>
  C9. The Breit-Wigner function evaluated at invariant mass \<open>srts\<close> equals
  \<open>(2 s \<Gamma>) / (\<pi> ((s - M\<^sup>2)\<^sup>2 + s \<Gamma>\<^sup>2))\<close>, where \<open>s = srts\<^sup>2\<close> is the squared invariant
  mass at which the amplitude is evaluated, for all inputs.
\<close>

theorem breit_wigner_profile:
  "breit_wigner srts M \<Gamma> = BW_profile (srts\<^sup>2) M \<Gamma>"
  by (simp add: breit_wigner_def BW_profile_def Let_def power2_eq_square algebra_simps)

subsection \<open>Matrix element\<close>

lemma find_code_table:
  "List.find (row_matches fs twoI) code_matrix_element_table =
     (if fs = N_Delta then Some (N_Delta, None, \<lambda>sqrts msqr. 68 / (sqrts - 1.104) powr 1.951)
      else if fs = N_Nstar_other \<and> twoI = 2 then Some (N_Nstar_other, Some 2, \<lambda>sqrts msqr. 7 / msqr)
      else if fs = N_Nstar_other \<and> twoI = 0 then Some (N_Nstar_other, Some 0, \<lambda>sqrts msqr. 14 / msqr)
      else if fs = N_Nstar1535 \<and> twoI = 2 then Some (N_Nstar1535, Some 2, \<lambda>sqrts msqr. 7 / msqr)
      else if fs = N_Nstar1535 \<and> twoI = 0 then Some (N_Nstar1535, Some 0, \<lambda>sqrts msqr. 6.5 * 14 / msqr)
      else if fs = N_Deltastar then Some (N_Deltastar, None, \<lambda>sqrts msqr. 15 / msqr)
      else if fs = Delta_Delta \<and> twoI = 2 then Some (Delta_Delta, Some 2, \<lambda>sqrts msqr. 45 / msqr)
      else if fs = Delta_Delta \<and> twoI = 0 then Some (Delta_Delta, Some 0, \<lambda>sqrts msqr. 120 / msqr)
      else if fs = Nstar_Delta then Some (Nstar_Delta, None, \<lambda>sqrts msqr. 7 / msqr)
      else if fs = Deltastar_Delta \<and> twoI = 2 then Some (Deltastar_Delta, Some 2, \<lambda>sqrts msqr. 15 / msqr)
      else if fs = Deltastar_Delta \<and> twoI = 0 then Some (Deltastar_Delta, Some 0, \<lambda>sqrts msqr. 25 / msqr)
      else if fs = d_pi then Some (d_pi, None, \<lambda>sqrts msqr. d_pi_fit sqrts)
      else None)"
  by (cases fs) (simp_all add: code_matrix_element_table_def spec_matrix_element_table_def
      row_matches_def)

lemma table_value:
  "matrix_element_by_table code_matrix_element_table sqrts a b twoI =
     (let msqr = 2 * (mass a * mass a + mass b * mass b);
          fs = final_state_of a b
      in if sqrts > mass a + mass b + 3 * (width_at_pole a + width_at_pole b) + 3 then 0
         else if fs = N_Delta then 68 / std_pow (sqrts - 1.104) 1.951
         else if fs = N_Nstar_other then (if twoI = 2 then 7 / msqr else if twoI = 0 then 14 / msqr else 0)
         else if fs = N_Nstar1535 then (if twoI = 2 then 7 / msqr else if twoI = 0 then 6.5 * (14 / msqr) else 0)
         else if fs = N_Deltastar then 15 / msqr
         else if fs = Delta_Delta then (if twoI = 2 then 45 / msqr else if twoI = 0 then 120 / msqr else 0)
         else if fs = Nstar_Delta then 7 / msqr
         else if fs = Deltastar_Delta then (if twoI = 2 then 15 / msqr else if twoI = 0 then 25 / msqr else 0)
         else if fs = d_pi then 0.055 / (pow_int (sqrts - 2.145) 2 + pow_int 0.065 2) *
           (1 - exp (- (sqrts - 2) * 20))
         else 0)"
  unfolding matrix_element_by_table_def find_code_table Let_def
  by (cases "final_state_of a b")
     (simp_all add: std_pow_def pow_int_def d_pi_fit_def power2_eq_square)

text \<open>
  C5 (as amended). \<open>nn_to_resonance_matrix_element\<close> returns \<open>0\<close> above the cutoff and
  otherwise the value of the table for the final state and \<open>2I\<close>, \<open>0\<close> when no row is for
  them, where the table is the spec's with one more row: \<open>N N*(1535)\<close> at \<open>2I = 2\<close> has
  \<open>7 / msqr\<close>, as every other \<open>N N*\<close>.
\<close>

theorem nn_to_resonance_matrix_element_table:
  "nn_to_resonance_matrix_element sqrts a b twoI =
     matrix_element_by_table code_matrix_element_table sqrts a b twoI"
proof -
  define s where "s \<longleftrightarrow> antiparticle_sign a = antiparticle_sign b"
  define c1 where "c1 \<longleftrightarrow> ((is_Delta a \<and> is_nucleon b) \<or> (is_Delta b \<and> is_nucleon a)) \<and> s"
  define c2 where "c2 \<longleftrightarrow> ((is_Nstar a \<and> is_nucleon b) \<or> (is_Nstar b \<and> is_nucleon a)) \<and> s"
  define c3 where "c3 \<longleftrightarrow> ((is_Deltastar a \<and> is_nucleon b) \<or> (is_Deltastar b \<and> is_nucleon a)) \<and> s"
  define c4 where "c4 \<longleftrightarrow> (is_Delta a \<and> is_Delta b) \<and> s"
  define c5 where "c5 \<longleftrightarrow> ((is_Nstar a \<and> is_Delta b) \<or> (is_Nstar b \<and> is_Delta a)) \<and> s"
  define c6 where "c6 \<longleftrightarrow> ((is_Deltastar a \<and> is_Delta b) \<or> (is_Deltastar b \<and> is_Delta a)) \<and> s"
  define c7 where "c7 \<longleftrightarrow> (is_deuteron a \<and> is_pion b) \<or> (is_deuteron b \<and> is_pion a)"
  define n where "n \<longleftrightarrow> is_Nstar1535 a \<or> is_Nstar1535 b"
  have fs: "final_state_of a b =
      (if c1 then N_Delta else if c2 then (if n then N_Nstar1535 else N_Nstar_other)
       else if c3 then N_Deltastar else if c4 then Delta_Delta else if c5 then Nstar_Delta
       else if c6 then Deltastar_Delta else if c7 then d_pi else not_listed)"
    unfolding final_state_of_def one_each_def Let_def c1_def c2_def c3_def c4_def c5_def c6_def
      c7_def n_def s_def
    by (simp only: conj_assoc)
  have code: "nn_to_resonance_matrix_element sqrts a b twoI =
     (let msqr = 2 * (mass a * mass a + mass b * mass b) in
      if sqrts > mass a + mass b + 3 * (width_at_pole a + width_at_pole b) + 3 then 0
      else if c1 then 68 / std_pow (sqrts - 1.104) 1.951
      else if c2 then (if twoI = 2 then 7 / msqr else if twoI = 0 then
          (if n then 6.5 * (14 / msqr) else 14 / msqr) else 0)
      else if c3 then 15 / msqr
      else if c4 then (if twoI = 2 then 45 / msqr else if twoI = 0 then 120 / msqr else 0)
      else if c5 then 7 / msqr
      else if c6 then (if twoI = 2 then 15 / msqr else if twoI = 0 then 25 / msqr else 0)
      else if c7 then 0.055 / (pow_int (sqrts - 2.145) 2 + pow_int 0.065 2) *
           (1 - exp (- (sqrts - 2) * 20))
      else 0)"
    unfolding nn_to_resonance_matrix_element_def Let_def c1_def c2_def c3_def c4_def c5_def
      c6_def c7_def n_def s_def ..
  consider (1) c1 | (2) "\<not> c1" c2 n | (3) "\<not> c1" c2 "\<not> n" | (4) "\<not> c1" "\<not> c2" c3
    | (5) "\<not> c1" "\<not> c2" "\<not> c3" c4
    | (6) "\<not> c1" "\<not> c2" "\<not> c3" "\<not> c4" c5
    | (7) "\<not> c1" "\<not> c2" "\<not> c3" "\<not> c4" "\<not> c5" c6
    | (8) "\<not> c1" "\<not> c2" "\<not> c3" "\<not> c4" "\<not> c5" "\<not> c6" c7
    | (9) "\<not> c1" "\<not> c2" "\<not> c3" "\<not> c4" "\<not> c5" "\<not> c6" "\<not> c7"
    by blast
  then show ?thesis
  proof cases
    case 1 then show ?thesis unfolding code table_value fs Let_def by simp
  next
    case 2 then show ?thesis unfolding code table_value fs Let_def by simp
  next
    case 3 then show ?thesis unfolding code table_value fs Let_def by simp
  next
    case 4 then show ?thesis unfolding code table_value fs Let_def by simp
  next
    case 5 then show ?thesis unfolding code table_value fs Let_def by simp
  next
    case 6 then show ?thesis unfolding code table_value fs Let_def by simp
  next
    case 7 then show ?thesis unfolding code table_value fs Let_def by simp
  next
    case 8 then show ?thesis unfolding code table_value fs Let_def by simp
  next
    case 9 then show ?thesis unfolding code table_value fs Let_def by simp
  qed
qed

text \<open>
  The claim as the spec's table has it fails for a proton and an \<open>N*(1535)\<close> at \<open>2I = 2\<close>
  and \<open>sqrt_s = 2.5\<close>: the table has no row and gives \<open>0\<close>, the code returns \<open>7 / msqr\<close>.
\<close>

theorem nn_to_resonance_matrix_element_Nstar1535_counterexample:
  "nn_to_resonance_matrix_element 2.5 sample_Nstar1535_p sample_p 2 \<noteq>
     matrix_element_by_table spec_matrix_element_table 2.5 sample_Nstar1535_p sample_p 2"
proof -
  have fs: "final_state_of sample_Nstar1535_p sample_p = N_Nstar1535"
    by (simp add: final_state_of_def one_each_def sample_Nstar1535_p_def sample_p_def
        plain_type_def antiparticle_sign_def pdg_p_def)
  have spec: "matrix_element_by_table spec_matrix_element_table 2.5 sample_Nstar1535_p sample_p 2 = 0"
    by (simp add: matrix_element_by_table_def fs spec_matrix_element_table_def row_matches_def)
  have code: "nn_to_resonance_matrix_element 2.5 sample_Nstar1535_p sample_p 2 =
      7 / (2 * (1.53 * 1.53 + 0.938 * 0.938))"
    by (simp add: nn_to_resonance_matrix_element_def sample_Nstar1535_p_def sample_p_def
        plain_type_def antiparticle_sign_def pdg_p_def)
  show ?thesis unfolding spec code by simp
qed

subsection \<open>Evaluation on the small registry\<close>

lemmas sample_simps = sample_env_def pair_at_def at_rest_def type_a_of_def type_b_of_def
  sample_p_def sample_n_def sample_pbar_def sample_nbar_def sample_pi_p_def sample_rho_z_def
  sample_h1_def sample_d_def sample_dprime_def sample_Nstar1535_p_def plain_type_def
  pdg_p_def pdg_n_def pdg_pi_p_def pdg_pi_m_def pdg_pi_z_def pdg_rho_z_def pdg_h1_def
  pdg_decimal_d_def

lemma sample_pair_simps:
  "type_a_of (pair_at a b e) = a" "type_b_of (pair_at a b e) = b" "sqrt_s (pair_at a b e) = e"
  "cm_momentum sample_env (pair_at a b e) = 1"
  by (simp_all add: pair_at_def type_a_of_def type_b_of_def at_rest_def cm_momentum_def sample_env_def)

subsection \<open>Elastic routines\<close>

lemma carries_problem: "carries (elastic_problem cs v (sqrt_s cs * sqrt_s cs)) (problem_items cs v)"
  by (simp add: carries_def elastic_problem_def problem_items_def power2_eq_square)

lemma nn_el_eq:
  "nn_el E cs = (if 0 < nn_selected E cs then Inr (nn_selected E cs)
                 else Inl (elastic_problem cs (nn_selected E cs) (sqrt_s cs * sqrt_s cs)))"
  by (simp add: nn_el_def nn_selected_def Let_def power2_eq_square)

lemma npi_el_eq:
  assumes "npi_switch E (pdgcode (nucleon_of cs)) (pdgcode (partner_of cs)) (sqrt_s cs * sqrt_s cs) = Inr v"
    and "pdgcode (partner_of cs) \<noteq> pdgcode (nucleon_of cs)"
  shows "npi_el E cs = (if 0 < v then Inr v else Inl (elastic_problem cs v (sqrt_s cs * sqrt_s cs)))"
  using assms by (simp add: npi_el_def Let_def bindE_def cassert_def)

text \<open>
  C6. For a nucleon-nucleon pair \<open>nn_el\<close> returns the selected parametrization (\<open>pp_elastic\<close>,
  \<open>ppbar_elastic\<close> or \<open>np_elastic\<close>, by the PDG codes and antiparticle signs) when it is
  positive, and raises a fatal error that carries both names, both \<open>2J\<close> values, the cross
  section and \<open>s\<close> exactly when it is not positive; \<open>npi_el\<close> follows the same rule for the
  value of the nucleon-pion table.
\<close>

theorem elastic_raise_iff_nonpositive:
  "(nn_el E cs = Inr x \<longleftrightarrow> x = nn_selected E cs \<and> 0 < x) \<and>
   ((\<exists>e. nn_el E cs = Inl e \<and> carries e (problem_items cs (nn_selected E cs)))
      \<longleftrightarrow> nn_selected E cs \<le> 0) \<and>
   (npi_switch E (pdgcode (nucleon_of cs)) (pdgcode (partner_of cs)) ((sqrt_s cs)\<^sup>2) = Inr v \<and>
    pdgcode (partner_of cs) \<noteq> pdgcode (nucleon_of cs) \<longrightarrow>
      (npi_el E cs = Inr y \<longleftrightarrow> y = v \<and> 0 < y) \<and>
      ((\<exists>e. npi_el E cs = Inl e \<and> carries e (problem_items cs v)) \<longleftrightarrow> v \<le> 0))"
proof (intro conjI impI)
  show "nn_el E cs = Inr x \<longleftrightarrow> x = nn_selected E cs \<and> 0 < x"
    by (auto simp: nn_el_eq)
  show "(\<exists>e. nn_el E cs = Inl e \<and> carries e (problem_items cs (nn_selected E cs)))
      \<longleftrightarrow> nn_selected E cs \<le> 0"
    using carries_problem[of cs "nn_selected E cs"] by (auto simp: nn_el_eq)
next
  assume a: "npi_switch E (pdgcode (nucleon_of cs)) (pdgcode (partner_of cs)) ((sqrt_s cs)\<^sup>2) = Inr v \<and>
    pdgcode (partner_of cs) \<noteq> pdgcode (nucleon_of cs)"
  then have eq: "npi_el E cs = (if 0 < v then Inr v else Inl (elastic_problem cs v (sqrt_s cs * sqrt_s cs)))"
    using npi_el_eq[of E cs v] by (simp add: power2_eq_square)
  show "npi_el E cs = Inr y \<longleftrightarrow> y = v \<and> 0 < y"
    by (auto simp: eq)
  show "(\<exists>e. npi_el E cs = Inl e \<and> carries e (problem_items cs v)) \<longleftrightarrow> v \<le> 0"
    using carries_problem[of cs v] by (auto simp: eq)
qed

lemma npi_switch_nucleon:
  "nucleon \<in> {pdg_p, pdg_n, - pdg_p, - pdg_n} \<Longrightarrow> \<exists>v. npi_switch E nucleon pion s = Inr v"
  by (auto simp: npi_switch_def Let_def)

theorem elastic_raise_iff_nonpositive_witness:
  "nn_el sample_env (pair_at sample_p sample_p 4) = Inr 6 \<and>
   (\<exists>e. nn_el sample_env (pair_at sample_p sample_n 2) = Inl e \<and>
        carries e (problem_items (pair_at sample_p sample_n 2) (- 6))) \<and>
   npi_el sample_env (pair_at sample_pi_p sample_p 4) = Inr 6 \<and>
   (\<exists>e. npi_el sample_env (pair_at sample_pi_p sample_p 2) = Inl e \<and>
        carries e (problem_items (pair_at sample_pi_p sample_p 2) (- 6)))"
proof -
  have sel1: "nn_selected sample_env (pair_at sample_p sample_p 4) = 6"
    by (simp add: nn_selected_def sample_simps)
  have sel2: "nn_selected sample_env (pair_at sample_p sample_n 2) = - 6"
    by (simp add: nn_selected_def is_antiparticle_of_def sample_simps)
  have sw: "npi_switch sample_env (pdgcode (nucleon_of (pair_at sample_pi_p sample_p e)))
      (pdgcode (partner_of (pair_at sample_pi_p sample_p e))) ((sqrt_s (pair_at sample_pi_p sample_p e))\<^sup>2)
      = Inr (e\<^sup>2 - 10)" for e
    by (simp add: npi_switch_def nucleon_of_def partner_of_def sample_simps)
  have ne: "pdgcode (partner_of (pair_at sample_pi_p sample_p e)) \<noteq>
      pdgcode (nucleon_of (pair_at sample_pi_p sample_p e))" for e
    by (simp add: nucleon_of_def partner_of_def sample_simps)
  show ?thesis
    using elastic_raise_iff_nonpositive[of sample_env "pair_at sample_p sample_p 4" 6 "- 6" 6]
      elastic_raise_iff_nonpositive[of sample_env "pair_at sample_p sample_n 2" 6 "- 6" 6]
      elastic_raise_iff_nonpositive[of sample_env "pair_at sample_pi_p sample_p 4" 6 6 6]
      elastic_raise_iff_nonpositive[of sample_env "pair_at sample_pi_p sample_p 2" 6 "- 6" 6]
      sw[of 4] sw[of 2] ne[of 4] ne[of 2]
    by (simp add: sel1 sel2)
qed

subsection \<open>Light nuclei and the policy bitset\<close>

text \<open>
  C8. The branch lists returned by \<open>dpi_xx\<close> and by \<open>dn_xx\<close> are the same for every value
  of the \<open>included_2to2\<close> bitset: for every pair and \<open>sqrt_s\<close>, two runs that differ only in
  the bitset return the same result.
\<close>

theorem nucleus_routines_ignore_bitset:
  "dpi_xx E cs bits = dpi_xx E cs bits' \<and> dn_xx E cs bits = dn_xx E cs bits'"
  by (simp add: dpi_xx_def dn_xx_def)

lemma dn_sample: "dn_xx sample_env (pair_at sample_nbar sample_d 3) bits =
   Inr [branch2 sample_nbar sample_dprime (6814 / 15) TwoToTwo]"
  unfolding dn_xx_def sample_pair_simps Let_def
  by (simp add: sample_env_def sample_nbar_def sample_d_def sample_dprime_def plain_type_def
      same_type_def bindE_def cassert_def pdg_decimal_d_def)

theorem nucleus_routines_ignore_bitset_witness:
  "dpi_xx sample_env (pair_at sample_pi_p sample_d 3) {} =
     dpi_xx sample_env (pair_at sample_pi_p sample_d 3) {IR_Elastic, NN_to_NR} \<and>
   dn_xx sample_env (pair_at sample_nbar sample_d 3) {} =
     Inr [branch2 sample_nbar sample_dprime (6814 / 15) TwoToTwo] \<and>
   dn_xx sample_env (pair_at sample_nbar sample_d 3) {IR_Elastic, NN_to_NR} =
     Inr [branch2 sample_nbar sample_dprime (6814 / 15) TwoToTwo]"
  using nucleus_routines_ignore_bitset[of sample_env "pair_at sample_pi_p sample_d 3" "{}"
      "{IR_Elastic, NN_to_NR}"]
    nucleus_routines_ignore_bitset[of sample_env "pair_at sample_nbar sample_d 3" "{}"
      "{IR_Elastic, NN_to_NR}"]
    dn_sample[of "{}"]
  by simp

subsection \<open>\<open>NN\<bar>\<close> creation\<close>

text \<open>
  C10. \<open>NNbar_creation\<close> returns an empty list whenever \<open>sqrt_s\<close> is below twice the proton
  pole mass; otherwise (the incoming types being unstable, as the detailed-balance helper
  asserts) it returns exactly two \<open>TwoToTwo\<close> branches, \<open>(p, p\<bar>)\<close> and \<open>(n, n\<bar>)\<close>, both
  with the weight \<open>R_RR(sqrt_s, pcm, incoming pair, p, p\<bar>) * max(0, ppbar_total(s) -
  ppbar_elastic(s))\<close>, whatever that weight is, zero included.
\<close>

theorem NNbar_creation_branches:
  "(sqrt_s cs < 2 * mass (find_type E pdg_p) \<longrightarrow> NNbar_creation E cs = Inr []) \<and>
   (\<not> sqrt_s cs < 2 * mass (find_type E pdg_p) \<and>
    \<not> is_stable (type_a_of cs) \<and> \<not> is_stable (type_b_of cs) \<longrightarrow>
      NNbar_creation E cs =
        (let w = RR_ratio E (sqrt_s cs) (cm_momentum E cs) (type_a_of cs) (type_b_of cs)
                   (find_type E pdg_p) (find_type E (- pdg_p)) *
                 max 0 (ppbar_total E ((sqrt_s cs)\<^sup>2) - ppbar_elastic E ((sqrt_s cs)\<^sup>2))
         in Inr [branch2 (find_type E pdg_p) (find_type E (- pdg_p)) w TwoToTwo,
                 branch2 (find_type E pdg_n) (find_type E (- pdg_n)) w TwoToTwo]))"
  by (simp add: NNbar_creation_def detailed_balance_factor_RR_def bindE_def cassert_def Let_def
      power2_eq_square)

theorem NNbar_creation_branches_witness:
  "NNbar_creation sample_env (pair_at sample_rho_z sample_h1 1) = Inr [] \<and>
   NNbar_creation sample_env (pair_at sample_rho_z sample_h1 11) =
     Inr [branch2 sample_p sample_pbar 0 TwoToTwo, branch2 sample_n sample_nbar 0 TwoToTwo]"
proof -
  have f: "find_type sample_env pdg_p = sample_p" "find_type sample_env (- pdg_p) = sample_pbar"
    "find_type sample_env pdg_n = sample_n" "find_type sample_env (- pdg_n) = sample_nbar"
    by (simp_all add: sample_env_def sample_find_def pdg_p_def pdg_n_def)
  have m: "mass sample_p = 0.938" by (simp add: sample_p_def plain_type_def)
  have u: "\<not> is_stable sample_rho_z" "\<not> is_stable sample_h1"
    by (simp_all add: sample_rho_z_def sample_h1_def)
  have z: "max 0 (ppbar_total sample_env 121 - ppbar_elastic sample_env 121) = 0"
    by (simp add: sample_env_def)
  show ?thesis
    using NNbar_creation_branches[of "pair_at sample_rho_z sample_h1 1" sample_env]
      NNbar_creation_branches[of "pair_at sample_rho_z sample_h1 11" sample_env]
    by (simp add: sample_pair_simps f m u z Let_def)
qed

subsection \<open>String excitation budget\<close>

lemma rescale_sum:
  assumes "rescale_diffractive S (AX, XB, DD) = Some (ax, xb, dd, nd)"
  shows "ax + xb + dd + nd = S"
proof -
  from assms have ne: "AX + XB \<noteq> 0"
    by (auto simp: rescale_diffractive_def Let_def split: if_splits)
  define n where "n = max 0 (S - (AX + XB + DD))"
  define d where "d = max 0 (S - n - (AX + XB))"
  define q where "q = (S - n - d) / (AX + XB)"
  from assms ne have v: "ax = AX * q" "xb = XB * q" "dd = d" "nd = n"
    by (auto simp: rescale_diffractive_def Let_def n_def d_def q_def)
  have "ax + xb = (AX + XB) * q"
    unfolding v by (simp add: distrib_right)
  also have "\<dots> = S - n - d" using ne by (simp add: q_def)
  finally show ?thesis unfolding v by simp
qed

lemma rescale_defined:
  "AX + XB \<noteq> 0 \<Longrightarrow> \<exists>r. rescale_diffractive S (AX, XB, DD) = Some r"
  by (simp add: rescale_diffractive_def Let_def)

lemma rescale_undefined:
  "AX + XB = 0 \<Longrightarrow> rescale_diffractive S (AX, XB, DD) = None"
  by (simp add: rescale_diffractive_def Let_def)

lemma string_excitation_Inr:
  assumes run: "string_excitation E cs (Some p) rng = Inr (bs, st)"
    and el: "elastic_parametrization E cs = Inr el"
    and S: "S = max 0 (high_energy E cs - el)"
    and pos: "0 < S"
  shows "\<exists>ax xb dd nd soft.
     rescale_diffractive S
       (cross_sections_diffractive p (pdgid_for_strings (type_a_of cs))
          (pdgid_for_strings (type_b_of cs)) (sqrt_s cs)) = Some (ax, xb, dd, nd) \<and>
     nondiffractive_soft_of nd (string_hard_cross_section E cs) = Some soft \<and>
     bs = soft_and_hard_branches S (nd - soft)"
proof -
  from S pos have S': "S = high_energy E cs - el" and pos': "0 < high_energy E cs - el"
    by (simp_all add: max_def split: if_splits)
  have "case rescale_diffractive S
       (cross_sections_diffractive p (pdgid_for_strings (type_a_of cs))
          (pdgid_for_strings (type_b_of cs)) (sqrt_s cs)) of
       None \<Rightarrow> False
     | Some (ax, xb, dd, nd) \<Rightarrow>
         (case nondiffractive_soft_of nd (string_hard_cross_section E cs) of
            None \<Rightarrow> False
          | Some soft \<Rightarrow> bs = soft_and_hard_branches S (nd - soft))"
    using run pos' unfolding string_excitation_def el S' soft_and_hard_branches_def
    by (auto simp: bindE_def Let_def cassert_def split: option.splits if_splits)
  then show ?thesis
    by (auto split: option.splits)
qed

text \<open>
  When the provider's \<open>AX + XB\<close> is not zero, the budget arithmetic is defined and the
  rescaled \<open>AX + XB + DD + nondiff_all\<close> equals the string budget
  \<open>S = max(0, \<sigma>_high_energy - \<sigma>_elastic)\<close>. When the builder returns and \<open>S > 0\<close>, it has
  emitted a \<open>StringSoft\<close> branch of weight \<open>S - nondiff_hard\<close> and a \<open>StringHard\<close> branch of
  weight \<open>nondiff_hard\<close>, each only when its weight is positive; when \<open>S = 0\<close> it has emitted
  nothing.
\<close>

lemma string_budget_and_branches:
  "(AX + XB \<noteq> 0 \<longrightarrow>
      (\<exists>ax xb dd nd. rescale_diffractive S (AX, XB, DD) = Some (ax, xb, dd, nd) \<and>
         ax + xb + dd + nd = S)) \<and>
   (string_excitation E cs (Some p) rng = Inr (bs, st) \<and>
    elastic_parametrization E cs = Inr el \<and> S' = max 0 (high_energy E cs - el) \<longrightarrow>
      (if 0 < S' then
         \<exists>ax xb dd nd soft.
           rescale_diffractive S'
             (cross_sections_diffractive p (pdgid_for_strings (type_a_of cs))
                (pdgid_for_strings (type_b_of cs)) (sqrt_s cs)) = Some (ax, xb, dd, nd) \<and>
           ax + xb + dd + nd = S' \<and>
           nondiffractive_soft_of nd (string_hard_cross_section E cs) = Some soft \<and>
           bs = soft_and_hard_branches S' (nd - soft)
       else bs = []))"
proof (intro conjI impI)
  assume "AX + XB \<noteq> 0"
  then obtain r where "rescale_diffractive S (AX, XB, DD) = Some r"
    using rescale_defined by blast
  then show "\<exists>ax xb dd nd. rescale_diffractive S (AX, XB, DD) = Some (ax, xb, dd, nd) \<and>
         ax + xb + dd + nd = S"
    using rescale_sum[of S AX XB DD] by (cases r) auto
next
  assume a: "string_excitation E cs (Some p) rng = Inr (bs, st) \<and>
    elastic_parametrization E cs = Inr el \<and> S' = max 0 (high_energy E cs - el)"
  let ?xs = "cross_sections_diffractive p (pdgid_for_strings (type_a_of cs))
                (pdgid_for_strings (type_b_of cs)) (sqrt_s cs)"
  show "if 0 < S' then
         \<exists>ax xb dd nd soft.
           rescale_diffractive S' ?xs = Some (ax, xb, dd, nd) \<and>
           ax + xb + dd + nd = S' \<and>
           nondiffractive_soft_of nd (string_hard_cross_section E cs) = Some soft \<and>
           bs = soft_and_hard_branches S' (nd - soft)
       else bs = []"
  proof (cases "0 < S'")
    case True
    from string_excitation_Inr[of E cs p rng bs st el S'] a True
    obtain ax xb dd nd soft where
      r: "rescale_diffractive S' ?xs = Some (ax, xb, dd, nd)"
      and s: "nondiffractive_soft_of nd (string_hard_cross_section E cs) = Some soft"
      and b: "bs = soft_and_hard_branches S' (nd - soft)"
      by blast
    have "ax + xb + dd + nd = S'"
      using r rescale_sum[of S' "fst ?xs" "fst (snd ?xs)" "snd (snd ?xs)" ax xb dd nd] by simp
    with r s b True show ?thesis by auto
  next
    case False
    with a show ?thesis
      by (auto simp: string_excitation_def bindE_def Let_def)
  qed
qed

lemma sample_pp4:
  "elastic_parametrization sample_env (pair_at sample_p sample_p 4) = Inr 6"
  "high_energy sample_env (pair_at sample_p sample_p 4) = 40"
  "string_hard_cross_section sample_env (pair_at sample_p sample_p 4) = 0"
  "pdgid_for_strings sample_p = 2212"
  by (simp_all add: elastic_parametrization_def nn_el_def high_energy_def
      string_hard_cross_section_def pdgid_for_strings_def sample_pair_simps
      sample_env_def sample_p_def plain_type_def antiparticle_sign_def pdg_p_def)

lemma sample_pp4_strings:
  "string_excitation sample_env (pair_at sample_p sample_p 4) (Some sample_strings) 0 =
     Inr ([branch0 34 StringSoft], Some (set_subproc DoubleDiff sample_strings), Suc 0)"
  unfolding string_excitation_def sample_pp4 sample_pair_simps
  by (simp add: bindE_def sample_strings_def rescale_diffractive_def cassert_def
      nondiffractive_soft_of_def select_soft_def sample_env_def)

lemma string_budget_and_branches_sample:
  "(\<exists>ax xb dd nd. rescale_diffractive 34 (4, 6, 10) = Some (ax, xb, dd, nd) \<and>
      ax + xb + dd + nd = 34) \<and>
   string_excitation sample_env (pair_at sample_p sample_p 4) (Some sample_strings) 0 =
     Inr ([branch0 34 StringSoft], Some (set_subproc DoubleDiff sample_strings), Suc 0) \<and>
   (\<exists>ax xb dd nd soft.
      rescale_diffractive 34 (4, 6, 10) = Some (ax, xb, dd, nd) \<and>
      ax + xb + dd + nd = 34 \<and> nondiffractive_soft_of nd 0 = Some soft \<and>
      [branch0 34 StringSoft] = soft_and_hard_branches 34 (nd - soft))"
  using string_budget_and_branches[of 4 6 34 10 sample_env "pair_at sample_p sample_p 4"
      sample_strings 0 "[branch0 34 StringSoft]"
      "(Some (set_subproc DoubleDiff sample_strings), Suc 0)" 6 34]
    sample_pp4_strings
  by (simp add: sample_pp4 sample_pair_simps sample_strings_def)

text \<open>
  Claim C4. The claim states that the rescaled \<open>AX + XB + DD + nondiff_all\<close> equals the
  string budget \<open>S\<close> and that the builder emits its branches whenever \<open>S > 0\<close>; the routine
  asserts that sum itself. For two protons at \<open>\<surd>s = 4\<close> the budget is \<open>S = 40 - 6 = 34\<close>.
  With a provider whose two single-diffractive cross sections are zero the scale factor is
  a quotient by zero: the rescaled cross sections are not numbers, their sum is not \<open>S\<close>,
  the routine's own assertion of that sum fails and no branch is emitted.
\<close>

theorem string_excitation_division_by_zero:
  "elastic_parametrization sample_env (pair_at sample_p sample_p 4) = Inr 6 \<and>
   high_energy sample_env (pair_at sample_p sample_p 4) = 40 \<and>
   cross_sections_diffractive sample_strings_no_single 2212 2212 4 = (0, 0, 1) \<and>
   rescale_diffractive 34 (0, 0, 1) = None \<and>
   string_excitation sample_env (pair_at sample_p sample_p 4) (Some sample_strings_no_single) 0 =
     Inl (AssertionFailed ''sum of string cross sections'')"
  unfolding string_excitation_def sample_pp4 sample_pair_simps
  by (simp add: bindE_def sample_strings_no_single_def rescale_diffractive_def)

section \<open>The assembled collision list\<close>

subsection \<open>Error propagation and loops\<close>

lemma bindE_Inr: "bindE m f = Inr r \<longleftrightarrow> (\<exists>x. m = Inr x \<and> f x = Inr r)"
  by (cases m) (simp_all add: bindE_def)

lemma for_each_invariant:
  assumes "for_each xs body s = Inr s'" and "I s"
    and "\<And>x t t'. x \<in> set xs \<Longrightarrow> body x t = Inr t' \<Longrightarrow> I t \<Longrightarrow> I t'"
  shows "I s'"
  using assms
proof (induction xs arbitrary: s)
  case Nil
  then show ?case by simp
next
  case (Cons x xs)
  from Cons.prems(1) obtain t where t: "body x s = Inr t" and rest: "for_each xs body t = Inr s'"
    by (auto simp: bindE_Inr)
  have "I t" using Cons.prems(3)[of x s t] t Cons.prems(2) by simp
  show ?case
    by (rule Cons.IH[OF rest \<open>I t\<close>]) (use Cons.prems(3) in auto)
qed

lemma add_channel_thresholded:
  "add_channel pl f sqrts a b = Inr pl' \<Longrightarrow> list_all thresholded pl \<Longrightarrow> list_all thresholded pl'"
  by (auto simp: add_channel_def Let_def bindE_Inr thresholded_def branch2_def split: if_splits)

lemma add_channels_thresholded:
  "add_channels pl sqrts chs = Inr pl' \<Longrightarrow> list_all thresholded pl \<Longrightarrow> list_all thresholded pl'"
  unfolding add_channels_def
  by (erule for_each_invariant) (auto dest: add_channel_thresholded)

lemma nk_xx_thresholded: "nk_xx E cs bits = Inr l \<Longrightarrow> list_all thresholded l"
  unfolding nk_xx_def by (erule add_channels_thresholded) simp

lemma ypi_xx_thresholded: "ypi_xx E cs bits = Inr l \<Longrightarrow> list_all thresholded l"
  unfolding ypi_xx_def by (auto split: if_splits dest: add_channels_thresholded)

lemma deltak_xx_thresholded: "deltak_xx E cs bits = Inr l \<Longrightarrow> list_all thresholded l"
  unfolding deltak_xx_def by (auto split: if_splits dest: add_channels_thresholded)

lemma list_all_concat_map:
  "(\<And>x. x \<in> set xs \<Longrightarrow> list_all P (f x)) \<Longrightarrow> list_all P (concat (map f xs))"
  by (induction xs) auto

lemma find_nn_thresholded:
  "list_all thresholded (find_nn_xsection_from_type E cs l1 l2 integrator)"
  unfolding find_nn_xsection_from_type_def Let_def
  by (auto intro!: list_all_concat_map simp: thresholded_def branch2_def)

lemma bar_bar_thresholded: "list_all thresholded (bar_bar_to_nuc_nuc E cs anti)"
  unfolding bar_bar_to_nuc_nuc_def Let_def
  by (auto intro!: list_all_concat_map simp: thresholded_def branch2_def)

lemma dpi_to_NN_thresholded: "list_all thresholded (dpi_to_NN E cs)"
  unfolding dpi_to_NN_def Let_def
  by (auto intro!: list_all_concat_map simp: thresholded_def branch2_def)

lemma nn_xx_thresholded: "list_all thresholded (nn_xx E cs bits)"
  unfolding nn_xx_def Let_def
  by (auto simp: find_nn_thresholded split: option.splits)

lemma bb_xx_thresholded: "list_all thresholded (bb_xx_except_nn E cs bits)"
  unfolding bb_xx_except_nn_def Let_def
  by (simp add: bar_bar_thresholded)

lemma thresholded_kind: "list_all thresholded l \<Longrightarrow> list_all (\<lambda>b. get_type b = TwoToTwo) l"
  by (induction l) (auto simp: thresholded_def)

lemma dn_xx_kind: "dn_xx E cs bits = Inr l \<Longrightarrow> list_all (\<lambda>b. get_type b = TwoToTwo) l"
  unfolding dn_xx_def Let_def
  by (erule for_each_invariant) (auto simp: bindE_Inr branch2_def split: if_splits)

lemma dpi_xx_kind: "dpi_xx E cs bits = Inr l \<Longrightarrow> list_all (\<lambda>b. get_type b = TwoToTwo) l"
proof -
  assume a: "dpi_xx E cs bits = Inr l"
  define start where "start =
     (if (is_deuteron (type_a_of cs) \<and> is_pion (type_b_of cs)) \<or>
         (is_deuteron (type_b_of cs) \<and> is_pion (type_a_of cs))
      then dpi_to_NN E cs else [])"
  have start: "list_all (\<lambda>b. get_type b = TwoToTwo) start"
    using thresholded_kind[OF dpi_to_NN_thresholded] by (simp add: start_def)
  from a have "dpi_to_pi_nucleus E cs start = Inr l \<or> l = start"
    by (auto simp: dpi_xx_def Let_def start_def split: if_splits)
  then show ?thesis
  proof
    assume "dpi_to_pi_nucleus E cs start = Inr l"
    then show ?thesis
      unfolding dpi_to_pi_nucleus_def Let_def
      by (rule for_each_invariant[where I = "list_all (\<lambda>b. get_type b = TwoToTwo)"])
         (use start in \<open>auto simp: bindE_Inr branch2_def split: if_splits\<close>)
  next
    assume "l = start"
    with start show ?thesis by simp
  qed
qed

lemma dn_xx_products:
  "dn_xx E cs bits = Inr l \<Longrightarrow>
     list_all (\<lambda>b. \<exists>t X. particle_types b = [t, X] \<and> X \<in> set (list_light_nuclei E)) l"
  unfolding dn_xx_def Let_def
  by (erule for_each_invariant) (auto simp: bindE_Inr branch2_def split: if_splits)

lemma dpi_xx_products:
  assumes a: "dpi_xx E cs bits = Inr l"
  shows "list_all (\<lambda>b. thresholded b \<or>
           (\<exists>t X. particle_types b = [t, X] \<and> X \<in> set (list_light_nuclei E))) l"
proof -
  let ?I = "list_all (\<lambda>b. thresholded b \<or>
           (\<exists>t X. particle_types b = [t, X] \<and> X \<in> set (list_light_nuclei E)))"
  define start where "start =
     (if (is_deuteron (type_a_of cs) \<and> is_pion (type_b_of cs)) \<or>
         (is_deuteron (type_b_of cs) \<and> is_pion (type_a_of cs))
      then dpi_to_NN E cs else [])"
  have "list_all thresholded start"
    using dpi_to_NN_thresholded by (simp add: start_def)
  then have start: "?I start" by (simp add: list_all_iff)
  from a have "dpi_to_pi_nucleus E cs start = Inr l \<or> l = start"
    by (auto simp: dpi_xx_def Let_def start_def split: if_splits)
  then show ?thesis
  proof
    assume "dpi_to_pi_nucleus E cs start = Inr l"
    then show ?thesis
      unfolding dpi_to_pi_nucleus_def Let_def
      by (rule for_each_invariant[where I = ?I])
         (use start in \<open>auto simp: bindE_Inr branch2_def split: if_splits\<close>)
  next
    assume "l = start"
    with start show ?thesis by simp
  qed
qed

lemma two_to_two_kind:
  "two_to_two E cs bits = Inr l \<Longrightarrow> list_all (\<lambda>b. get_type b = TwoToTwo) l"
  unfolding two_to_two_def Let_def
  by (auto split: if_splits
      intro: thresholded_kind nn_xx_thresholded bb_xx_thresholded
      dest: nk_xx_thresholded ypi_xx_thresholded deltak_xx_thresholded dn_xx_kind dpi_xx_kind)

lemma two_to_two_thresholded:
  "two_to_two E cs bits = Inr l \<Longrightarrow> \<not> is_nucleus (type_a_of cs) \<Longrightarrow> \<not> is_nucleus (type_b_of cs) \<Longrightarrow>
     list_all thresholded l"
  unfolding two_to_two_def Let_def
  by (auto split: if_splits
      intro: nn_xx_thresholded bb_xx_thresholded
      dest: nk_xx_thresholded ypi_xx_thresholded deltak_xx_thresholded)

lemma two_to_two_branches:
  assumes "two_to_two E cs bits = Inr l"
  shows "list_all (\<lambda>b. thresholded b \<or>
           ((is_nucleus (type_a_of cs) \<or> is_nucleus (type_b_of cs)) \<and>
            (\<exists>t X. particle_types b = [t, X] \<and> X \<in> set (list_light_nuclei E)))) l"
proof (cases "is_nucleus (type_a_of cs) \<or> is_nucleus (type_b_of cs)")
  case False
  with two_to_two_thresholded[OF assms] show ?thesis by (simp add: list_all_iff)
next
  case True
  from assms consider "list_all thresholded l" | "dn_xx E cs bits = Inr l"
    | "dpi_xx E cs bits = Inr l"
    unfolding two_to_two_def Let_def
    by (auto split: if_splits
        intro: nn_xx_thresholded bb_xx_thresholded
        dest: nk_xx_thresholded ypi_xx_thresholded deltak_xx_thresholded)
  then show ?thesis
  proof cases
    case 1
    then show ?thesis by (simp add: list_all_iff)
  next
    case 2
    from dn_xx_products[OF this] True show ?thesis by (simp add: list_all_iff)
  next
    case 3
    from dpi_xx_products[OF this] True show ?thesis by (auto simp: list_all_iff)
  qed
qed

lemma two_to_one_thresholded:
  "list_all (\<lambda>b. get_type b = TwoToOne \<and> really_small < weight b) (two_to_one E cs)"
  unfolding two_to_one_def Let_def
  by (auto intro!: list_all_concat_map simp: branch1_def)

lemma soft_and_hard_positive:
  "list_all (\<lambda>b. (get_type b = StringSoft \<or> get_type b = StringHard) \<and> 0 < weight b)
     (soft_and_hard_branches S h)"
  by (simp add: soft_and_hard_branches_def branch0_def)

lemma string_excitation_positive:
  assumes "string_excitation E cs sp rng = Inr (l, st)"
  shows "list_all (\<lambda>b. (get_type b = StringSoft \<or> get_type b = StringHard) \<and> 0 < weight b) l"
  using assms unfolding string_excitation_def
  by (auto simp: bindE_Inr Let_def branch0_def cassert_def split: if_splits option.splits)

lemma NNbar_creation_kind:
  "NNbar_creation E cs = Inr l \<Longrightarrow> list_all (\<lambda>b. get_type b = TwoToTwo) l"
  by (auto simp: NNbar_creation_def Let_def bindE_Inr branch2_def split: if_splits)

lemma NNbar_annihilation_kind: "get_type (NNbar_annihilation E cs x) = TwoToTwo"
  by (simp add: NNbar_annihilation_def branch2_def)

lemma NNbar_creation_products:
  "NNbar_creation E cs = Inr l \<Longrightarrow>
     list_all (\<lambda>b. particle_types b = [find_type E pdg_p, find_type E (- pdg_p)] \<or>
                   particle_types b = [find_type E pdg_n, find_type E (- pdg_n)]) l"
  by (auto simp: NNbar_creation_def Let_def bindE_Inr branch2_def split: if_splits)

lemma NNbar_annihilation_products:
  "particle_types (NNbar_annihilation E cs x) = [find_type E pdg_h1, find_type E pdg_rho_z]"
  by (simp add: NNbar_annihilation_def branch2_def)

lemma elastic_kind: "elastic E cs ep = Inr b \<Longrightarrow> get_type b = Elastic"
  by (auto simp: elastic_def bindE_Inr branch2_def)

lemma sum_xs_of_sum_list: "sum_xs_of l = sum_list (map weight l)"
proof -
  have "foldl (\<lambda>xs_sum proc. xs_sum + weight proc) a l = a + sum_list (map weight l)" for a
    by (induction l arbitrary: a) simp_all
  then show ?thesis by (simp add: sum_xs_of_def)
qed

subsection \<open>Shape of the returned list\<close>

lemma string_arm_Inr:
  "string_arm E cs sp rng pl = Inr (l, st) \<Longrightarrow>
     \<exists>mid. l = pl @ mid \<and> string_excitation E cs sp rng = Inr (mid, st)"
  by (auto simp: string_arm_def bindE_Inr append_list_def)

lemma resonance_arm_Inr:
  "resonance_arm E cs t21 bits sp rng pl = Inr (l, st) \<Longrightarrow>
     \<exists>l2. l = pl @ (if t21 then two_to_one E cs else []) @ l2 \<and> st = (sp, rng) \<and>
          (if bits \<noteq> {} then two_to_two E cs bits = Inr l2 else l2 = [])"
  by (auto simp: resonance_arm_def bindE_Inr append_list_def Let_def split: if_splits)

lemma nnbar_closure_Inr:
  "nnbar_closure E cs (pl, st) = Inr (l, st') \<Longrightarrow>
     \<exists>cre. l = pl @
        (if is_nucleon (type_a_of cs) \<and> pdgcode (type_b_of cs) = - pdgcode (type_a_of cs)
         then [NNbar_annihilation E cs (sum_xs_of pl)] else []) @ cre \<and> st' = st \<and>
        (if (pdgcode (type_a_of cs) = pdg_rho_z \<and> pdgcode (type_b_of cs) = pdg_h1) \<or>
            (pdgcode (type_a_of cs) = pdg_h1 \<and> pdgcode (type_b_of cs) = pdg_rho_z)
         then NNbar_creation E cs = Inr cre else cre = [])"
  by (auto simp: nnbar_closure_def bindE_Inr append_list_def Let_def get_antiparticle_pdgcode_def
      split: if_splits)

lemma gcl_structure:
  assumes "generate_collision_list E cs ep t21 bits lcut sw nnbar sp rng = Inr (bs, st)"
  shows "\<exists>el mid cre.
     bs = el @ mid @
       (if nnbar = Resonances \<and> is_nucleon (type_a_of cs) \<and>
           pdgcode (type_b_of cs) = - pdgcode (type_a_of cs)
        then [NNbar_annihilation E cs (sum_xs_of (el @ mid))] else []) @ cre \<and>
     (if IR_Elastic \<in> bits \<and> \<not> reject_by_nucleon_elastic_cutoff cs lcut
      then \<exists>b. elastic E cs ep = Inr b \<and> el = [b] else el = []) \<and>
     ((\<exists>st'. string_excitation E cs sp
          (snd (decide_string E cs sw (is_nucleon (type_a_of cs) \<and> is_nucleon (type_b_of cs)) rng))
            = Inr (mid, st')) \<or>
      (\<exists>l2. mid = (if t21 then two_to_one E cs else []) @ l2 \<and>
          (if bits \<noteq> {} then two_to_two E cs bits = Inr l2 else l2 = []))) \<and>
     (if nnbar = Resonances \<and>
         ((pdgcode (type_a_of cs) = pdg_rho_z \<and> pdgcode (type_b_of cs) = pdg_h1) \<or>
          (pdgcode (type_a_of cs) = pdg_h1 \<and> pdgcode (type_b_of cs) = pdg_rho_z))
      then NNbar_creation E cs = Inr cre else cre = [])"
proof -
  let ?dec = "decide_string E cs sw (is_nucleon (type_a_of cs) \<and> is_nucleon (type_b_of cs)) rng"
  from assms obtain el r where
    el: "(if IR_Elastic \<in> bits \<and> \<not> reject_by_nucleon_elastic_cutoff cs lcut
          then bindE (elastic E cs ep) (\<lambda>b. Inr [b]) else Inr []) = Inr el"
    and arm: "(if fst ?dec then string_arm E cs sp (snd ?dec) el
               else resonance_arm E cs t21 bits sp (snd ?dec) el) = Inr r"
    and clo: "(if nnbar = Resonances then nnbar_closure E cs r else Inr r) = Inr (bs, st)"
    unfolding generate_collision_list_def Let_def bindE_Inr by blast
  have 1: "if IR_Elastic \<in> bits \<and> \<not> reject_by_nucleon_elastic_cutoff cs lcut
      then \<exists>b. elastic E cs ep = Inr b \<and> el = [b] else el = []"
    using el by (auto simp: bindE_Inr split: if_splits)
  obtain l st0 where r: "r = (l, st0)" by (cases r)
  have "\<exists>mid. l = el @ mid \<and>
     ((\<exists>st'. string_excitation E cs sp (snd ?dec) = Inr (mid, st')) \<or>
      (\<exists>l2. mid = (if t21 then two_to_one E cs else []) @ l2 \<and>
          (if bits \<noteq> {} then two_to_two E cs bits = Inr l2 else l2 = [])))"
  proof (cases "fst ?dec")
    case True
    with arm have "string_arm E cs sp (snd ?dec) el = Inr (l, st0)" by (simp add: r)
    from string_arm_Inr[OF this] show ?thesis by blast
  next
    case False
    with arm have "resonance_arm E cs t21 bits sp (snd ?dec) el = Inr (l, st0)" by (simp add: r)
    from resonance_arm_Inr[OF this] show ?thesis by blast
  qed
  then obtain mid where l: "l = el @ mid"
    and 2: "(\<exists>st'. string_excitation E cs sp (snd ?dec) = Inr (mid, st')) \<or>
      (\<exists>l2. mid = (if t21 then two_to_one E cs else []) @ l2 \<and>
          (if bits \<noteq> {} then two_to_two E cs bits = Inr l2 else l2 = []))"
    by blast
  have "\<exists>cre. bs = el @ mid @
       (if nnbar = Resonances \<and> is_nucleon (type_a_of cs) \<and>
           pdgcode (type_b_of cs) = - pdgcode (type_a_of cs)
        then [NNbar_annihilation E cs (sum_xs_of (el @ mid))] else []) @ cre \<and>
     (if nnbar = Resonances \<and>
         ((pdgcode (type_a_of cs) = pdg_rho_z \<and> pdgcode (type_b_of cs) = pdg_h1) \<or>
          (pdgcode (type_a_of cs) = pdg_h1 \<and> pdgcode (type_b_of cs) = pdg_rho_z))
      then NNbar_creation E cs = Inr cre else cre = [])"
  proof (cases "nnbar = Resonances")
    case True
    with clo have "nnbar_closure E cs (l, st0) = Inr (bs, st)" by (simp add: r)
    from nnbar_closure_Inr[OF this] obtain cre where c:
      "bs = l @ (if is_nucleon (type_a_of cs) \<and> pdgcode (type_b_of cs) = - pdgcode (type_a_of cs)
         then [NNbar_annihilation E cs (sum_xs_of l)] else []) @ cre \<and> st = st0 \<and>
       (if (pdgcode (type_a_of cs) = pdg_rho_z \<and> pdgcode (type_b_of cs) = pdg_h1) \<or>
            (pdgcode (type_a_of cs) = pdg_h1 \<and> pdgcode (type_b_of cs) = pdg_rho_z)
         then NNbar_creation E cs = Inr cre else cre = [])" ..
    show ?thesis
      by (rule exI[of _ cre]) (use c True l in simp)
  next
    case False
    with clo have "bs = l" by (simp add: r)
    then show ?thesis
      by (intro exI[of _ "[]"]) (use False l in simp)
  qed
  then obtain cre where 3: "bs = el @ mid @
       (if nnbar = Resonances \<and> is_nucleon (type_a_of cs) \<and>
           pdgcode (type_b_of cs) = - pdgcode (type_a_of cs)
        then [NNbar_annihilation E cs (sum_xs_of (el @ mid))] else []) @ cre"
    and 4: "if nnbar = Resonances \<and>
         ((pdgcode (type_a_of cs) = pdg_rho_z \<and> pdgcode (type_b_of cs) = pdg_h1) \<or>
          (pdgcode (type_a_of cs) = pdg_h1 \<and> pdgcode (type_b_of cs) = pdg_rho_z))
      then NNbar_creation E cs = Inr cre else cre = []"
    by blast
  from 1 2 3 4 show ?thesis
    by (intro exI conjI)
qed

lemma rho_h1_not_antiparticles:
  "pdgcode t2 = - pdgcode t1 \<Longrightarrow>
     \<not> ((pdgcode t1 = pdg_rho_z \<and> pdgcode t2 = pdg_h1) \<or>
        (pdgcode t1 = pdg_h1 \<and> pdgcode t2 = pdg_rho_z))"
  by (auto simp: pdg_rho_z_def pdg_h1_def)

text \<open>
  Claim C2. Under the \<open>Resonances\<close> treatment, when the first incoming particle is a nucleon
  and the second carries the exactly opposite PDG code, every successful run of
  \<open>generate_collision_list\<close> ends with one \<open>TwoToTwo\<close> branch into \<open>h1(1170)\<close> and
  \<open>\<rho>\<^sup>0\<close> whose weight is \<open>max 0 (ppbar_total s - \<Sigma>)\<close>, where \<open>\<Sigma>\<close> is the sum of the weights of
  all branches before it and \<open>s\<close> is the squared centre-of-mass energy.
\<close>

theorem nnbar_annihilation_residual:
  assumes "generate_collision_list E cs elastic_parameter two_to_one_switch included_2to2
             low_snn_cut strings_switch Resonances string_process rng = Inr (bs, st)"
    and "is_nucleon (type_a_of cs)"
    and "pdgcode (type_b_of cs) = - pdgcode (type_a_of cs)"
  shows "\<exists>others. bs = others @
           [branch2 (find_type E pdg_h1) (find_type E pdg_rho_z)
              (max 0 (ppbar_total E ((sqrt_s cs)\<^sup>2) - sum_list (map weight others))) TwoToTwo]"
proof -
  from gcl_structure[OF assms(1)] obtain el mid cre where
    bs: "bs = el @ mid @
       (if Resonances = Resonances \<and> is_nucleon (type_a_of cs) \<and>
           pdgcode (type_b_of cs) = - pdgcode (type_a_of cs)
        then [NNbar_annihilation E cs (sum_xs_of (el @ mid))] else []) @ cre"
    and cre: "if Resonances = Resonances \<and>
         ((pdgcode (type_a_of cs) = pdg_rho_z \<and> pdgcode (type_b_of cs) = pdg_h1) \<or>
          (pdgcode (type_a_of cs) = pdg_h1 \<and> pdgcode (type_b_of cs) = pdg_rho_z))
      then NNbar_creation E cs = Inr cre else cre = []"
    by blast
  from cre rho_h1_not_antiparticles[OF assms(3)] have "cre = []" by simp
  with bs assms(2,3) have "bs = (el @ mid) @ [NNbar_annihilation E cs (sum_xs_of (el @ mid))]"
    by simp
  then show ?thesis
    unfolding NNbar_annihilation_def Let_def sum_xs_of_sum_list power2_eq_square by blast
qed

lemma gcl_branch_cases:
  assumes run: "generate_collision_list E cs ep t21 bits lcut sw nnbar sp rng = Inr (bs, st)"
    and b: "b \<in> set bs"
  shows "(get_type b = Elastic \<and> IR_Elastic \<in> bits \<and> \<not> reject_by_nucleon_elastic_cutoff cs lcut \<and>
            elastic E cs ep = Inr b) \<or>
         ((get_type b = StringSoft \<or> get_type b = StringHard) \<and> 0 < weight b) \<or>
         (get_type b = TwoToOne \<and> really_small < weight b) \<or>
         (get_type b = TwoToTwo \<and>
            (really_small < weight b \<or>
             (nnbar = Resonances \<and> is_nucleon (type_a_of cs) \<and>
              pdgcode (type_b_of cs) = - pdgcode (type_a_of cs) \<and>
              particle_types b = [find_type E pdg_h1, find_type E pdg_rho_z]) \<or>
             (nnbar = Resonances \<and>
              ((pdgcode (type_a_of cs) = pdg_rho_z \<and> pdgcode (type_b_of cs) = pdg_h1) \<or>
               (pdgcode (type_a_of cs) = pdg_h1 \<and> pdgcode (type_b_of cs) = pdg_rho_z)) \<and>
              (particle_types b = [find_type E pdg_p, find_type E (- pdg_p)] \<or>
               particle_types b = [find_type E pdg_n, find_type E (- pdg_n)])) \<or>
             ((is_nucleus (type_a_of cs) \<or> is_nucleus (type_b_of cs)) \<and>
              (\<exists>t X. particle_types b = [t, X] \<and> X \<in> set (list_light_nuclei E)))))"
proof -
  from gcl_structure[OF run] obtain el mid cre where
    bs: "bs = el @ mid @
       (if nnbar = Resonances \<and> is_nucleon (type_a_of cs) \<and>
           pdgcode (type_b_of cs) = - pdgcode (type_a_of cs)
        then [NNbar_annihilation E cs (sum_xs_of (el @ mid))] else []) @ cre"
    and el: "if IR_Elastic \<in> bits \<and> \<not> reject_by_nucleon_elastic_cutoff cs lcut
      then \<exists>b. elastic E cs ep = Inr b \<and> el = [b] else el = []"
    and mid: "(\<exists>st'. string_excitation E cs sp
          (snd (decide_string E cs sw (is_nucleon (type_a_of cs) \<and> is_nucleon (type_b_of cs)) rng))
            = Inr (mid, st')) \<or>
      (\<exists>l2. mid = (if t21 then two_to_one E cs else []) @ l2 \<and>
          (if bits \<noteq> {} then two_to_two E cs bits = Inr l2 else l2 = []))"
    and cre: "if nnbar = Resonances \<and>
         ((pdgcode (type_a_of cs) = pdg_rho_z \<and> pdgcode (type_b_of cs) = pdg_h1) \<or>
          (pdgcode (type_a_of cs) = pdg_h1 \<and> pdgcode (type_b_of cs) = pdg_rho_z))
      then NNbar_creation E cs = Inr cre else cre = []"
    by blast
  from b bs consider (el) "b \<in> set el" | (mid) "b \<in> set mid"
    | (ann) "nnbar = Resonances" "is_nucleon (type_a_of cs)"
        "pdgcode (type_b_of cs) = - pdgcode (type_a_of cs)"
        "b = NNbar_annihilation E cs (sum_xs_of (el @ mid))"
    | (cre) "b \<in> set cre"
    by (auto split: if_splits)
  then show ?thesis
  proof cases
    case el
    with \<open>if IR_Elastic \<in> bits \<and> \<not> reject_by_nucleon_elastic_cutoff cs lcut
      then \<exists>b. elastic E cs ep = Inr b \<and> el = [b] else el = []\<close>
    show ?thesis by (auto split: if_splits dest: elastic_kind)
  next
    case mid
    from \<open>(\<exists>st'. string_excitation E cs sp
          (snd (decide_string E cs sw (is_nucleon (type_a_of cs) \<and> is_nucleon (type_b_of cs)) rng))
            = Inr (mid, st')) \<or>
      (\<exists>l2. mid = (if t21 then two_to_one E cs else []) @ l2 \<and>
          (if bits \<noteq> {} then two_to_two E cs bits = Inr l2 else l2 = []))\<close>
    show ?thesis
    proof
      assume "\<exists>st'. string_excitation E cs sp
          (snd (decide_string E cs sw (is_nucleon (type_a_of cs) \<and> is_nucleon (type_b_of cs)) rng))
            = Inr (mid, st')"
      then obtain st' where "string_excitation E cs sp
          (snd (decide_string E cs sw (is_nucleon (type_a_of cs) \<and> is_nucleon (type_b_of cs)) rng))
            = Inr (mid, st')" ..
      from string_excitation_positive[OF this] mid show ?thesis
        by (auto simp: list_all_iff)
    next
      assume "\<exists>l2. mid = (if t21 then two_to_one E cs else []) @ l2 \<and>
          (if bits \<noteq> {} then two_to_two E cs bits = Inr l2 else l2 = [])"
      then obtain l2 where m: "mid = (if t21 then two_to_one E cs else []) @ l2"
        and l2: "if bits \<noteq> {} then two_to_two E cs bits = Inr l2 else l2 = []"
        by blast
      from mid m consider "b \<in> set (two_to_one E cs)" | "b \<in> set l2"
        by (auto split: if_splits)
      then show ?thesis
      proof cases
        case 1
        with two_to_one_thresholded[of E cs] show ?thesis by (auto simp: list_all_iff)
      next
        case 2
        with l2 have t: "two_to_two E cs bits = Inr l2" by (auto split: if_splits)
        from two_to_two_kind[OF t] 2 have k: "get_type b = TwoToTwo" by (auto simp: list_all_iff)
        from two_to_two_branches[OF t] 2
        have "thresholded b \<or>
           ((is_nucleus (type_a_of cs) \<or> is_nucleus (type_b_of cs)) \<and>
            (\<exists>t X. particle_types b = [t, X] \<and> X \<in> set (list_light_nuclei E)))"
          by (simp add: list_all_iff)
        then have "really_small < weight b \<or>
           ((is_nucleus (type_a_of cs) \<or> is_nucleus (type_b_of cs)) \<and>
            (\<exists>t X. particle_types b = [t, X] \<and> X \<in> set (list_light_nuclei E)))"
          by (auto simp: thresholded_def)
        with k show ?thesis by blast
      qed
    qed
  next
    case ann
    then show ?thesis by (simp add: NNbar_annihilation_kind NNbar_annihilation_products)
  next
    case cre
    with \<open>if nnbar = Resonances \<and>
         ((pdgcode (type_a_of cs) = pdg_rho_z \<and> pdgcode (type_b_of cs) = pdg_h1) \<or>
          (pdgcode (type_a_of cs) = pdg_h1 \<and> pdgcode (type_b_of cs) = pdg_rho_z))
      then NNbar_creation E cs = Inr cre else cre = []\<close>
    have r: "nnbar = Resonances"
      and p: "(pdgcode (type_a_of cs) = pdg_rho_z \<and> pdgcode (type_b_of cs) = pdg_h1) \<or>
          (pdgcode (type_a_of cs) = pdg_h1 \<and> pdgcode (type_b_of cs) = pdg_rho_z)"
      and c: "NNbar_creation E cs = Inr cre"
      by (auto split: if_splits)
    from NNbar_creation_kind[OF c] cre have k: "get_type b = TwoToTwo"
      by (simp add: list_all_iff)
    from NNbar_creation_products[OF c] cre
    have "particle_types b = [find_type E pdg_p, find_type E (- pdg_p)] \<or>
          particle_types b = [find_type E pdg_n, find_type E (- pdg_n)]"
      by (simp add: list_all_iff)
    with k r p show ?thesis by blast
  qed
qed

text \<open>
  Claim C3 (as amended). In every list returned by \<open>generate_collision_list\<close>: each
  \<open>TwoToOne\<close> branch has a weight above \<open>really_small\<close>; each string branch has a positive
  weight; each \<open>TwoToTwo\<close> branch has a weight above \<open>really_small\<close>, unless it is one of
  the branches that the code appends without that comparison: the annihilation branch into
  \<open>h\<^sub>1(1170)\<close> and \<open>\<rho>\<^sup>0\<close> (treatment \<open>Resonances\<close>, a nucleon with its antiparticle), the two
  creation branches into \<open>p p\<bar>\<close> and \<open>n n\<bar>\<close> (treatment \<open>Resonances\<close>, \<open>\<rho>\<^sup>0\<close> with \<open>h\<^sub>1(1170)\<close>), and,
  for a pair with a light nucleus, the branches of \<open>dn_xx\<close> and of the second loop of
  \<open>dpi_xx\<close>, whose second product is a light nucleus. The elastic branch is appended
  without the comparison as well.
\<close>

theorem weights_above_threshold:
  assumes "generate_collision_list E cs elastic_parameter two_to_one_switch included_2to2
             low_snn_cut strings_switch nnbar_treatment string_process rng = Inr (bs, st)"
    and "b \<in> set bs"
  shows "(get_type b = TwoToOne \<longrightarrow> really_small < weight b) \<and>
         (get_type b = TwoToTwo \<longrightarrow>
            really_small < weight b \<or>
            (nnbar_treatment = Resonances \<and> is_nucleon (type_a_of cs) \<and>
             pdgcode (type_b_of cs) = - pdgcode (type_a_of cs) \<and>
             particle_types b = [find_type E pdg_h1, find_type E pdg_rho_z]) \<or>
            (nnbar_treatment = Resonances \<and>
             ((pdgcode (type_a_of cs) = pdg_rho_z \<and> pdgcode (type_b_of cs) = pdg_h1) \<or>
              (pdgcode (type_a_of cs) = pdg_h1 \<and> pdgcode (type_b_of cs) = pdg_rho_z)) \<and>
             (particle_types b = [find_type E pdg_p, find_type E (- pdg_p)] \<or>
              particle_types b = [find_type E pdg_n, find_type E (- pdg_n)])) \<or>
            ((is_nucleus (type_a_of cs) \<or> is_nucleus (type_b_of cs)) \<and>
             (\<exists>t X. particle_types b = [t, X] \<and> X \<in> set (list_light_nuclei E)))) \<and>
         (get_type b = StringSoft \<or> get_type b = StringHard \<longrightarrow> 0 < weight b)"
proof -
  note c = gcl_branch_cases[OF assms]
  have 1: "get_type b = TwoToOne \<longrightarrow> really_small < weight b"
    using c by auto
  have 3: "get_type b = StringSoft \<or> get_type b = StringHard \<longrightarrow> 0 < weight b"
    using c by auto
  have 2: "get_type b = TwoToTwo \<longrightarrow>
            really_small < weight b \<or>
            (nnbar_treatment = Resonances \<and> is_nucleon (type_a_of cs) \<and>
             pdgcode (type_b_of cs) = - pdgcode (type_a_of cs) \<and>
             particle_types b = [find_type E pdg_h1, find_type E pdg_rho_z]) \<or>
            (nnbar_treatment = Resonances \<and>
             ((pdgcode (type_a_of cs) = pdg_rho_z \<and> pdgcode (type_b_of cs) = pdg_h1) \<or>
              (pdgcode (type_a_of cs) = pdg_h1 \<and> pdgcode (type_b_of cs) = pdg_rho_z)) \<and>
             (particle_types b = [find_type E pdg_p, find_type E (- pdg_p)] \<or>
              particle_types b = [find_type E pdg_n, find_type E (- pdg_n)])) \<or>
            ((is_nucleus (type_a_of cs) \<or> is_nucleus (type_b_of cs)) \<and>
             (\<exists>t X. particle_types b = [t, X] \<and> X \<in> set (list_light_nuclei E)))"
  proof
    assume k: "get_type b = TwoToTwo"
    with c have "get_type b = TwoToTwo \<and>
            (really_small < weight b \<or>
             (nnbar_treatment = Resonances \<and> is_nucleon (type_a_of cs) \<and>
              pdgcode (type_b_of cs) = - pdgcode (type_a_of cs) \<and>
              particle_types b = [find_type E pdg_h1, find_type E pdg_rho_z]) \<or>
             (nnbar_treatment = Resonances \<and>
              ((pdgcode (type_a_of cs) = pdg_rho_z \<and> pdgcode (type_b_of cs) = pdg_h1) \<or>
               (pdgcode (type_a_of cs) = pdg_h1 \<and> pdgcode (type_b_of cs) = pdg_rho_z)) \<and>
              (particle_types b = [find_type E pdg_p, find_type E (- pdg_p)] \<or>
               particle_types b = [find_type E pdg_n, find_type E (- pdg_n)])) \<or>
             ((is_nucleus (type_a_of cs) \<or> is_nucleus (type_b_of cs)) \<and>
              (\<exists>t X. particle_types b = [t, X] \<and> X \<in> set (list_light_nuclei E))))"
      by simp
    then show "really_small < weight b \<or>
            (nnbar_treatment = Resonances \<and> is_nucleon (type_a_of cs) \<and>
             pdgcode (type_b_of cs) = - pdgcode (type_a_of cs) \<and>
             particle_types b = [find_type E pdg_h1, find_type E pdg_rho_z]) \<or>
            (nnbar_treatment = Resonances \<and>
             ((pdgcode (type_a_of cs) = pdg_rho_z \<and> pdgcode (type_b_of cs) = pdg_h1) \<or>
              (pdgcode (type_a_of cs) = pdg_h1 \<and> pdgcode (type_b_of cs) = pdg_rho_z)) \<and>
             (particle_types b = [find_type E pdg_p, find_type E (- pdg_p)] \<or>
              particle_types b = [find_type E pdg_n, find_type E (- pdg_n)])) \<or>
            ((is_nucleus (type_a_of cs) \<or> is_nucleus (type_b_of cs)) \<and>
             (\<exists>t X. particle_types b = [t, X] \<and> X \<in> set (list_light_nuclei E)))" ..
  qed
  from 1 2 3 show ?thesis by (intro conjI)
qed

text \<open>
  In terms of the incoming pair alone: without a light nucleus, and unless the treatment is
  \<open>Resonances\<close> and the pair is a nucleon with its antiparticle or \<open>\<rho>\<^sup>0\<close> with \<open>h\<^sub>1(1170)\<close>,
  every \<open>TwoToTwo\<close> branch is above \<open>really_small\<close>.
\<close>

lemma two_to_two_weights_by_pair:
  assumes "generate_collision_list E cs ep t21 bits lcut sw nnbar sp rng = Inr (bs, st)"
    and "b \<in> set bs" "get_type b = TwoToTwo"
    and "\<not> is_nucleus (type_a_of cs)" "\<not> is_nucleus (type_b_of cs)"
    and "\<not> (nnbar = Resonances \<and>
            ((is_nucleon (type_a_of cs) \<and> pdgcode (type_b_of cs) = - pdgcode (type_a_of cs)) \<or>
             (pdgcode (type_a_of cs) = pdg_rho_z \<and> pdgcode (type_b_of cs) = pdg_h1) \<or>
             (pdgcode (type_a_of cs) = pdg_h1 \<and> pdgcode (type_b_of cs) = pdg_rho_z)))"
  shows "really_small < weight b"
  using gcl_branch_cases[OF assms(1,2)] assms(3-) by auto

subsection \<open>The elastic branch\<close>

text \<open>
  The list holds a branch of kind \<open>Elastic\<close> exactly when the bit \<open>IR_Elastic\<close> is set and
  the pair is not rejected by the low-energy cut for nucleon pairs of equal antiparticle sign.
  Its weight is the configured constant when that is non-negative, and the value of
  \<open>elastic_parametrization\<close> otherwise.
\<close>

lemma elastic_branch_iff:
  assumes run: "generate_collision_list E cs ep t21 bits lcut sw nnbar sp rng = Inr (bs, st)"
  shows "(\<exists>b \<in> set bs. get_type b = Elastic) \<longleftrightarrow>
           (IR_Elastic \<in> bits \<and> \<not> reject_by_nucleon_elastic_cutoff cs lcut)"
proof
  assume "\<exists>b \<in> set bs. get_type b = Elastic"
  then obtain b where "b \<in> set bs" "get_type b = Elastic" by blast
  with gcl_branch_cases[OF run, of b]
  show "IR_Elastic \<in> bits \<and> \<not> reject_by_nucleon_elastic_cutoff cs lcut" by auto
next
  assume c: "IR_Elastic \<in> bits \<and> \<not> reject_by_nucleon_elastic_cutoff cs lcut"
  from gcl_structure[OF run] obtain el mid rest where
    bs: "bs = el @ mid @ rest"
    and el: "if IR_Elastic \<in> bits \<and> \<not> reject_by_nucleon_elastic_cutoff cs lcut
      then \<exists>b. elastic E cs ep = Inr b \<and> el = [b] else el = []"
    by blast
  from el c obtain b where "elastic E cs ep = Inr b" "el = [b]" by auto
  with bs elastic_kind[of E cs ep b] show "\<exists>b \<in> set bs. get_type b = Elastic" by auto
qed

lemma elastic_branch_weight:
  assumes run: "generate_collision_list E cs ep t21 bits lcut sw nnbar sp rng = Inr (bs, st)"
    and b: "b \<in> set bs" "get_type b = Elastic"
  shows "if ep \<ge> 0 then weight b = ep else elastic_parametrization E cs = Inr (weight b)"
proof -
  from gcl_branch_cases[OF run b(1)] b(2) have "elastic E cs ep = Inr b" by auto
  then show ?thesis
    by (auto simp: elastic_def bindE_Inr branch2_def split: if_splits)
qed

text \<open>
  \<open>elastic_parametrization\<close> enters \<open>nn_el\<close> only for two nucleons of equal antiparticle
  sign. A nucleon meeting an antinucleon matches none of its cases and keeps the initial
  value \<open>0\<close>.
\<close>

lemma elastic_parametrization_nucleon_antinucleon:
  assumes "is_nucleon (type_a_of cs)" "is_nucleon (type_b_of cs)"
    and "\<not> is_pion (type_a_of cs)" "\<not> is_pion (type_b_of cs)"
    and "\<not> is_kaon (type_a_of cs)" "\<not> is_kaon (type_b_of cs)"
    and "antiparticle_sign (type_a_of cs) \<noteq> antiparticle_sign (type_b_of cs)"
  shows "elastic_parametrization E cs = Inr 0"
  using assms by (simp add: elastic_parametrization_def)

subsection \<open>Runs on the sample environment\<close>

lemmas sample_type_simps = sample_p_def sample_n_def sample_pbar_def sample_nbar_def
  sample_pi_p_def sample_rho_z_def sample_h1_def sample_d_def sample_dprime_def
  sample_Nstar1535_p_def plain_type_def

lemma sample_flags:
  "is_nucleon sample_p" "is_nucleon sample_pbar" "is_baryon sample_p" "is_baryon sample_pbar"
  "\<not> is_nucleus sample_p" "\<not> is_nucleus sample_pbar"
  "\<not> is_pion sample_p" "\<not> is_pion sample_pbar" "\<not> is_kaon sample_p" "\<not> is_kaon sample_pbar"
  "antiparticle_sign sample_p = 1" "antiparticle_sign sample_pbar = - 1"
  "pdgcode sample_p = pdg_p" "pdgcode sample_pbar = - pdg_p"
  "\<not> is_nucleon sample_pi_p" "\<not> is_baryon sample_pi_p" "\<not> is_nucleus sample_pi_p"
  "is_pion sample_pi_p" "is_meson sample_pi_p" "pdgcode sample_pi_p = pdg_pi_p"
  by (simp_all add: sample_type_simps antiparticle_sign_def pdg_p_def)

lemma decide_string_off: "decide_string E cs False both rng = (False, rng)"
  by (simp add: decide_string_def Let_def split: option.splits)

lemma sample_ppbar_elastic:
  "elastic sample_env (pair_at sample_p sample_pbar e) ep =
     Inr (branch2 sample_p sample_pbar (if ep \<ge> 0 then ep else 0) Elastic)"
  by (simp add: elastic_def elastic_parametrization_def bindE_def sample_pair_simps sample_flags)

lemma sample_ppbar_two_to_two:
  "two_to_two sample_env (pair_at sample_p sample_pbar e) bits = Inr []"
  by (simp add: two_to_two_def bb_xx_except_nn_def sample_pair_simps sample_flags)

lemma sample_ppbar_closure:
  "nnbar_closure sample_env (pair_at sample_p sample_pbar e) (pl, st) =
     Inr (pl @ [branch2 sample_h1 sample_rho_z (max 0 (100 - sum_xs_of pl)) TwoToTwo], st)"
  by (simp add: nnbar_closure_def NNbar_annihilation_def get_antiparticle_pdgcode_def
      sample_pair_simps sample_flags)
     (simp add: sample_env_def sample_find_def pdg_p_def pdg_n_def pdg_pi_p_def pdg_rho_z_def
      pdg_h1_def)

lemma sample_ppbar_run:
  "generate_collision_list sample_env (pair_at sample_p sample_pbar 4) ep False {IR_Elastic} 0
     False nnbar None 0 =
   Inr ([branch2 sample_p sample_pbar (if ep \<ge> 0 then ep else 0) Elastic] @
        (if nnbar = Resonances
         then [branch2 sample_h1 sample_rho_z (max 0 (100 - (if ep \<ge> 0 then ep else 0))) TwoToTwo]
         else []), None, 0)"
  by (simp add: generate_collision_list_def decide_string_off reject_by_nucleon_elastic_cutoff_def
      sample_ppbar_elastic resonance_arm_def sample_ppbar_two_to_two sample_ppbar_closure
      bindE_def append_list_def sum_xs_of_def branch2_def sample_pair_simps sample_flags)

lemma sample_pipi_run:
  "generate_collision_list sample_env (pair_at sample_pi_p sample_pi_p 1) 0 False {IR_Elastic} 0
     False NoAnnihilation None 0 =
   Inr ([branch2 sample_pi_p sample_pi_p 0 Elastic], None, 0)"
  by (simp add: generate_collision_list_def decide_string_off reject_by_nucleon_elastic_cutoff_def
      elastic_def resonance_arm_def two_to_two_def
      bindE_def append_list_def sample_pair_simps sample_flags)

lemma sample_matrix_element:
  "nn_to_resonance_matrix_element 4 sample_Nstar1535_p sample_p 2 = 7 / (2 * (1.53 * 1.53 + 0.938 * 0.938))"
  "nn_to_resonance_matrix_element 4 sample_Nstar1535_p sample_p 0 =
     6.5 * (14 / (2 * (1.53 * 1.53 + 0.938 * 0.938)))"
  by (simp_all add: nn_to_resonance_matrix_element_def sample_type_simps antiparticle_sign_def
      pdg_p_def)

lemma w_NNstar_values: "really_small < w_NNstar 2" "really_small < w_NNstar 0"
  by (simp_all add: w_NNstar_def sample_matrix_element really_small_def)

lemma sample_pp_nn_xx:
  "nn_xx sample_env (pair_at sample_p sample_p 4) {NN_to_NR} =
     [branch2 sample_Nstar1535_p sample_p (w_NNstar 2) TwoToTwo,
      branch2 sample_Nstar1535_p sample_p (w_NNstar 0) TwoToTwo]"
proof -
  have lists: "list_baryon_resonances sample_env = [sample_Nstar1535_p]"
    "list_nucleons sample_env = [sample_p, sample_n]"
    "I_tot_range sample_env a b = [2, 0]"
    "isospin_clebsch_gordan_sqr_2to2 sample_env a b c d i = 1 / 2"
    "get_integral_NR sample_env m e = 1"
    "try_find sample_env c' = None" for a b c d i m e c'
    by (simp_all add: sample_env_def)
  have ch: "charge sample_Nstar1535_p = 1" "charge sample_p = 1" "charge sample_n = 0"
    "min_mass_kinematic sample_Nstar1535_p = 1.076" "mass sample_p = 0.938"
    "spin sample_Nstar1535_p = 1" "spin sample_p = 1"
    by (simp_all add: sample_type_simps)
  have me: "\<not> nn_to_resonance_matrix_element 4 sample_Nstar1535_p sample_p 2 \<le> 0"
    "\<not> nn_to_resonance_matrix_element 4 sample_Nstar1535_p sample_p 0 \<le> 0"
    by (simp_all add: sample_matrix_element)
  have w: "really_small <
      1 / 2 * real ((1 + 1) * (1 + 1)) *
      nn_to_resonance_matrix_element 4 sample_Nstar1535_p sample_p twoI * 1 / (4 * 4 * 1)
      \<longleftrightarrow> really_small < w_NNstar twoI" for twoI
    by (simp add: w_NNstar_def)
  show ?thesis
    unfolding nn_xx_def find_nn_xsection_from_type_def Let_def sample_pair_simps lists
      sample_flags
    by (simp add: ch me w_NNstar_def really_small_def sample_matrix_element)
qed

lemma sample_pp_run:
  "generate_collision_list sample_env (pair_at sample_p sample_p 4) 0 False {NN_to_NR} 0
     False NoAnnihilation None 0 =
   Inr ([branch2 sample_Nstar1535_p sample_p (w_NNstar 2) TwoToTwo,
         branch2 sample_Nstar1535_p sample_p (w_NNstar 0) TwoToTwo], None, 0)"
  by (simp add: generate_collision_list_def decide_string_off resonance_arm_def two_to_two_def
      sample_pp_nn_xx bindE_def append_list_def sample_pair_simps sample_flags)

lemma sample_pp_closure:
  "nnbar_closure sample_env (pair_at sample_p sample_p e) (pl, st) = Inr (pl, st)"
  by (simp add: nnbar_closure_def get_antiparticle_pdgcode_def sample_pair_simps sample_flags)
     (simp add: pdg_p_def pdg_rho_z_def pdg_h1_def)

lemma sample_pp_resonances_run:
  "generate_collision_list sample_env (pair_at sample_p sample_p 4) 0 False {NN_to_NR} 0
     False Resonances None 0 =
   Inr ([branch2 sample_Nstar1535_p sample_p (w_NNstar 2) TwoToTwo,
         branch2 sample_Nstar1535_p sample_p (w_NNstar 0) TwoToTwo], None, 0)"
  by (simp add: generate_collision_list_def decide_string_off resonance_arm_def two_to_two_def
      sample_pp_nn_xx sample_pp_closure bindE_def append_list_def sample_pair_simps sample_flags)

lemma sample_pp_strings_run:
  "generate_collision_list sample_env (pair_at sample_p sample_p (26 / 5)) 0 False {} 0
     True NoAnnihilation (Some sample_strings) 0 =
   Inr ([branch0 (574 / 25) StringSoft], Some (set_subproc DoubleDiff sample_strings), Suc 0)"
proof -
  have d: "decide_string sample_env (pair_at sample_p sample_p (26 / 5)) True True 0 = (True, 0)"
    by (simp add: decide_string_def sample_pair_simps)
  have parts: "elastic_parametrization sample_env (pair_at sample_p sample_p (26 / 5)) = Inr (426 / 25)"
    "high_energy sample_env (pair_at sample_p sample_p (26 / 5)) = 40"
    "string_hard_cross_section sample_env (pair_at sample_p sample_p (26 / 5)) = 0"
    by (simp_all add: elastic_parametrization_def nn_el_def high_energy_def
      string_hard_cross_section_def sample_pair_simps sample_flags)
      (simp_all add: sample_env_def)
  have s: "string_excitation sample_env (pair_at sample_p sample_p (26 / 5)) (Some sample_strings) 0 =
     Inr ([branch0 (574 / 25) StringSoft], Some (set_subproc DoubleDiff sample_strings), Suc 0)"
    unfolding string_excitation_def parts sample_pair_simps
    by (simp add: bindE_def sample_strings_def rescale_diffractive_def cassert_def
      nondiffractive_soft_of_def select_soft_def sample_env_def)
  show ?thesis
    by (simp add: generate_collision_list_def d string_arm_def s bindE_def append_list_def
        sample_pair_simps sample_flags)
qed

lemma sample_pp4_hard:
  "elastic_parametrization sample_env_hard (pair_at sample_p sample_p 4) = Inr 6"
  "high_energy sample_env_hard (pair_at sample_p sample_p 4) = 40"
  "string_hard_cross_section sample_env_hard (pair_at sample_p sample_p 4) = 1"
  by (simp_all add: elastic_parametrization_def nn_el_def high_energy_def
      string_hard_cross_section_def sample_pair_simps sample_flags)
     (simp_all add: sample_env_hard_def sample_env_def)

lemma sample_pp4_hard_strings:
  "string_excitation sample_env_hard (pair_at sample_p sample_p 4) (Some sample_strings) 0 =
     Inr ([branch0 (34 - (14 - 14 * exp (- 1 / 14))) StringSoft,
           branch0 (14 - 14 * exp (- 1 / 14)) StringHard],
          Some (set_subproc DoubleDiff sample_strings), Suc 0)"
proof -
  have "0 < exp (- (1 / 14) :: real)" "exp (- (1 / 14) :: real) < 1" by simp_all
  then have f: "7 * exp (- (1 / 14) :: real) < 10" "0 < 20 + 14 * exp (- (1 / 14) :: real)"
    "\<not> 12 + 14 * exp (- (1 / 14) :: real) < 0" "- (14 * exp (- (1 / 14) :: real)) < 20"
    by linarith+
  show ?thesis
    unfolding string_excitation_def sample_pp4_hard sample_pair_simps
    by (simp add: bindE_def sample_strings_def rescale_diffractive_def cassert_def
        nondiffractive_soft_of_def select_soft_def sample_env_hard_def sample_env_def
        sample_pp4(4) Let_def f)
qed

lemma w_formation_value: "really_small < w_formation"
proof -
  have P: "pCM_sqr 2 (mass sample_pi_p) (mass sample_n) = 2842224 * 336 / 1600000000"
    by (simp add: pCM_sqr_def pCM_sqr_from_s_def sample_type_simps power2_eq_square)
  have f: "w_formation = (2 * hbarc * hbarc / fm2_mb / (2842224 * 336 / 1600000000)) * (pi * pi)"
    unfolding w_formation_def formation_def P Let_def sample_pair_simps
    by (simp add: sample_env_def pair_at_def at_rest_def sample_type_simps pdg_pi_p_def pdg_n_def
        mult_ac)
  have "1 < pi" using pi_ge_two by simp
  then have "1 < pi * pi" by (intro less_1_mult)
  moreover have c: "really_small < 2 * hbarc * hbarc / fm2_mb / (2842224 * 336 / 1600000000)"
    by (simp add: really_small_def hbarc_def fm2_mb_def)
  moreover have "0 < really_small" by (simp add: really_small_def)
  ultimately have "really_small * 1 <
      (2 * hbarc * hbarc / fm2_mb / (2842224 * 336 / 1600000000)) * (pi * pi)"
    by (intro mult_strict_mono) simp_all
  then show ?thesis by (simp add: f)
qed

lemma sample_pin_two_to_one:
  "two_to_one sample_env (pair_at sample_pi_p sample_n 2) =
     [branch1 sample_Nstar1535_p w_formation TwoToOne]"
proof -
  have zero: "formation sample_env (pair_at sample_pi_p sample_n 2) sample_rho_z x = 0"
    "formation sample_env (pair_at sample_pi_p sample_n 2) sample_h1 x = 0"
    "formation sample_env (pair_at sample_pi_p sample_n 2) sample_dprime x = 0" for x
    by (simp_all add: formation_def sample_pair_simps sample_type_simps)
  have stab: "is_stable sample_p" "is_stable sample_n" "is_stable sample_pbar" "is_stable sample_nbar"
    "is_stable sample_pi_p" "is_stable sample_d" "\<not> is_stable sample_Nstar1535_p"
    "\<not> is_stable sample_rho_z" "\<not> is_stable sample_h1" "\<not> is_stable sample_dprime"
    by (simp_all add: sample_type_simps)
  have masses: "effective_mass (fst (incoming_particles (pair_at sample_pi_p sample_n 2))) = mass sample_pi_p"
    "effective_mass (snd (incoming_particles (pair_at sample_pi_p sample_n 2))) = mass sample_n"
    by (simp_all add: pair_at_def at_rest_def)
  have l: "list_all_types sample_env = [sample_p, sample_n, sample_pbar, sample_nbar, sample_pi_p,
        sample_Nstar1535_p, sample_rho_z, sample_h1, sample_d, sample_dprime]"
    by (simp add: sample_env_def)
  have "\<not> really_small < 0" by (simp add: really_small_def)
  then show ?thesis
    unfolding two_to_one_def Let_def l masses sample_pair_simps
    using w_formation_value
    by (simp add: stab zero w_formation_def[symmetric])
qed

lemma sample_pin_run:
  "generate_collision_list sample_env (pair_at sample_pi_p sample_n 2) 0 True {} 0
     False NoAnnihilation None 0 =
   Inr ([branch1 sample_Nstar1535_p w_formation TwoToOne], None, 0)"
  by (simp add: generate_collision_list_def decide_string_off resonance_arm_def
      sample_pin_two_to_one bindE_def append_list_def)

lemma sample_nbar_d_run:
  "generate_collision_list sample_env (pair_at sample_nbar sample_d 100000) 0 False {NN_to_NR} 0
     False NoAnnihilation None 0 =
   Inr ([branch2 sample_nbar sample_dprime (20442 / 50000000000) TwoToTwo], None, 0)"
proof -
  have dn: "dn_xx sample_env (pair_at sample_nbar sample_d 100000) bits =
     Inr [branch2 sample_nbar sample_dprime (20442 / 50000000000) TwoToTwo]" for bits
    unfolding dn_xx_def sample_pair_simps Let_def
    by (simp add: sample_env_def sample_nbar_def sample_d_def sample_dprime_def plain_type_def
        same_type_def bindE_def cassert_def pdg_decimal_d_def)
  have fl: "is_baryon sample_nbar" "\<not> is_baryon sample_d" "\<not> is_meson sample_d"
    "\<not> is_meson sample_nbar" "is_nucleus sample_d" "is_nucleon sample_nbar" "\<not> is_nucleon sample_d"
    by (simp_all add: sample_type_simps)
  show ?thesis
    by (simp add: generate_collision_list_def decide_string_off resonance_arm_def two_to_two_def
        dn bindE_def append_list_def sample_pair_simps fl)
qed

lemma sample_pp_tiny_strings_run:
  "generate_collision_list sample_env_hard (pair_at sample_p sample_p (707106781 / 100000000)) 0
     False {} 0 True NoAnnihilation (Some sample_strings) 0 =
   Inr ([branch0 (50 - (707106781 / 100000000)\<^sup>2) StringSoft],
        Some (set_subproc SingleDiffXB sample_strings), Suc 0)"
proof -
  let ?cs = "pair_at sample_p sample_p (707106781 / 100000000)"
  have d: "decide_string sample_env_hard ?cs True True 0 = (True, 0)"
    by (simp add: decide_string_def sample_pair_simps)
  have parts: "elastic_parametrization sample_env_hard ?cs = Inr ((707106781 / 100000000)\<^sup>2 - 10)"
    "high_energy sample_env_hard ?cs = 40"
    "string_hard_cross_section sample_env_hard ?cs = 1"
    by (simp_all add: elastic_parametrization_def nn_el_def high_energy_def
      string_hard_cross_section_def sample_pair_simps sample_flags)
      (simp_all add: sample_env_hard_def sample_env_def power2_eq_square)
  have s: "string_excitation sample_env_hard ?cs (Some sample_strings) 0 =
     Inr ([branch0 (50 - (707106781 / 100000000)\<^sup>2) StringSoft],
          Some (set_subproc SingleDiffXB sample_strings), Suc 0)"
    unfolding string_excitation_def parts sample_pair_simps
    by (simp add: bindE_def sample_strings_def rescale_diffractive_def cassert_def
      nondiffractive_soft_of_def select_soft_def sample_env_hard_def sample_env_def
      power2_eq_square)
  show ?thesis
    by (simp add: generate_collision_list_def d string_arm_def s bindE_def append_list_def
        sample_pair_simps sample_flags)
qed

lemma tiny_budget: "0 < 50 - (707106781 / 100000000 :: real)\<^sup>2"
  "\<not> really_small < 50 - (707106781 / 100000000 :: real)\<^sup>2"
  by (simp_all add: really_small_def power2_eq_square)

theorem nnbar_annihilation_residual_witness:
  "generate_collision_list sample_env (pair_at sample_p sample_pbar 4) 30 False {IR_Elastic} 0
     False Resonances None 0 =
   Inr ([branch2 sample_p sample_pbar 30 Elastic, branch2 sample_h1 sample_rho_z 70 TwoToTwo],
        None, 0) \<and>
   (\<exists>others. [branch2 sample_p sample_pbar 30 Elastic, branch2 sample_h1 sample_rho_z 70 TwoToTwo] =
      others @ [branch2 (find_type sample_env pdg_h1) (find_type sample_env pdg_rho_z)
        (max 0 (ppbar_total sample_env (4\<^sup>2) - sum_list (map weight others))) TwoToTwo])"
proof -
  have run: "generate_collision_list sample_env (pair_at sample_p sample_pbar 4) 30 False
      {IR_Elastic} 0 False Resonances None 0 =
    Inr ([branch2 sample_p sample_pbar 30 Elastic, branch2 sample_h1 sample_rho_z 70 TwoToTwo],
        None, 0)"
    by (simp add: sample_ppbar_run)
  from nnbar_annihilation_residual[OF run] show ?thesis
    by (simp add: run sample_pair_simps sample_flags)
qed

theorem weights_above_threshold_witness:
  "really_small < weight (branch2 sample_Nstar1535_p sample_p (w_NNstar 2) TwoToTwo) \<and>
   really_small < weight (branch2 sample_Nstar1535_p sample_p (w_NNstar 0) TwoToTwo) \<and>
   0 < weight (branch0 (574 / 25) StringSoft) \<and>
   really_small < weight (branch1 sample_Nstar1535_p w_formation TwoToOne)"
  using weights_above_threshold[OF sample_pp_resonances_run,
      of "branch2 sample_Nstar1535_p sample_p (w_NNstar 2) TwoToTwo"]
    weights_above_threshold[OF sample_pp_run,
      of "branch2 sample_Nstar1535_p sample_p (w_NNstar 0) TwoToTwo"]
    weights_above_threshold[OF sample_pp_strings_run, of "branch0 (574 / 25) StringSoft"]
    weights_above_threshold[OF sample_pin_run,
      of "branch1 sample_Nstar1535_p w_formation TwoToOne"]
  by (simp add: branch2_def branch1_def branch0_def sample_pair_simps sample_flags
      pdg_p_def pdg_rho_z_def pdg_h1_def)

lemma sample_rho_h1_run:
  "generate_collision_list sample_env (pair_at sample_rho_z sample_h1 11) 0 False {} 0
     False Resonances None 0 =
   Inr ([branch2 sample_p sample_pbar 0 TwoToTwo, branch2 sample_n sample_nbar 0 TwoToTwo],
        None, 0)"
proof -
  have f: "find_type sample_env pdg_p = sample_p" "find_type sample_env (- pdg_p) = sample_pbar"
    "find_type sample_env pdg_n = sample_n" "find_type sample_env (- pdg_n) = sample_nbar"
    by (simp_all add: sample_env_def sample_find_def pdg_p_def pdg_n_def)
  have z: "max 0 (ppbar_total sample_env (11 * 11) - ppbar_elastic sample_env (11 * 11)) = 0"
    by (simp add: sample_env_def)
  have c: "NNbar_creation sample_env (pair_at sample_rho_z sample_h1 11) =
     Inr [branch2 sample_p sample_pbar 0 TwoToTwo, branch2 sample_n sample_nbar 0 TwoToTwo]"
    unfolding NNbar_creation_def Let_def f z sample_pair_simps
    by (simp add: detailed_balance_factor_RR_def bindE_def cassert_def sample_type_simps)
  have fl: "\<not> is_nucleon sample_rho_z" "pdgcode sample_rho_z = pdg_rho_z"
    "pdgcode sample_h1 = pdg_h1"
    by (simp_all add: sample_type_simps)
  show ?thesis
    by (simp add: generate_collision_list_def decide_string_off resonance_arm_def
        nnbar_closure_def c bindE_def append_list_def sample_pair_simps fl)
qed

lemma w_dpi_small: "0 < w_dpi" "\<not> really_small < w_dpi"
  by (simp_all add: w_dpi_def pow_int_def really_small_def power2_eq_square)

lemma concat_map_Nil: "(\<And>x. x \<in> set xs \<Longrightarrow> f x = []) \<Longrightarrow> concat (map f xs) = []"
  by (induction xs) auto

lemma sample_pid_run:
  "generate_collision_list sample_env (pair_at sample_pi_p sample_d 100000) 0 False {NN_to_NR} 0
     False NoAnnihilation None 0 =
   Inr ([branch2 sample_pi_p sample_dprime w_dpi TwoToTwo], None, 0)"
proof -
  have me: "nn_to_resonance_matrix_element 100000 sample_pi_p sample_d twoI = 0" for twoI
    by (simp add: nn_to_resonance_matrix_element_def sample_type_simps)
  have nn: "dpi_to_NN sample_env (pair_at sample_pi_p sample_d 100000) = []"
    unfolding dpi_to_NN_def Let_def sample_pair_simps me
    by (intro concat_map_Nil) auto
  have fl: "\<not> is_baryon sample_d" "\<not> is_meson sample_d" "is_nucleus sample_d"
    "\<not> is_nucleon sample_d" "is_deuteron sample_d" "\<not> is_pion sample_d"
    by (simp_all add: sample_type_simps)
  have pn: "dpi_to_pi_nucleus sample_env (pair_at sample_pi_p sample_d 100000) [] =
     Inr [branch2 sample_pi_p sample_dprime w_dpi TwoToTwo]"
    unfolding dpi_to_pi_nucleus_def sample_pair_simps Let_def
    by (simp add: sample_env_def sample_pi_p_def sample_d_def sample_dprime_def plain_type_def
        same_type_def bindE_def cassert_def pdg_decimal_d_def w_dpi_def branch2_def)
  have dpi: "dpi_xx sample_env (pair_at sample_pi_p sample_d 100000) bits =
     Inr [branch2 sample_pi_p sample_dprime w_dpi TwoToTwo]" for bits
    by (simp add: dpi_xx_def Let_def sample_pair_simps sample_flags fl nn pn)
  show ?thesis
    by (simp add: generate_collision_list_def decide_string_off resonance_arm_def two_to_two_def
        dpi bindE_def append_list_def sample_pair_simps sample_flags fl)
qed

text \<open>
  Six runs whose lists hold a branch at or below \<open>really_small\<close>: an elastic branch of
  weight \<open>0\<close> from a configured constant \<open>0\<close>; an annihilation branch of weight \<open>0\<close> when the
  elastic branch alone exceeds the total; a \<open>dn_xx\<close> branch at a very high energy; a soft
  string branch when the string budget is tiny; the two creation branches of weight \<open>0\<close>
  when the elastic parametrization exceeds the total; a branch of the second loop of
  \<open>dpi_xx\<close> at a very high energy.
\<close>

theorem weights_above_threshold_counterexample:
  "generate_collision_list sample_env (pair_at sample_pi_p sample_pi_p 1) 0 False {IR_Elastic} 0
     False NoAnnihilation None 0 =
   Inr ([branch2 sample_pi_p sample_pi_p 0 Elastic], None, 0) \<and>
   \<not> really_small < weight (branch2 sample_pi_p sample_pi_p 0 Elastic) \<and>
   generate_collision_list sample_env (pair_at sample_p sample_pbar 4) 200 False {IR_Elastic} 0
     False Resonances None 0 =
   Inr ([branch2 sample_p sample_pbar 200 Elastic, branch2 sample_h1 sample_rho_z 0 TwoToTwo],
        None, 0) \<and>
   \<not> really_small < weight (branch2 sample_h1 sample_rho_z 0 TwoToTwo) \<and>
   generate_collision_list sample_env (pair_at sample_nbar sample_d 100000) 0 False {NN_to_NR} 0
     False NoAnnihilation None 0 =
   Inr ([branch2 sample_nbar sample_dprime (20442 / 50000000000) TwoToTwo], None, 0) \<and>
   \<not> really_small < weight (branch2 sample_nbar sample_dprime (20442 / 50000000000) TwoToTwo) \<and>
   generate_collision_list sample_env_hard (pair_at sample_p sample_p (707106781 / 100000000)) 0
     False {} 0 True NoAnnihilation (Some sample_strings) 0 =
   Inr ([branch0 (50 - (707106781 / 100000000)\<^sup>2) StringSoft],
        Some (set_subproc SingleDiffXB sample_strings), Suc 0) \<and>
   \<not> really_small < weight (branch0 (50 - (707106781 / 100000000)\<^sup>2) StringSoft) \<and>
   generate_collision_list sample_env (pair_at sample_rho_z sample_h1 11) 0 False {} 0
     False Resonances None 0 =
   Inr ([branch2 sample_p sample_pbar 0 TwoToTwo, branch2 sample_n sample_nbar 0 TwoToTwo],
        None, 0) \<and>
   \<not> really_small < weight (branch2 sample_p sample_pbar 0 TwoToTwo) \<and>
   generate_collision_list sample_env (pair_at sample_pi_p sample_d 100000) 0 False {NN_to_NR} 0
     False NoAnnihilation None 0 =
   Inr ([branch2 sample_pi_p sample_dprime w_dpi TwoToTwo], None, 0) \<and>
   \<not> really_small < weight (branch2 sample_pi_p sample_dprime w_dpi TwoToTwo)"
  using sample_pipi_run sample_ppbar_run[of 200 Resonances] sample_nbar_d_run
    sample_pp_tiny_strings_run tiny_budget sample_rho_h1_run sample_pid_run w_dpi_small
  by (simp add: branch2_def branch0_def really_small_def)

text \<open>
  Claim C1. The claim gives the elastic weight of a nucleon--nucleon pair as one of the
  \<open>pp\<close>, \<open>np\<close> and \<open>ppbar\<close> elastic parametrizations, and \<open>nn_el\<close> has a case for each of the
  three. For a proton meeting an antiproton with a negative configured constant the list
  nevertheless holds an elastic branch of weight \<open>0\<close>: the case of \<open>nn_el\<close> that returns
  \<open>ppbar_elastic s\<close> (here \<open>6\<close>) is never reached, because \<open>elastic_parametrization\<close> calls
  \<open>nn_el\<close> only for equal antiparticle signs.
\<close>

theorem elastic_nucleon_antinucleon_weight_zero:
  "generate_collision_list sample_env (pair_at sample_p sample_pbar 4) (- 1) False {IR_Elastic} 0
     False NoAnnihilation None 0 =
   Inr ([branch2 sample_p sample_pbar 0 Elastic], None, 0) \<and>
   nn_el sample_env (pair_at sample_p sample_pbar 4) = Inr (ppbar_elastic sample_env (4 * 4)) \<and>
   ppbar_elastic sample_env (4 * 4) = 6"
proof -
  have "nn_el sample_env (pair_at sample_p sample_pbar 4) = Inr (ppbar_elastic sample_env (4 * 4))"
    by (simp add: nn_el_def sample_pair_simps sample_flags)
      (simp add: sample_env_def)
  moreover have "ppbar_elastic sample_env (4 * 4) = 6" by (simp add: sample_env_def)
  ultimately show ?thesis by (simp add: sample_ppbar_run)
qed

end
